theory Spec2Isabelle
  imports Complex_Main "HOL-Library.Multiset"
begin

section \<open>Geometry supplied by the host environment\<close>

text \<open>
  The scripts receive Rhino geometry. A \<open>Point3d\<close> is a triple of coordinates and
  \<open>DistanceTo\<close> is the Euclidean distance. Floating-point numbers are modelled as
  real numbers throughout: rounding, overflow and NaN are outside this development.
\<close>

record point =
  X :: real
  Y :: real
  Z :: real

definition DistanceTo :: "point \<Rightarrow> point \<Rightarrow> real" where
  "DistanceTo p q = sqrt ((X p - X q)\<^sup>2 + (Y p - Y q)\<^sup>2 + (Z p - Z q)\<^sup>2)"

text \<open>
  The path optimizer reads only the two end points of a curve and calls \<open>Reverse\<close>,
  which exchanges them. The generators read more of a curve; they use the extension
  \<open>toolpath\<close> of this record, declared with them.
\<close>

record curve =
  PointAtStart :: point
  PointAtEnd :: point

definition Reverse :: "curve \<Rightarrow> curve" where
  "Reverse c = c\<lparr>PointAtStart := PointAtEnd c, PointAtEnd := PointAtStart c\<rparr>"

section \<open>Printing path optimizer (version 240811)\<close>

text \<open>
  The \<open>for i, curve in enumerate(unvisited)\<close> loop of
  \<open>sort_curves_nearest_neighbor\<close>. Its state is the triple
  \<open>(closest_curve_index, closest_distance, flip)\<close>; \<open>None\<close> stands for the initial
  state, index \<open>None\<close> and distance \<open>float('inf')\<close>, which every real distance is below.
\<close>

fun scan_closest ::
  "point \<Rightarrow> curve list \<Rightarrow> nat \<Rightarrow> (nat \<times> real \<times> bool) option \<Rightarrow> (nat \<times> real \<times> bool) option"
where
  "scan_closest p [] i best = best"
| "scan_closest p (c # cs) i best =
     (let d_start = DistanceTo p (PointAtStart c);
          d_end = DistanceTo p (PointAtEnd c)
      in if (case best of None \<Rightarrow> True
             | Some (_, closest_distance, _) \<Rightarrow> min d_start d_end < closest_distance)
         then scan_closest p cs (Suc i) (Some (i, min d_start d_end, d_start > d_end))
         else scan_closest p cs (Suc i) best)"

text \<open>
  One round of the algorithm: scan, reverse the chosen curve if its end is closer, pop it
  from \<open>unvisited\<close>. The result is the chosen curve and the rest of \<open>unvisited\<close>.
  \<open>None\<close> is a raised exception: no index was chosen, or \<open>pop\<close> out of range.
\<close>

definition pick_closest :: "point \<Rightarrow> curve list \<Rightarrow> (curve \<times> curve list) option" where
  "pick_closest p unvisited =
     (case scan_closest p unvisited 0 None of
        None \<Rightarrow> None
      | Some (closest_curve_index, _, flip) \<Rightarrow>
          if closest_curve_index < length unvisited
          then Some ((if flip then Reverse (unvisited ! closest_curve_index)
                      else unvisited ! closest_curve_index),
                     take closest_curve_index unvisited @ drop (Suc closest_curve_index) unvisited)
          else None)"

text \<open>The \<open>while unvisited\<close> loop.\<close>

function nn_loop :: "point \<Rightarrow> curve list \<Rightarrow> curve list \<Rightarrow> curve list option" where
  "nn_loop current_point unvisited sorted_curves =
     (if unvisited = [] then Some sorted_curves
      else case pick_closest current_point unvisited of
             None \<Rightarrow> None
           | Some (c, rest) \<Rightarrow> nn_loop (PointAtEnd c) rest (sorted_curves @ [c]))"
  by pat_completeness auto
termination
  by (relation "measure (\<lambda>(p, unvisited, s). length unvisited)")
     (auto simp: pick_closest_def split: option.splits if_splits)

declare nn_loop.simps [simp del]

definition sort_curves_nearest_neighbor :: "curve list \<Rightarrow> point \<Rightarrow> curve list option" where
  "sort_curves_nearest_neighbor curves start_point =
     (if curves = [] then Some []
      else case pick_closest start_point curves of
             None \<Rightarrow> None
           | Some (c, rest) \<Rightarrow> nn_loop (PointAtEnd c) rest [c])"

text \<open>
  A list of curves, each either kept or reversed: what a tour is compared with.
\<close>

definition reoriented :: "curve list \<Rightarrow> curve list \<Rightarrow> bool" where
  "reoriented xs ys = list_all2 (\<lambda>x y. y = x \<or> y = Reverse x) xs ys"

text \<open>
  Every curve of the list is entered at its nearer end, coming from the end of the one
  before it (from \<open>p\<close> for the first).
\<close>

fun approached :: "point \<Rightarrow> curve list \<Rightarrow> bool" where
  "approached p [] = True"
| "approached p (c # cs) =
     (DistanceTo p (PointAtStart c) \<le> DistanceTo p (PointAtEnd c) \<and> approached (PointAtEnd c) cs)"

section \<open>Python values and curves as the generators see them\<close>

text \<open>
  The generators also ask a curve whether it is valid, for its length, for the point at a
  parameter, and for its division by a segment length. These are calls into the host
  geometry library: the model takes their answers as fields of the curve.
  \<open>DivideByLength\<close> answers with a list of curve parameters or with \<open>None\<close>.
\<close>

record toolpath = curve +
  IsValid :: bool
  GetLength :: real
  PointAt :: "real \<Rightarrow> point"
  DivideByLength :: "real \<Rightarrow> bool \<Rightarrow> real list option"

text \<open>A parameter that arrives as a number or as a (possibly nested) list of numbers.\<close>

datatype pyval = Num real | PyList "pyval list"

fun flatten :: "pyval list \<Rightarrow> real list" where
  "flatten [] = []"
| "flatten (Num x # lst) = x # flatten lst"
| "flatten (PyList l # lst) = flatten l @ flatten lst"

text \<open>Exceptions that the scripts can raise.\<close>

datatype exn =
  ZeroDivisionError | IndexError | NameError | AttributeError | TypeError | ValueError

text \<open>\<open>int(x)\<close> on a float truncates towards zero.\<close>

definition py_int :: "real \<Rightarrow> int" where
  "py_int x = (if 0 \<le> x then \<lfloor>x\<rfloor> else \<lceil>x\<rceil>)"

text \<open>\<open>xs[i]\<close>: a negative index counts from the end; out of range is an IndexError.\<close>

definition py_index :: "'a list \<Rightarrow> int \<Rightarrow> 'a option" where
  "py_index xs i =
     (if 0 \<le> i \<and> i < int (length xs) then Some (xs ! nat i)
      else if i < 0 \<and> - int (length xs) \<le> i then Some (xs ! nat (int (length xs) + i))
      else None)"

section \<open>Curve segmenter (versions 240720, 240811 and 241001)\<close>

definition nozzle_div :: real where
  "nozzle_div = 2"

text \<open>
  The point sequence of one curve: \<open>DivideByLength(nozzle_diameter / 2, True)\<close>, the
  points at the returned parameters, the start point inserted in front and the end point
  appended. \<open>None\<close> is the \<open>continue\<close> taken when the division returns \<open>None\<close>: the
  curve is skipped.
\<close>

definition segment_points :: "real \<Rightarrow> toolpath \<Rightarrow> point list option" where
  "segment_points nozzle_diameter c =
     (case DivideByLength c (nozzle_diameter / nozzle_div) True of
        None \<Rightarrow> None
      | Some curve_params \<Rightarrow>
          Some (PointAtStart c # map (PointAt c) curve_params @ [PointAtEnd c]))"

text \<open>
  \<open>cumulative_distances\<close> starts as \<open>[0.0]\<close> and gets one entry per further point: the
  last entry plus the distance from the point before.
\<close>

fun cumulative_from :: "real \<Rightarrow> point list \<Rightarrow> real list" where
  "cumulative_from acc (p # q # ps) =
     (acc + DistanceTo p q) # cumulative_from (acc + DistanceTo p q) (q # ps)"
| "cumulative_from acc ps = []"

definition cumulative_distances :: "point list \<Rightarrow> real list" where
  "cumulative_distances points = 0 # cumulative_from 0 points"

definition normalized_distances :: "point list \<Rightarrow> real list" where
  "normalized_distances points =
     (let total_curve_length = last (cumulative_distances points)
      in map (\<lambda>d. if total_curve_length > 0 then d / total_curve_length else 0)
           (cumulative_distances points))"

text \<open>
  The loops \<open>for i in range(1, len(points))\<close> visit the segments of the chain: the point
  before, the point, and \<open>normalized_distances[i]\<close>.
\<close>

definition segments :: "point list \<Rightarrow> (point \<times> point \<times> real) list" where
  "segments points = zip points (zip (tl points) (tl (normalized_distances points)))"

section \<open>Failures, program lines and loops shared by the generators\<close>

text \<open>
  \<open>Rejected r layers\<close> is the return of \<open>(None, None, None, None, layers)\<close> after the
  message for \<open>r\<close> has been printed; \<open>Raised e\<close> is an exception leaving the function.
\<close>

datatype reason =
  NoValidCurves | SpeedCountMismatch | SpeedOutOfRange | FluxCountMismatch
  | LinearFluxMissing | LinearFluxLengthMismatch

datatype failure = Rejected reason "int option" | Raised exn

text \<open>
  A line of the program. Numbers are kept as they are before formatting (the scripts
  print coordinates and extrusion values with a fixed number of digits, feed rates with
  none). The text of a \<open>;\<close> comment line is not modelled, except for the layer number
  of the layer markers.
\<close>

datatype line =
    Comment
  | LayerStart int
  | LayerEnd int
  | G90
  | M82
  | M83
  | G28
  | G92_E real
  | G1_E_F real real
  | G1_Z_F real real
  | G0 real point
  | G1 real point real
  | G1_F_Z real real

text \<open>A \<open>for\<close> loop whose body updates a state or raises.\<close>

fun for_each :: "('a \<Rightarrow> 's \<Rightarrow> exn + 's) \<Rightarrow> 'a list \<Rightarrow> 's \<Rightarrow> exn + 's" where
  "for_each body [] s = Inr s"
| "for_each body (x # xs) s =
     (case body x s of Inl e \<Rightarrow> Inl e | Inr s' \<Rightarrow> for_each body xs s')"

text \<open>
  The outputs \<open>g_code\<close>, \<open>printing_time\<close> (in minutes), \<open>printing_path_len\<close> and
  \<open>layers\<close> of versions 240811 and 241001. The output \<open>printing_points\<close> is left out.
\<close>

record outputs =
  g_code :: "line list"
  printing_time :: real
  printing_path_len :: real
  layers :: int


section \<open>G-code generation, version 240720\<close>

text \<open>The fourteen lines of the start block and the five of the end block.\<close>

definition start_block_240720 :: "line list" where
  "start_block_240720 =
     replicate 6 Comment
     @ [Comment, G90, M82, G28, G92_E 0, G1_E_F (- 4) 6000, G1_Z_F 2 12000, Comment]"

definition end_block_240720 :: "line list" where
  "end_block_240720 = [Comment, G92_E 0, G1_E_F (- 4) 6000, G28, Comment]"

text \<open>
  State of the loop over the curves: the lines so far, \<open>total_extrusion_distance\<close>,
  \<open>total_travel_distance\<close>, \<open>extrusion_amount\<close> and \<open>previous_point\<close>.
\<close>

record run_240720 =
  gcode_a :: "line list"
  total_extrusion_distance_a :: real
  total_travel_distance_a :: real
  extrusion_amount_a :: real
  previous_point_a :: "point option"

text \<open>
  The loop over the points of a curve. The first point emits nothing; every point
  becomes \<open>previous_point\<close>.
\<close>

fun points_240720 :: "real \<Rightarrow> real \<Rightarrow> bool \<Rightarrow> point list \<Rightarrow> run_240720 \<Rightarrow> exn + run_240720" where
  "points_240720 speed fl first [] s = Inr s"
| "points_240720 speed fl first (pt # pts) s =
     (if first then points_240720 speed fl False pts (s\<lparr>previous_point_a := Some pt\<rparr>)
      else
        (case previous_point_a s of
           None \<Rightarrow> Inl AttributeError
         | Some previous_point \<Rightarrow>
             (let segment_distance = DistanceTo previous_point pt
              in points_240720 speed fl False pts
                   (s\<lparr>total_extrusion_distance_a := total_extrusion_distance_a s + segment_distance,
                      extrusion_amount_a := extrusion_amount_a s + segment_distance * fl,
                      gcode_a := gcode_a s
                        @ [G1 speed pt (extrusion_amount_a s + segment_distance * fl)],
                      previous_point_a := Some pt\<rparr>))))"

definition curve_240720 :: "real \<Rightarrow> real \<Rightarrow> real \<Rightarrow> toolpath \<Rightarrow> run_240720 \<Rightarrow> exn + run_240720" where
  "curve_240720 nozzle speed fl c s =
     (if \<not> IsValid c \<or> GetLength c \<le> 0 then Inr s
      else
        (case segment_points nozzle c of
           None \<Rightarrow> Inr s
         | Some points \<Rightarrow>
             points_240720 speed fl True points
               (case previous_point_a s of
                  None \<Rightarrow> s
                | Some previous_point \<Rightarrow>
                    s\<lparr>total_travel_distance_a :=
                        total_travel_distance_a s + DistanceTo previous_point (hd points)\<rparr>)))"

definition travel_speed :: real where
  "travel_speed = 12000"

text \<open>
  The result is \<open>g_code\<close>, the printing time in minutes and \<open>printing_path_len\<close>.
  This version returns four values and has no layer count.
\<close>

definition generate_gcode_240720 ::
  "toolpath list \<Rightarrow> real \<Rightarrow> real \<Rightarrow> real \<Rightarrow> real \<Rightarrow> failure + (line list \<times> real \<times> real)"
where
  "generate_gcode_240720 path nozzle speed fl layer_height =
     (if speed < 1800 \<or> speed > 11000 then Inl (Rejected SpeedOutOfRange None)
      else
        (case for_each (curve_240720 nozzle speed fl) path
                \<lparr>gcode_a = start_block_240720, total_extrusion_distance_a = 0,
                 total_travel_distance_a = 0, extrusion_amount_a = 0,
                 previous_point_a = None\<rparr> of
           Inl e \<Rightarrow> Inl (Raised e)
         | Inr s \<Rightarrow>
             Inr (gcode_a s @ end_block_240720,
                  total_extrusion_distance_a s / speed + total_travel_distance_a s / travel_speed,
                  sum_list (map GetLength (filter (\<lambda>c. IsValid c \<and> GetLength c > 0) path)))))"

section \<open>G-code generation, version 240811\<close>

text \<open>
  \<open>printing_flux\<close> is wrapped into a list if it is not one; a list is used as it is, so
  its elements are Python values. Multiplying a distance by an element that is itself a
  list is a TypeError.
\<close>

definition flux_list_240811 :: "pyval \<Rightarrow> pyval list" where
  "flux_list_240811 printing_flux = (case printing_flux of Num x \<Rightarrow> [Num x] | PyList lst \<Rightarrow> lst)"

definition start_block_240811 :: "line list" where
  "start_block_240811 =
     replicate 5 Comment
     @ [Comment, G90, M82, G28, G92_E 0, G1_E_F (- 4) 6000, G1_Z_F 2 12000, Comment]"

definition end_block_240811 :: "line list" where
  "end_block_240811 = [Comment, G92_E 0, G1_E_F (- 4) 6000, G28, Comment]"

record run_240811 =
  gcode_b :: "line list"
  total_extrusion_distance_b :: real
  total_travel_distance_b :: real
  extrusion_amount_b :: real
  previous_point_b :: "point option"

definition segment_240811 ::
  "real \<Rightarrow> pyval \<Rightarrow> point \<times> point \<Rightarrow> run_240811 \<Rightarrow> exn + run_240811"
where
  "segment_240811 speed cur_flux seg s =
     (case seg of (prev, pt) \<Rightarrow>
        (case cur_flux of
           PyList _ \<Rightarrow> Inl TypeError
         | Num fl \<Rightarrow>
             (let segment_distance = DistanceTo prev pt
              in Inr (s\<lparr>total_extrusion_distance_b := total_extrusion_distance_b s + segment_distance,
                        extrusion_amount_b := extrusion_amount_b s + segment_distance * fl,
                        gcode_b := gcode_b s
                          @ [G1 speed pt (extrusion_amount_b s + segment_distance * fl)]\<rparr>))))"

definition curve_240811 :: "real \<Rightarrow> real \<Rightarrow> pyval \<Rightarrow> toolpath \<Rightarrow> run_240811 \<Rightarrow> exn + run_240811" where
  "curve_240811 nozzle speed cur_flux c s =
     (case segment_points nozzle c of
        None \<Rightarrow> Inr s
      | Some points \<Rightarrow>
          (case for_each (segment_240811 speed cur_flux) (zip points (tl points)) s of
             Inl e \<Rightarrow> Inl e
           | Inr s' \<Rightarrow>
               Inr (s'\<lparr>total_travel_distance_b :=
                          (case previous_point_b s' of
                             None \<Rightarrow> total_travel_distance_b s'
                           | Some previous_point \<Rightarrow>
                               total_travel_distance_b s' + DistanceTo previous_point (hd points)),
                        previous_point_b := Some (last points)\<rparr>)))"

text \<open>
  One layer. The retraction reads \<open>points[-1]\<close>, the last point of the last curve that
  was divided, in this layer or an earlier one: the same object as \<open>previous_point\<close>,
  and unbound (a NameError) as long as no curve has been divided.
\<close>

definition layer_240811 ::
  "real \<Rightarrow> real \<Rightarrow> pyval list \<Rightarrow> real \<Rightarrow> bool \<Rightarrow> int \<times> toolpath list \<Rightarrow> run_240811
     \<Rightarrow> exn + run_240811"
where
  "layer_240811 nozzle speed fluxes layer_height retr layer s =
     (case layer of (layer_index, curves) \<Rightarrow>
        (case (if length fluxes = 1 then py_index fluxes 0
               else py_index fluxes (min layer_index (int (length fluxes) - 1))) of
           None \<Rightarrow> Inl IndexError
         | Some cur_flux \<Rightarrow>
             (case for_each (curve_240811 nozzle speed cur_flux) curves
                     (s\<lparr>gcode_b := gcode_b s @ [LayerStart (layer_index + 1)]\<rparr>) of
                Inl e \<Rightarrow> Inl e
              | Inr s' \<Rightarrow>
                  if retr then
                    (case previous_point_b s' of
                       None \<Rightarrow> Inl NameError
                     | Some last_point \<Rightarrow>
                         Inr (s'\<lparr>gcode_b := gcode_b s'
                                    @ [G1_F_Z speed (Z last_point + layer_height),
                                       LayerEnd (layer_index + 1)],
                                  previous_point_b :=
                                    Some (last_point\<lparr>Z := Z last_point + layer_height\<rparr>)\<rparr>))
                  else Inr (s'\<lparr>gcode_b := gcode_b s' @ [LayerEnd (layer_index + 1)]\<rparr>))))"

text \<open>
  The valid curves grouped by \<open>int(curve.PointAtEnd.Z / layer_h)\<close>, in the order of the
  sorted keys.
\<close>

definition curves_by_layer_240811 :: "toolpath list \<Rightarrow> real \<Rightarrow> (int \<times> toolpath list) list" where
  "curves_by_layer_240811 path layer_height =
     (let valid = filter (\<lambda>c. IsValid c \<and> GetLength c > 0) path;
          keys = sort (remdups (map (\<lambda>c. py_int (Z (PointAtEnd c) / layer_height)) valid))
      in map (\<lambda>k. (k, filter (\<lambda>c. py_int (Z (PointAtEnd c) / layer_height) = k) valid)) keys)"

text \<open>Lines 74 and 75.\<close>

definition num_layers_240811 :: "toolpath list \<Rightarrow> real \<Rightarrow> int" where
  "num_layers_240811 path layer_height =
     py_int (Max (set (map (\<lambda>c. Z (PointAtEnd c)) path)) / layer_height) + 1"

definition generate_gcode_240811 ::
  "toolpath list \<Rightarrow> real \<Rightarrow> real \<Rightarrow> pyval \<Rightarrow> real \<Rightarrow> bool \<Rightarrow> failure + outputs"
where
  "generate_gcode_240811 path nozzle speed printing_flux layer_height retr =
     (if speed < 1800 \<or> speed > 11000 then Inl (Rejected SpeedOutOfRange None)
      else if path = [] then Inl (Raised ValueError)
      else if layer_height = 0 then Inl (Raised ZeroDivisionError)
      else
        (let fluxes = flux_list_240811 printing_flux;
             n_layers = num_layers_240811 path layer_height
         in if length fluxes \<noteq> 1 \<and> int (length fluxes) < n_layers
            then Inl (Rejected FluxCountMismatch (Some n_layers))
            else
              (case for_each (layer_240811 nozzle speed fluxes layer_height retr)
                      (curves_by_layer_240811 path layer_height)
                      \<lparr>gcode_b = start_block_240811, total_extrusion_distance_b = 0,
                       total_travel_distance_b = 0, extrusion_amount_b = 0,
                       previous_point_b = None\<rparr> of
                 Inl e \<Rightarrow> Inl (Raised e)
               | Inr s \<Rightarrow>
                   (let total_length = total_extrusion_distance_b s + total_travel_distance_b s
                    in Inr \<lparr>g_code = gcode_b s @ end_block_240811,
                            printing_time = (if total_length \<noteq> 0 then total_length / speed else 0),
                            printing_path_len = total_extrusion_distance_b s,
                            layers = n_layers\<rparr>))))"

section \<open>G-code generation, version 241001\<close>

subsection \<open>Inputs\<close>

record args =
  printing_path :: "toolpath list"
  nozzle_diameter :: real
  printing_speed :: pyval
  m1_flux :: pyval
  layer_h :: real
  e_absolute :: bool
  retract :: bool
  flux_mode :: int
  m2_flux_start :: "pyval option"
  m2_flux_end :: "pyval option"
  density_kg_m3 :: "real option"

subsection \<open>Validation\<close>

datatype scope = global | per_layer | per_curve

text \<open>The \<open>if / elif / elif / else\<close> chain on the length of a speed or flux list.\<close>

definition scope_of_length :: "nat \<Rightarrow> int \<Rightarrow> nat \<Rightarrow> scope option" where
  "scope_of_length n num_layers num_curves =
     (if n = 1 then Some global
      else if int n = num_layers then Some per_layer
      else if n = num_curves then Some per_curve
      else None)"

datatype flux_setting =
    constant_flux scope "real list"
  | linear_flux "real list" "real list"
  | no_flux

text \<open>Lines 94 to 97: a speed that is not a list is wrapped, a list is flattened.\<close>

definition speed_list :: "pyval \<Rightarrow> real list" where
  "speed_list v = (case v of Num x \<Rightarrow> [x] | PyList lst \<Rightarrow> flatten lst)"

text \<open>Line 132: the same for the flux of mode 1.\<close>

definition m1_flux_list :: "pyval \<Rightarrow> real list" where
  "m1_flux_list v = (case v of Num x \<Rightarrow> flatten [Num x] | PyList lst \<Rightarrow> flatten lst)"

text \<open>
  A start or end flux of the linear mode: wrapped or flattened into a list, and a list of
  length 1 repeated \<open>num_curves\<close> times.
\<close>

definition linear_list :: "pyval \<Rightarrow> nat \<Rightarrow> real list" where
  "linear_list v num_curves =
     (let l = (case v of Num x \<Rightarrow> [x] | PyList lst \<Rightarrow> flatten lst)
      in if length l = 1 then concat (replicate num_curves l) else l)"

definition resolve_flux :: "args \<Rightarrow> int \<Rightarrow> nat \<Rightarrow> failure + flux_setting" where
  "resolve_flux a num_layers num_curves =
     (if flux_mode a = 1 then
        (let m1 = m1_flux_list (m1_flux a)
         in case scope_of_length (length m1) num_layers num_curves of
              None \<Rightarrow> Inl (Rejected FluxCountMismatch (Some num_layers))
            | Some flux_mode_detail \<Rightarrow> Inr (constant_flux flux_mode_detail m1))
      else if flux_mode a = 2 then
        (case (m2_flux_start a, m2_flux_end a) of
           (Some s, Some e) \<Rightarrow>
             (let s' = linear_list s num_curves; e' = linear_list e num_curves
              in if length s' \<noteq> length e' \<or> length s' \<noteq> num_curves
                 then Inl (Rejected LinearFluxLengthMismatch None)
                 else Inr (linear_flux s' e'))
         | _ \<Rightarrow> Inl (Rejected LinearFluxMissing None))
      else Inr no_flux)"

definition valid_curves :: "toolpath list \<Rightarrow> toolpath list" where
  "valid_curves path = filter (\<lambda>c. IsValid c \<and> GetLength c > 0) path"

definition min_z_of :: "toolpath list \<Rightarrow> real" where
  "min_z_of cs = Min (set (map (\<lambda>c. min (Z (PointAtStart c)) (Z (PointAtEnd c))) cs))"

definition max_z_of :: "toolpath list \<Rightarrow> real" where
  "max_z_of cs = Max (set (map (\<lambda>c. max (Z (PointAtStart c)) (Z (PointAtEnd c))) cs))"

text \<open>Line 110.\<close>

definition num_layers_of :: "toolpath list \<Rightarrow> real \<Rightarrow> int" where
  "num_layers_of cs h = py_int ((max_z_of cs - min_z_of cs) / h) + 1"

text \<open>What validation hands to the rest of the function.\<close>

record resolved =
  speeds :: "real list"
  all_curves :: "toolpath list"
  min_z :: real
  num_layers :: int
  speed_mode_detail :: scope
  flux_detail :: flux_setting

definition validate :: "args \<Rightarrow> failure + resolved" where
  "validate a =
     (let speeds = speed_list (printing_speed a);
          all_curves = valid_curves (printing_path a);
          num_curves = length all_curves
      in if num_curves = 0 then Inl (Rejected NoValidCurves None)
         else if layer_h a = 0 then Inl (Raised ZeroDivisionError)
         else
           (let min_z = min_z_of all_curves;
                num_layers = num_layers_of all_curves (layer_h a)
            in case scope_of_length (length speeds) num_layers num_curves of
                 None \<Rightarrow> Inl (Rejected SpeedCountMismatch (Some num_layers))
               | Some speed_mode \<Rightarrow>
                   if list_ex (\<lambda>speed. speed < 1800 \<or> speed > 10000) speeds
                   then Inl (Rejected SpeedOutOfRange None)
                   else
                     (case resolve_flux a num_layers num_curves of
                        Inl f \<Rightarrow> Inl f
                      | Inr fl \<Rightarrow>
                          Inr \<lparr>speeds = speeds, all_curves = all_curves, min_z = min_z,
                               num_layers = num_layers, speed_mode_detail = speed_mode,
                               flux_detail = fl\<rparr>)))"

subsection \<open>Grouping by layer\<close>

definition layer_index_of :: "real \<Rightarrow> real \<Rightarrow> toolpath \<Rightarrow> int" where
  "layer_index_of zmin h c = py_int ((Z (PointAtEnd c) - zmin) / h)"

text \<open>
  \<open>curves_by_layer\<close> in the order of \<open>sorted(curves_by_layer.keys())\<close>: every layer index
  that occurs, with its \<open>(curve, idx)\<close> pairs in input order.
\<close>

definition curves_by_layer ::
  "toolpath list \<Rightarrow> real \<Rightarrow> real \<Rightarrow> (int \<times> (toolpath \<times> nat) list) list"
where
  "curves_by_layer cs zmin h =
     (let indexed = zip cs [0..<length cs];
          keys = sort (remdups (map (\<lambda>(c, idx). layer_index_of zmin h c) indexed))
      in map (\<lambda>k. (k, filter (\<lambda>(c, idx). layer_index_of zmin h c = k) indexed)) keys)"

subsection \<open>Flux of a segment\<close>

definition lookup :: "real list \<Rightarrow> int \<Rightarrow> exn + real" where
  "lookup xs i = (case py_index xs i of None \<Rightarrow> Inl IndexError | Some x \<Rightarrow> Inr x)"

text \<open>
  The flux of a segment: interpolated in mode 2, else the variable \<open>current_flux\<close>,
  which is unbound (\<open>None\<close>) when no branch has assigned it.
\<close>

definition segment_flux :: "int \<Rightarrow> real option \<Rightarrow> (real \<times> real) option \<Rightarrow> real \<Rightarrow> exn + real" where
  "segment_flux mode current_flux start_end t_norm =
     (if mode = 2 then
        (case start_end of
           Some (start_flux, end_flux) \<Rightarrow> Inr (start_flux + t_norm * (end_flux - start_flux))
         | None \<Rightarrow> Inl NameError)
      else (case current_flux of Some fl \<Rightarrow> Inr fl | None \<Rightarrow> Inl NameError))"

subsection \<open>The estimation pass\<close>

text \<open>
  State of the pass: \<open>current_flux\<close>, \<open>total_extruded_volume\<close>,
  \<open>total_printing_distance\<close> and \<open>previous_point\<close>. The variable \<open>current_speed\<close> is
  assigned but not read in this pass, so only the lookup that may raise is kept.
\<close>

record estimate =
  est_flux :: "real option"
  total_extruded_volume :: real
  total_printing_distance :: real
  est_previous_point :: "point option"

definition est_segment ::
  "args \<Rightarrow> (real \<times> real) option \<Rightarrow> point \<times> point \<times> real \<Rightarrow> estimate \<Rightarrow> exn + estimate"
where
  "est_segment a start_end seg s =
     (case seg of (prev, pt, t_norm) \<Rightarrow>
        (case segment_flux (flux_mode a) (est_flux s) start_end t_norm of
           Inl e \<Rightarrow> Inl e
         | Inr fl \<Rightarrow>
             (let segment_distance = DistanceTo prev pt;
                  cross_sectional_area = (nozzle_diameter a * 1.1 * fl) * layer_h a;
                  amount_per_segment = cross_sectional_area * segment_distance
              in Inr (s\<lparr>total_extruded_volume := total_extruded_volume s + amount_per_segment,
                        total_printing_distance := total_printing_distance s + segment_distance\<rparr>))))"

text \<open>Lines 214 to 222: the flux variables of one curve.\<close>

definition est_curve_flux ::
  "args \<Rightarrow> resolved \<Rightarrow> nat \<Rightarrow> real option \<Rightarrow> exn + (real option \<times> (real \<times> real) option)"
where
  "est_curve_flux a r curve_index current_flux =
     (case flux_detail r of
        constant_flux d m1 \<Rightarrow>
          (if d = per_curve then
             (case lookup m1 (int curve_index) of
                Inl e \<Rightarrow> Inl e
              | Inr fl \<Rightarrow> Inr (Some fl, Some (fl, fl)))
           else
             (case current_flux of
                None \<Rightarrow> Inl NameError
              | Some fl \<Rightarrow> Inr (Some fl, Some (fl, fl))))
      | linear_flux s e \<Rightarrow>
          (case lookup s (int curve_index) of
             Inl ex \<Rightarrow> Inl ex
           | Inr start_flux \<Rightarrow>
               (case lookup e (int curve_index) of
                  Inl ex \<Rightarrow> Inl ex
                | Inr end_flux \<Rightarrow> Inr (current_flux, Some (start_flux, end_flux))))
      | no_flux \<Rightarrow> Inr (current_flux, None))"

definition est_curve :: "args \<Rightarrow> resolved \<Rightarrow> toolpath \<times> nat \<Rightarrow> estimate \<Rightarrow> exn + estimate" where
  "est_curve a r ci s =
     (case ci of (c, curve_index) \<Rightarrow>
        (case (if speed_mode_detail r = per_curve
               then lookup (speeds r) (int curve_index) else Inr 0) of
           Inl e \<Rightarrow> Inl e
         | Inr _ \<Rightarrow>
             (case est_curve_flux a r curve_index (est_flux s) of
                Inl e \<Rightarrow> Inl e
              | Inr (current_flux, start_end) \<Rightarrow>
                  (case segment_points (nozzle_diameter a) c of
                     None \<Rightarrow> Inr (s\<lparr>est_flux := current_flux\<rparr>)
                   | Some points \<Rightarrow>
                       (case for_each (est_segment a start_end) (segments points)
                               (s\<lparr>est_flux := current_flux\<rparr>) of
                          Inl e \<Rightarrow> Inl e
                        | Inr s' \<Rightarrow>
                            Inr (s'\<lparr>total_printing_distance :=
                                       (case est_previous_point s' of
                                          None \<Rightarrow> total_printing_distance s'
                                        | Some previous_point \<Rightarrow>
                                            total_printing_distance s'
                                              + DistanceTo previous_point (hd points)),
                                     est_previous_point := Some (last points)\<rparr>))))))"

text \<open>Lines 192 to 207: the speed and flux of one layer.\<close>

definition est_layer ::
  "args \<Rightarrow> resolved \<Rightarrow> int \<times> (toolpath \<times> nat) list \<Rightarrow> estimate \<Rightarrow> exn + estimate"
where
  "est_layer a r layer s =
     (case layer of (layer_index, curves) \<Rightarrow>
        (case (case speed_mode_detail r of
                 global \<Rightarrow> lookup (speeds r) 0
               | per_layer \<Rightarrow> lookup (speeds r) layer_index
               | per_curve \<Rightarrow> Inr 0) of
           Inl e \<Rightarrow> Inl e
         | Inr _ \<Rightarrow>
             (case (case flux_detail r of
                      constant_flux global m1 \<Rightarrow> map_sum id Some (lookup m1 0)
                    | constant_flux per_layer m1 \<Rightarrow> map_sum id Some (lookup m1 layer_index)
                    | _ \<Rightarrow> Inr (est_flux s)) of
                Inl e \<Rightarrow> Inl e
              | Inr current_flux \<Rightarrow>
                  for_each (est_curve a r) curves (s\<lparr>est_flux := current_flux\<rparr>))))"

definition estimation_pass :: "args \<Rightarrow> resolved \<Rightarrow> exn + estimate" where
  "estimation_pass a r =
     for_each (est_layer a r) (curves_by_layer (all_curves r) (min_z r) (layer_h a))
       \<lparr>est_flux = None, total_extruded_volume = 0, total_printing_distance = 0,
        est_previous_point = None\<rparr>"

text \<open>Lines 261 and 262.\<close>

definition estimate_time :: "real list \<Rightarrow> real \<Rightarrow> exn + real" where
  "estimate_time vs total_distance =
     (if length vs = 0 then Inl ZeroDivisionError
      else
        (let average_speed = sum_list vs / real (length vs)
         in if total_distance \<noteq> 0
            then (if average_speed = 0 then Inl ZeroDivisionError
                  else Inr (total_distance / average_speed))
            else Inr 0))"

subsection \<open>The start block\<close>

text \<open>
  The information comments (one for the speed, one for the flux in modes 1 and 2, one
  for the density and one more if the default density is used, two for volume and mass),
  then the start commands.
\<close>

definition start_block :: "args \<Rightarrow> resolved \<Rightarrow> line list" where
  "start_block a r =
     replicate 6 Comment
     @ [Comment]
     @ (if flux_mode a = 1 \<or> flux_mode a = 2 then [Comment] else [])
     @ [Comment]
     @ (case density_kg_m3 a of
          None \<Rightarrow> [Comment]
        | Some d \<Rightarrow> if d \<le> 0 then [Comment] else [])
     @ [Comment, Comment]
     @ [Comment, G90, (if e_absolute a then M82 else M83), G28]
     @ (if e_absolute a then [G92_E 0, G1_E_F (- 4) 6000] else [G1_E_F (- 4) 6000])
     @ [G1_Z_F (min_z r + 2) 12000, Comment]"

definition end_block :: "args \<Rightarrow> line list" where
  "end_block a =
     [Comment]
     @ (if e_absolute a then [G92_E 0, G1_E_F (- 4) 6000] else [G1_E_F (- 4) 6000])
     @ [G28, Comment]"

subsection \<open>The generation pass\<close>

definition constant_denominator :: real where
  "constant_denominator = ((5.25 / 2)\<^sup>2) * pi"

text \<open>
  State of the pass: the lines so far, \<open>extrusion_amount\<close>, \<open>previous_point\<close>, and the
  variables \<open>current_speed\<close> and \<open>current_flux\<close> (\<open>None\<close> while unbound).
\<close>

record emitter =
  gcode :: "line list"
  extrusion_amount :: real
  previous_point :: "point option"
  current_speed :: "real option"
  current_flux :: "real option"

definition emit_segment ::
  "args \<Rightarrow> (real \<times> real) option \<Rightarrow> point \<times> point \<times> real \<Rightarrow> emitter \<Rightarrow> exn + emitter"
where
  "emit_segment a start_end seg s =
     (case seg of (prev, pt, t_norm) \<Rightarrow>
        (case segment_flux (flux_mode a) (current_flux s) start_end t_norm of
           Inl e \<Rightarrow> Inl e
         | Inr fl \<Rightarrow>
             (case current_speed s of
                None \<Rightarrow> Inl NameError
              | Some speed \<Rightarrow>
                  (let segment_distance = DistanceTo prev pt;
                       extrusion_increment =
                         ((nozzle_diameter a * layer_h a) / constant_denominator) * fl
                           * segment_distance
                   in if e_absolute a
                      then Inr (s\<lparr>extrusion_amount := extrusion_amount s + extrusion_increment,
                                 gcode := gcode s
                                   @ [G1 speed pt (extrusion_amount s + extrusion_increment)]\<rparr>)
                      else Inr (s\<lparr>gcode := gcode s @ [G1 speed pt extrusion_increment]\<rparr>)))))"

text \<open>Lines 360 to 371: the flux variables of one curve.\<close>

definition emit_curve_flux ::
  "resolved \<Rightarrow> int \<Rightarrow> nat \<Rightarrow> real option \<Rightarrow> exn + (real option \<times> (real \<times> real) option)"
where
  "emit_curve_flux r layer_index curve_index cur_flux =
     (case flux_detail r of
        constant_flux d m1 \<Rightarrow>
          (case lookup m1 (case d of global \<Rightarrow> 0 | per_layer \<Rightarrow> layer_index
                                   | per_curve \<Rightarrow> int curve_index) of
             Inl e \<Rightarrow> Inl e
           | Inr fl \<Rightarrow> Inr (Some fl, Some (fl, fl)))
      | linear_flux s e \<Rightarrow>
          (case lookup s (int curve_index) of
             Inl ex \<Rightarrow> Inl ex
           | Inr start_flux \<Rightarrow>
               (case lookup e (int curve_index) of
                  Inl ex \<Rightarrow> Inl ex
                | Inr end_flux \<Rightarrow> Inr (cur_flux, Some (start_flux, end_flux))))
      | no_flux \<Rightarrow> Inr (cur_flux, None))"

definition emit_curve ::
  "args \<Rightarrow> resolved \<Rightarrow> int \<Rightarrow> toolpath \<times> nat \<Rightarrow> emitter \<Rightarrow> exn + emitter"
where
  "emit_curve a r layer_index ci s =
     (case ci of (c, curve_index) \<Rightarrow>
        (case (if speed_mode_detail r = per_curve
               then map_sum id Some (lookup (speeds r) (int curve_index))
               else Inr (current_speed s)) of
           Inl e \<Rightarrow> Inl e
         | Inr speed \<Rightarrow>
             (case emit_curve_flux r layer_index curve_index (current_flux s) of
                Inl e \<Rightarrow> Inl e
              | Inr (fl, start_end) \<Rightarrow>
                  (case segment_points (nozzle_diameter a) c of
                     None \<Rightarrow> Inr (s\<lparr>current_speed := speed, current_flux := fl\<rparr>)
                   | Some points \<Rightarrow>
                       (case speed of
                          None \<Rightarrow> Inl NameError
                        | Some sp \<Rightarrow>
                            (case for_each (emit_segment a start_end) (segments points)
                                    (s\<lparr>current_speed := speed, current_flux := fl,
                                       gcode := gcode s @ [G0 sp (hd points)]\<rparr>) of
                               Inl e \<Rightarrow> Inl e
                             | Inr s' \<Rightarrow> Inr (s'\<lparr>previous_point := Some (last points)\<rparr>)))))))"

text \<open>
  One layer: the start marker, the speed of the layer, the curves, the retraction move
  (which also lifts \<open>previous_point\<close>) and the end marker.
\<close>

definition emit_layer ::
  "args \<Rightarrow> resolved \<Rightarrow> int \<times> (toolpath \<times> nat) list \<Rightarrow> emitter \<Rightarrow> exn + emitter"
where
  "emit_layer a r layer s =
     (case layer of (layer_index, curves) \<Rightarrow>
        (case (case speed_mode_detail r of
                 global \<Rightarrow> map_sum id Some (lookup (speeds r) 0)
               | per_layer \<Rightarrow> map_sum id Some (lookup (speeds r) layer_index)
               | per_curve \<Rightarrow> Inr (current_speed s)) of
           Inl e \<Rightarrow> Inl e
         | Inr speed \<Rightarrow>
             (case for_each (emit_curve a r layer_index) curves
                     (s\<lparr>gcode := gcode s @ [LayerStart (layer_index + 1)],
                        current_speed := speed\<rparr>) of
                Inl e \<Rightarrow> Inl e
              | Inr s' \<Rightarrow>
                  if retract a then
                    (case previous_point s' of
                       None \<Rightarrow> Inl AttributeError
                     | Some last_point \<Rightarrow>
                         (case current_speed s' of
                            None \<Rightarrow> Inl NameError
                          | Some sp \<Rightarrow>
                              Inr (s'\<lparr>gcode := gcode s'
                                         @ [G1_F_Z sp (Z last_point + layer_h a),
                                            LayerEnd (layer_index + 1)],
                                       previous_point :=
                                         Some (last_point\<lparr>Z := Z last_point + layer_h a\<rparr>)\<rparr>)))
                  else Inr (s'\<lparr>gcode := gcode s' @ [LayerEnd (layer_index + 1)]\<rparr>))))"

definition generation_pass :: "args \<Rightarrow> resolved \<Rightarrow> exn + emitter" where
  "generation_pass a r =
     for_each (emit_layer a r) (curves_by_layer (all_curves r) (min_z r) (layer_h a))
       \<lparr>gcode = start_block a r, extrusion_amount = 0, previous_point = None,
        current_speed = None, current_flux = None\<rparr>"

subsection \<open>The whole function\<close>

definition generate_gcode :: "args \<Rightarrow> failure + outputs" where
  "generate_gcode a =
     (case validate a of
        Inl f \<Rightarrow> Inl f
      | Inr r \<Rightarrow>
          (case estimation_pass a r of
             Inl e \<Rightarrow> Inl (Raised e)
           | Inr est \<Rightarrow>
               (case estimate_time (speeds r) (total_printing_distance est) of
                  Inl e \<Rightarrow> Inl (Raised e)
                | Inr t \<Rightarrow>
                    (case generation_pass a r of
                       Inl e \<Rightarrow> Inl (Raised e)
                     | Inr s \<Rightarrow>
                         Inr \<lparr>g_code = gcode s @ end_block a, printing_time = t,
                              printing_path_len = total_printing_distance est,
                              layers = num_layers r\<rparr>))))"

section \<open>Curves and inputs used in the worked runs\<close>

text \<open>
  A straight curve along the X axis at height \<open>z\<close>, parametrised by arc length, with
  the answer that its division gives.
\<close>

definition x_line :: "real \<Rightarrow> real \<Rightarrow> real \<Rightarrow> real list option \<Rightarrow> toolpath" where
  "x_line x0 x1 z division =
     \<lparr>PointAtStart = \<lparr>X = x0, Y = 0, Z = z\<rparr>, PointAtEnd = \<lparr>X = x1, Y = 0, Z = z\<rparr>,
      IsValid = True, GetLength = \<bar>x1 - x0\<bar>,
      PointAt = (\<lambda>t. \<lparr>X = x0 + t * sgn (x1 - x0), Y = 0, Z = z\<rparr>),
      DivideByLength = (\<lambda>segment_length include_ends. division)\<rparr>"

text \<open>
  Two curves of length 5 on two layers, the upper one first in the input, a nozzle of
  4 mm (segments of 2 mm), layers of 1 mm.
\<close>

definition two_layers :: args where
  "two_layers =
     \<lparr>printing_path = [x_line 5 0 1 (Some [0, 2, 4]), x_line 0 5 0 (Some [0, 2, 4])],
      nozzle_diameter = 4, printing_speed = Num 3000, m1_flux = Num 1, layer_h = 1,
      e_absolute = True, retract = False, flux_mode = 1, m2_flux_start = None,
      m2_flux_end = None, density_kg_m3 = None\<rparr>"

text \<open>What validation makes of these inputs, and the program they give.\<close>

definition two_layers_resolved :: resolved where
  "two_layers_resolved =
     \<lparr>speeds = [3000],
      all_curves = [x_line 5 0 1 (Some [0, 2, 4]), x_line 0 5 0 (Some [0, 2, 4])],
      min_z = 0, num_layers = 2, speed_mode_detail = global,
      flux_detail = constant_flux global [1]\<rparr>"

definition two_layers_body :: "line list" where
  "two_layers_body =
       [LayerStart 1,
        G0 3000 \<lparr>X = 0, Y = 0, Z = 0\<rparr>,
        G1 3000 \<lparr>X = 0, Y = 0, Z = 0\<rparr> 0,
        G1 3000 \<lparr>X = 2, Y = 0, Z = 0\<rparr> (8 / constant_denominator),
        G1 3000 \<lparr>X = 4, Y = 0, Z = 0\<rparr> (16 / constant_denominator),
        G1 3000 \<lparr>X = 5, Y = 0, Z = 0\<rparr> (20 / constant_denominator),
        LayerEnd 1,
        LayerStart 2,
        G0 3000 \<lparr>X = 5, Y = 0, Z = 1\<rparr>,
        G1 3000 \<lparr>X = 5, Y = 0, Z = 1\<rparr> (20 / constant_denominator),
        G1 3000 \<lparr>X = 3, Y = 0, Z = 1\<rparr> (28 / constant_denominator),
        G1 3000 \<lparr>X = 1, Y = 0, Z = 1\<rparr> (36 / constant_denominator),
        G1 3000 \<lparr>X = 0, Y = 0, Z = 1\<rparr> (40 / constant_denominator),
        LayerEnd 2]"

definition two_layers_program :: "line list" where
  "two_layers_program =
     start_block two_layers two_layers_resolved @ two_layers_body @ end_block two_layers"

text \<open>The same inputs with one speed per layer, or per curve: the counts are equal.\<close>

definition two_speeds :: args where
  "two_speeds = two_layers\<lparr>printing_speed := PyList [Num 2000, Num 3000]\<rparr>"

text \<open>
  The worked inputs with a negative flux, and with a single curve too short to be
  divided.
\<close>

definition negative_flux :: args where
  "negative_flux = two_layers\<lparr>m1_flux := Num (- 1)\<rparr>"

definition short_only :: args where
  "short_only = two_layers\<lparr>printing_path := [x_line 0 1 0 None]\<rparr>"

definition short_only_resolved :: resolved where
  "short_only_resolved =
     \<lparr>speeds = [3000], all_curves = [x_line 0 1 0 None], min_z = 0, num_layers = 1,
      speed_mode_detail = global, flux_detail = constant_flux global [1]\<rparr>"

text \<open>
  A circle of circumference 2 through the origin, parametrised by arc length, divided
  by its own length; and the worked inputs in linear flux mode with relative extrusion.
\<close>

definition closed_loop :: toolpath where
  "closed_loop =
     \<lparr>PointAtStart = \<lparr>X = 0, Y = 0, Z = 0\<rparr>, PointAtEnd = \<lparr>X = 0, Y = 0, Z = 0\<rparr>,
      IsValid = True, GetLength = 2,
      PointAt = (\<lambda>t. \<lparr>X = (1 - cos (pi * t)) / pi, Y = sin (pi * t) / pi, Z = 0\<rparr>),
      DivideByLength = (\<lambda>segment_length include_ends. Some [0, 2])\<rparr>"

definition linear_run :: args where
  "linear_run =
     two_layers\<lparr>e_absolute := False, flux_mode := 2, m2_flux_start := Some (Num 1),
                m2_flux_end := Some (Num 2)\<rparr>"

definition linear_resolved :: resolved where
  "linear_resolved = two_layers_resolved\<lparr>flux_detail := linear_flux [1, 1] [2, 2]\<rparr>"

section \<open>Notions used to state the properties\<close>

text \<open>
  The extrusion increment of one segment (line 404), and the running totals of a list
  of increments from a starting amount.
\<close>

definition increment :: "args \<Rightarrow> real \<Rightarrow> point \<Rightarrow> point \<Rightarrow> real" where
  "increment a fl prev pt =
     ((nozzle_diameter a * layer_h a) / constant_denominator) * fl * DistanceTo prev pt"

fun running :: "real \<Rightarrow> real list \<Rightarrow> real list" where
  "running acc [] = []"
| "running acc (x # xs) = (acc + x) # running (acc + x) xs"

text \<open>
  The extrusion value of a motion command, the \<open>E\<close> word of any line that has one, and
  both read off a whole program.
\<close>

fun motion_e :: "line \<Rightarrow> real option" where
  "motion_e (G1 f p e) = Some e"
| "motion_e l = None"

fun e_word :: "line \<Rightarrow> real option" where
  "e_word (G1 f p e) = Some e"
| "e_word (G92_E e) = Some e"
| "e_word (G1_E_F e f) = Some e"
| "e_word l = None"

definition motion_values :: "line list \<Rightarrow> real list" where
  "motion_values ls = List.map_filter motion_e ls"

definition e_values :: "line list \<Rightarrow> real list" where
  "e_values ls = List.map_filter e_word ls"

text \<open>The flux numbers given in the inputs, for the flux mode in use.\<close>

definition flux_values :: "args \<Rightarrow> real list" where
  "flux_values a =
     (if flux_mode a = 1 then m1_flux_list (m1_flux a)
      else if flux_mode a = 2 then
        (case m2_flux_start a of None \<Rightarrow> [] | Some s \<Rightarrow> speed_list s)
        @ (case m2_flux_end a of None \<Rightarrow> [] | Some e \<Rightarrow> speed_list e)
      else [])"

text \<open>
  What the generation pass keeps true in absolute mode: the motion values so far are
  non-negative, non-decreasing and at most \<open>extrusion_amount\<close>.
\<close>

definition emit_inv :: "emitter \<Rightarrow> bool" where
  "emit_inv s \<longleftrightarrow>
     sorted (0 # motion_values (gcode s) @ [extrusion_amount s])
     \<and> e_values (gcode s) = [0, - 4] @ motion_values (gcode s)
     \<and> (\<forall>f. current_flux s = Some f \<longrightarrow> 0 \<le> f)"

text \<open>The flux numbers that validation has resolved.\<close>

fun detail_values :: "flux_setting \<Rightarrow> real list" where
  "detail_values (constant_flux d m1) = m1"
| "detail_values (linear_flux s e) = s @ e"
| "detail_values no_flux = []"

text \<open>
  The length of the chain of straight segments through a point sequence, and the flux
  that the specification gives for sample \<open>i\<close> of a curve in linear mode: the start flux
  plus the normalised arc length times the difference of end and start flux.
\<close>

fun chain_length :: "point list \<Rightarrow> real" where
  "chain_length (p # q # ps) = DistanceTo p q + chain_length (q # ps)"
| "chain_length ps = 0"

definition interpolated :: "real \<Rightarrow> real \<Rightarrow> point list \<Rightarrow> nat \<Rightarrow> real" where
  "interpolated start_flux end_flux pts i =
     start_flux + (chain_length (take (Suc i) pts) / chain_length pts) * (end_flux - start_flux)"

text \<open>
  The distances of the time estimate, read off the point sequences of the divided
  curves in the order they are visited: the extrusion distance is the sum of the chain
  lengths; the travel distance is the sum of the gaps from the last point of one
  sequence to the first point of the next, the first sequence having no gap before it.
\<close>

definition extrusion_distance :: "point list list \<Rightarrow> real" where
  "extrusion_distance chs = sum_list (map chain_length chs)"

fun travel_from :: "point option \<Rightarrow> point list list \<Rightarrow> real" where
  "travel_from cursor [] = 0"
| "travel_from cursor (pts # chs) =
     (case cursor of None \<Rightarrow> 0 | Some p \<Rightarrow> DistanceTo p (hd pts))
     + travel_from (Some (last pts)) chs"

definition cursor_after :: "point option \<Rightarrow> point list list \<Rightarrow> point option" where
  "cursor_after cursor chs = (if chs = [] then cursor else Some (last (last chs)))"

text \<open>
  The point sequences that each version visits: version 240720 takes the valid curves
  in input order, version 240811 layer by layer, version 241001 layer by layer over the
  valid curves. Curves whose division gives nothing are left out.
\<close>

definition chains_240720 :: "toolpath list \<Rightarrow> real \<Rightarrow> point list list" where
  "chains_240720 path nozzle =
     List.map_filter (segment_points nozzle) (filter (\<lambda>c. IsValid c \<and> GetLength c > 0) path)"

definition layer_chains_240811 :: "toolpath list \<Rightarrow> real \<Rightarrow> real \<Rightarrow> point list list list" where
  "layer_chains_240811 path nozzle h =
     map (\<lambda>(k, cs). List.map_filter (segment_points nozzle) cs) (curves_by_layer_240811 path h)"

definition visited_chains :: "args \<Rightarrow> point list list" where
  "visited_chains a =
     List.map_filter (\<lambda>(c, idx). segment_points (nozzle_diameter a) c)
       (concat (map snd
          (curves_by_layer (valid_curves (printing_path a))
             (min_z_of (valid_curves (printing_path a))) (layer_h a))))"

text \<open>
  In version 240811 a retraction at the end of a layer lifts the point from which the
  next gap is measured by one layer height.
\<close>

definition lifted :: "real \<Rightarrow> bool \<Rightarrow> point option \<Rightarrow> point option" where
  "lifted h retr cursor = (if retr then map_option (\<lambda>p. p\<lparr>Z := Z p + h\<rparr>) cursor else cursor)"

fun layered_travel :: "real \<Rightarrow> bool \<Rightarrow> point option \<Rightarrow> point list list list \<Rightarrow> real" where
  "layered_travel h retr cursor [] = 0"
| "layered_travel h retr cursor (chs # rest) =
     travel_from cursor chs + layered_travel h retr (lifted h retr (cursor_after cursor chs)) rest"

text \<open>The mean of the speed list.\<close>

definition average_speed :: "real list \<Rightarrow> real" where
  "average_speed vs = sum_list vs / real (length vs)"

section \<open>Properties of the path optimizer\<close>

text \<open>
  A scan over a suffix \<open>cs\<close> of the list \<open>full\<close> keeps a candidate whose index is in
  range and whose flip flag says whether its end point is the closer one.
\<close>

lemma scan_closest_some:
  assumes "full = pre @ cs" "length pre = i"
    and "case best of None \<Rightarrow> cs \<noteq> []
         | Some (k, d, f) \<Rightarrow> k < length full \<and>
             f = (DistanceTo p (PointAtStart (full ! k)) > DistanceTo p (PointAtEnd (full ! k)))"
  shows "\<exists>k d f. scan_closest p cs i best = Some (k, d, f) \<and> k < length full \<and>
             f = (DistanceTo p (PointAtStart (full ! k)) > DistanceTo p (PointAtEnd (full ! k)))"
  using assms
proof (induction cs arbitrary: pre i best)
  case Nil
  then show ?case by (cases best) auto
next
  case (Cons c cs)
  have full: "full = (pre @ [c]) @ cs" "length (pre @ [c]) = Suc i"
    using Cons.prems by simp_all
  have ci: "full ! i = c" "i < length full"
    using Cons.prems by (simp_all add: nth_append)
  let ?ds = "DistanceTo p (PointAtStart c)"
  let ?de = "DistanceTo p (PointAtEnd c)"
  show ?case
  proof (cases "case best of None \<Rightarrow> True | Some (_, cd, _) \<Rightarrow> min ?ds ?de < cd")
    case True
    have "\<exists>k d f. scan_closest p cs (Suc i) (Some (i, min ?ds ?de, ?ds > ?de)) = Some (k, d, f) \<and> k < length full \<and>
             f = (DistanceTo p (PointAtStart (full ! k)) > DistanceTo p (PointAtEnd (full ! k)))"
      by (rule Cons.IH [OF full]) (simp add: ci)
    with True show ?thesis by (simp add: Let_def)
  next
    case False
    then obtain k d f where b: "best = Some (k, d, f)"
      by (cases best) auto
    have "\<exists>k d f. scan_closest p cs (Suc i) best = Some (k, d, f) \<and> k < length full \<and>
             f = (DistanceTo p (PointAtStart (full ! k)) > DistanceTo p (PointAtEnd (full ! k)))"
      by (rule Cons.IH [OF full]) (use Cons.prems b in simp)
    with False show ?thesis by (simp add: Let_def)
  qed
qed

lemma pick_closest_some:
  assumes "unvisited \<noteq> []"
  shows "\<exists>c i. pick_closest p unvisited = Some (c, take i unvisited @ drop (Suc i) unvisited) \<and>
           i < length unvisited \<and> (c = unvisited ! i \<or> c = Reverse (unvisited ! i)) \<and>
           DistanceTo p (PointAtStart c) \<le> DistanceTo p (PointAtEnd c)"
proof -
  from scan_closest_some [where full = unvisited and pre = "[]" and cs = unvisited and i = 0
      and best = None and p = p] assms
  obtain k d f where s: "scan_closest p unvisited 0 None = Some (k, d, f)" "k < length unvisited"
    "f = (DistanceTo p (PointAtStart (unvisited ! k)) > DistanceTo p (PointAtEnd (unvisited ! k)))"
    by auto
  show ?thesis
    using s by (cases f) (auto simp: pick_closest_def Reverse_def intro!: exI [of _ k])
qed

lemma reoriented_remove:
  assumes "i < length u" "reoriented (take i u @ drop (Suc i) u) ys" "c = u ! i \<or> c = Reverse (u ! i)"
  shows "reoriented u (take i ys @ c # drop i ys)"
proof -
  have len: "length ys = length u - 1"
    using assms(1,2) by (auto simp: reoriented_def dest!: list_all2_lengthD)
  have u: "u = take i u @ u ! i # drop (Suc i) u"
    using assms(1) by (simp add: id_take_nth_drop)
  have a: "list_all2 (\<lambda>x y. y = x \<or> y = Reverse x) (take i u) (take i ys)"
    using assms(1,2) len list_all2_takeI [of _ "take i u @ drop (Suc i) u" ys i]
    by (simp add: reoriented_def)
  have b: "list_all2 (\<lambda>x y. y = x \<or> y = Reverse x) (drop (Suc i) u) (drop i ys)"
    using assms(1,2) len list_all2_dropI [of _ "take i u @ drop (Suc i) u" ys i]
    by (simp add: reoriented_def)
  have "list_all2 (\<lambda>x y. y = x \<or> y = Reverse x) (take i u @ u ! i # drop (Suc i) u) (take i ys @ c # drop i ys)"
    using a b assms(3) by (intro list_all2_appendI list_all2_Cons [THEN iffD2]) auto
  with u show ?thesis by (simp add: reoriented_def)
qed

lemma nn_loop_tour:
  "\<exists>rest ys. nn_loop p unvisited sorted_curves = Some (sorted_curves @ rest) \<and>
     reoriented unvisited ys \<and> mset rest = mset ys \<and> approached p rest"
proof (induction p unvisited sorted_curves rule: nn_loop.induct)
  case (1 p unvisited sorted_curves)
  show ?case
  proof (cases "unvisited = []")
    case True
    then show ?thesis
      by (simp add: nn_loop.simps reoriented_def)
  next
    case False
    from pick_closest_some [OF False, of p]
    obtain c i where pk: "pick_closest p unvisited = Some (c, take i unvisited @ drop (Suc i) unvisited)"
      and i: "i < length unvisited" and c: "c = unvisited ! i \<or> c = Reverse (unvisited ! i)"
      and d: "DistanceTo p (PointAtStart c) \<le> DistanceTo p (PointAtEnd c)"
      by blast
    let ?u = "take i unvisited @ drop (Suc i) unvisited"
    from "1.IH" [OF False pk refl]
    obtain rest ys where r: "nn_loop (PointAtEnd c) ?u (sorted_curves @ [c]) = Some ((sorted_curves @ [c]) @ rest)"
      "reoriented ?u ys" "mset rest = mset ys" "approached (PointAtEnd c) rest"
      by blast
    have "nn_loop p unvisited sorted_curves = Some (sorted_curves @ (c # rest))"
      using False pk r(1) by (subst nn_loop.simps) simp
    moreover have "reoriented unvisited (take i ys @ c # drop i ys)"
      using i r(2) c by (rule reoriented_remove)
    moreover have "mset (c # rest) = mset (take i ys @ c # drop i ys)"
      using r(3) by (simp add: union_code)
    moreover have "approached p (c # rest)"
      using d r(4) by simp
    ultimately show ?thesis by blast
  qed
qed

lemma approached_consecutive:
  "approached p tour \<Longrightarrow> Suc i < length tour \<Longrightarrow>
     DistanceTo (PointAtEnd (tour ! i)) (PointAtStart (tour ! Suc i))
       \<le> DistanceTo (PointAtEnd (tour ! i)) (PointAtEnd (tour ! Suc i))"
proof (induction tour arbitrary: p i)
  case Nil
  then show ?case by simp
next
  case (Cons c cs)
  show ?case
  proof (cases i)
    case 0
    with Cons.prems show ?thesis by (cases cs) auto
  next
    case (Suc j)
    with Cons.prems Cons.IH [of "PointAtEnd c" j] show ?thesis by simp
  qed
qed

text \<open>
  Claim C1. For every non-empty list of curves and every start point,
  \<open>sort_curves_nearest_neighbor\<close> returns a tour (it raises nothing) that holds every
  input curve exactly once, each either as given or reversed: the tour is a permutation
  of a re-orientation \<open>ys\<close> of the input. For any two consecutive curves of the tour,
  the end point of the first is at most as far from the start point of the second as
  from the end point of the second.
\<close>

theorem tour_visits_each_curve_once:
  assumes "curves \<noteq> []"
  shows "\<exists>tour ys. sort_curves_nearest_neighbor curves start_point = Some tour \<and>
           reoriented curves ys \<and> mset tour = mset ys \<and>
           (\<forall>i. Suc i < length tour \<longrightarrow>
              DistanceTo (PointAtEnd (tour ! i)) (PointAtStart (tour ! Suc i))
                \<le> DistanceTo (PointAtEnd (tour ! i)) (PointAtEnd (tour ! Suc i)))"
proof -
  from pick_closest_some [OF assms, of start_point]
  obtain c i where pk: "pick_closest start_point curves = Some (c, take i curves @ drop (Suc i) curves)"
    and i: "i < length curves" and c: "c = curves ! i \<or> c = Reverse (curves ! i)"
    and d: "DistanceTo start_point (PointAtStart c) \<le> DistanceTo start_point (PointAtEnd c)"
    by blast
  let ?u = "take i curves @ drop (Suc i) curves"
  from nn_loop_tour [of "PointAtEnd c" ?u "[c]"]
  obtain rest ys where r: "nn_loop (PointAtEnd c) ?u [c] = Some ([c] @ rest)"
    "reoriented ?u ys" "mset rest = mset ys" "approached (PointAtEnd c) rest"
    by blast
  have t: "sort_curves_nearest_neighbor curves start_point = Some (c # rest)"
    using assms pk r(1) by (simp add: sort_curves_nearest_neighbor_def)
  have "reoriented curves (take i ys @ c # drop i ys)"
    using i r(2) c by (rule reoriented_remove)
  moreover have "mset (c # rest) = mset (take i ys @ c # drop i ys)"
    using r(3) by (simp add: union_code)
  moreover have "approached start_point (c # rest)"
    using d r(4) by simp
  ultimately show ?thesis
    using t approached_consecutive [of start_point "c # rest"] by blast
qed


text \<open>
  A run on two curves: the second one is reached at its end point and is reversed.
\<close>

theorem tour_visits_each_curve_once_witness:
  "[\<lparr>PointAtStart = \<lparr>X = 0, Y = 0, Z = 0\<rparr>, PointAtEnd = \<lparr>X = 1, Y = 0, Z = 0\<rparr>\<rparr>,
    \<lparr>PointAtStart = \<lparr>X = 5, Y = 0, Z = 0\<rparr>, PointAtEnd = \<lparr>X = 3, Y = 0, Z = 0\<rparr>\<rparr>] \<noteq> []
   \<and> sort_curves_nearest_neighbor
       [\<lparr>PointAtStart = \<lparr>X = 0, Y = 0, Z = 0\<rparr>, PointAtEnd = \<lparr>X = 1, Y = 0, Z = 0\<rparr>\<rparr>,
        \<lparr>PointAtStart = \<lparr>X = 5, Y = 0, Z = 0\<rparr>, PointAtEnd = \<lparr>X = 3, Y = 0, Z = 0\<rparr>\<rparr>]
       \<lparr>X = 0, Y = 0, Z = 0\<rparr>
     = Some [\<lparr>PointAtStart = \<lparr>X = 0, Y = 0, Z = 0\<rparr>, PointAtEnd = \<lparr>X = 1, Y = 0, Z = 0\<rparr>\<rparr>,
             \<lparr>PointAtStart = \<lparr>X = 3, Y = 0, Z = 0\<rparr>, PointAtEnd = \<lparr>X = 5, Y = 0, Z = 0\<rparr>\<rparr>]
   \<and> (\<exists>tour ys. sort_curves_nearest_neighbor
       [\<lparr>PointAtStart = \<lparr>X = 0, Y = 0, Z = 0\<rparr>, PointAtEnd = \<lparr>X = 1, Y = 0, Z = 0\<rparr>\<rparr>,
        \<lparr>PointAtStart = \<lparr>X = 5, Y = 0, Z = 0\<rparr>, PointAtEnd = \<lparr>X = 3, Y = 0, Z = 0\<rparr>\<rparr>]
       \<lparr>X = 0, Y = 0, Z = 0\<rparr> = Some tour \<and>
       reoriented
         [\<lparr>PointAtStart = \<lparr>X = 0, Y = 0, Z = 0\<rparr>, PointAtEnd = \<lparr>X = 1, Y = 0, Z = 0\<rparr>\<rparr>,
          \<lparr>PointAtStart = \<lparr>X = 5, Y = 0, Z = 0\<rparr>, PointAtEnd = \<lparr>X = 3, Y = 0, Z = 0\<rparr>\<rparr>] ys \<and>
       mset tour = mset ys \<and>
       (\<forall>i. Suc i < length tour \<longrightarrow>
          DistanceTo (PointAtEnd (tour ! i)) (PointAtStart (tour ! Suc i))
            \<le> DistanceTo (PointAtEnd (tour ! i)) (PointAtEnd (tour ! Suc i))))"
proof -
  let ?cs = "[\<lparr>PointAtStart = \<lparr>X = 0, Y = 0, Z = 0\<rparr>, PointAtEnd = \<lparr>X = 1, Y = 0, Z = 0\<rparr>\<rparr>,
    \<lparr>PointAtStart = \<lparr>X = 5, Y = 0, Z = 0\<rparr>, PointAtEnd = \<lparr>X = 3, Y = 0, Z = 0\<rparr>\<rparr>]"
  have ne: "?cs \<noteq> []" by simp
  have run: "sort_curves_nearest_neighbor ?cs \<lparr>X = 0, Y = 0, Z = 0\<rparr>
     = Some [\<lparr>PointAtStart = \<lparr>X = 0, Y = 0, Z = 0\<rparr>, PointAtEnd = \<lparr>X = 1, Y = 0, Z = 0\<rparr>\<rparr>,
             \<lparr>PointAtStart = \<lparr>X = 3, Y = 0, Z = 0\<rparr>, PointAtEnd = \<lparr>X = 5, Y = 0, Z = 0\<rparr>\<rparr>]"
    by (simp add: sort_curves_nearest_neighbor_def pick_closest_def nn_loop.simps DistanceTo_def
          Reverse_def Let_def)
  from ne run tour_visits_each_curve_once [OF ne, of "\<lparr>X = 0, Y = 0, Z = 0\<rparr>"]
  show ?thesis by blast
qed

section \<open>Properties of validation\<close>

lemma validate_Inr:
  assumes "validate a = Inr r"
  shows "speeds r = speed_list (printing_speed a)"
    and "all_curves r = valid_curves (printing_path a)"
    and "valid_curves (printing_path a) \<noteq> []"
    and "layer_h a \<noteq> 0"
    and "min_z r = min_z_of (valid_curves (printing_path a))"
    and "num_layers r = num_layers_of (valid_curves (printing_path a)) (layer_h a)"
    and "scope_of_length (length (speed_list (printing_speed a)))
           (num_layers_of (valid_curves (printing_path a)) (layer_h a))
           (length (valid_curves (printing_path a))) = Some (speed_mode_detail r)"
    and "\<not> list_ex (\<lambda>speed. speed < 1800 \<or> speed > 10000) (speed_list (printing_speed a))"
    and "resolve_flux a (num_layers_of (valid_curves (printing_path a)) (layer_h a))
           (length (valid_curves (printing_path a))) = Inr (flux_detail r)"
  using assms
  by (auto simp: validate_def Let_def split: if_splits option.splits sum.splits)

lemma generate_Inr:
  assumes "generate_gcode a = Inr out"
  shows "\<exists>r. validate a = Inr r \<and> layers out = num_layers r"
  using assms by (auto simp: generate_gcode_def split: sum.splits)

lemma generate_Rejected:
  assumes "generate_gcode a = Inl (Rejected why n)"
  shows "validate a = Inl (Rejected why n)"
  using assms by (auto simp: generate_gcode_def split: sum.splits)

lemma validate_Inl:
  assumes "validate a = Inl f"
  shows "generate_gcode a = Inl f"
  using assms by (simp add: generate_gcode_def)

lemma validate_Rejected_layers:
  assumes "validate a = Inl (Rejected why (Some n))"
  shows "n = num_layers_of (valid_curves (printing_path a)) (layer_h a)"
  using assms
  by (auto simp: validate_def Let_def resolve_flux_def
      split: if_splits option.splits sum.splits prod.splits)

lemma py_int_floor: "0 \<le> x \<Longrightarrow> py_int x = \<lfloor>x\<rfloor>"
  by (simp add: py_int_def)

lemma min_z_le_max_z:
  assumes "cs \<noteq> []"
  shows "min_z_of cs \<le> max_z_of cs"
proof -
  obtain c where c: "c \<in> set cs" using assms by (cases cs) auto
  have "min_z_of cs \<le> min (Z (PointAtStart c)) (Z (PointAtEnd c))"
    unfolding min_z_of_def using c by (intro Min_le) auto
  moreover have "max (Z (PointAtStart c)) (Z (PointAtEnd c)) \<le> max_z_of cs"
    unfolding max_z_of_def using c by (intro Max_ge) auto
  ultimately show ?thesis by linarith
qed

lemma num_layers_of_floor:
  assumes "0 < h" "cs \<noteq> []"
  shows "num_layers_of cs h = \<lfloor>(max_z_of cs - min_z_of cs) / h\<rfloor> + 1"
  using assms min_z_le_max_z [OF assms(2)] by (simp add: num_layers_of_def py_int_floor)

lemma scope_of_length_Some:
  "scope_of_length n L C = Some d \<longleftrightarrow>
     (n = 1 \<or> int n = L \<or> n = C) \<and>
     d = (if n = 1 then global else if int n = L then per_layer else per_curve)"
  by (auto simp: scope_of_length_def)

lemma scope_of_length_None:
  "scope_of_length n L C = None \<longleftrightarrow> n \<noteq> 1 \<and> int n \<noteq> L \<and> n \<noteq> C"
  by (auto simp: scope_of_length_def)

lemma speed_count_mismatch_fails:
  assumes "scope_of_length (length (speed_list (printing_speed a)))
             (num_layers_of (valid_curves (printing_path a)) (layer_h a))
             (length (valid_curves (printing_path a))) = None"
  shows "\<exists>f. validate a = Inl f"
  using assms by (auto simp: validate_def Let_def)

lemma flux_count_mismatch_fails:
  assumes "flux_mode a = 1"
    and "scope_of_length (length (m1_flux_list (m1_flux a)))
             (num_layers_of (valid_curves (printing_path a)) (layer_h a))
             (length (valid_curves (printing_path a))) = None"
  shows "\<exists>f. validate a = Inl f"
  using assms by (auto simp: validate_def Let_def resolve_flux_def split: option.splits)

lemma out_of_band_fails:
  assumes "list_ex (\<lambda>speed. speed < 1800 \<or> speed > 10000) (speed_list (printing_speed a))"
  shows "\<exists>f. validate a = Inl f \<and> (layer_h a \<noteq> 0 \<longrightarrow> (\<exists>why n. f = Rejected why n))"
  using assms
  by (auto simp: validate_def Let_def split: option.splits)

lemma linear_list_Num: "linear_list (Num x) n = replicate n x"
  by (induction n) (simp_all add: linear_list_def)

lemma linear_mismatch_fails:
  assumes "flux_mode a = 2" "m2_flux_start a = Some s" "m2_flux_end a = Some e"
    and "length (linear_list s (length (valid_curves (printing_path a))))
           \<noteq> length (linear_list e (length (valid_curves (printing_path a))))
         \<or> length (linear_list s (length (valid_curves (printing_path a))))
           \<noteq> length (valid_curves (printing_path a))"
  shows "\<exists>f. validate a = Inl f"
  using assms by (auto simp: validate_def Let_def resolve_flux_def split: option.splits)

lemma linear_resolved:
  assumes "flux_mode a = 2" "m2_flux_start a = Some s" "m2_flux_end a = Some e"
    and "validate a = Inr r"
  shows "flux_detail r = linear_flux (linear_list s (length (valid_curves (printing_path a))))
           (linear_list e (length (valid_curves (printing_path a))))"
  using validate_Inr(9) [OF assms(4)] assms(1-3)
  by (auto simp: resolve_flux_def Let_def split: if_splits)

lemma constant_resolved:
  assumes "flux_mode a = 1" "validate a = Inr r"
  shows "scope_of_length (length (m1_flux_list (m1_flux a)))
             (num_layers_of (valid_curves (printing_path a)) (layer_h a))
             (length (valid_curves (printing_path a))) = Some d
         \<longleftrightarrow> flux_detail r = constant_flux d (m1_flux_list (m1_flux a))"
  using validate_Inr(9) [OF assms(2)] assms(1)
  by (auto simp: resolve_flux_def Let_def split: if_splits option.splits)

section \<open>A worked run of version 241001\<close>

text \<open>The fields of the example inputs, then each stage of the function on them.\<close>

lemma two_layers_fields:
  "printing_path two_layers = [x_line 5 0 1 (Some [0, 2, 4]), x_line 0 5 0 (Some [0, 2, 4])]"
  "nozzle_diameter two_layers = 4" "printing_speed two_layers = Num 3000"
  "m1_flux two_layers = Num 1" "layer_h two_layers = 1" "e_absolute two_layers"
  "\<not> retract two_layers" "flux_mode two_layers = 1" "m2_flux_start two_layers = None"
  "m2_flux_end two_layers = None" "density_kg_m3 two_layers = None"
  by (simp_all add: two_layers_def)

lemma x_line_fields:
  "PointAtStart (x_line x0 x1 z d) = \<lparr>X = x0, Y = 0, Z = z\<rparr>"
  "PointAtEnd (x_line x0 x1 z d) = \<lparr>X = x1, Y = 0, Z = z\<rparr>"
  "IsValid (x_line x0 x1 z d)" "GetLength (x_line x0 x1 z d) = \<bar>x1 - x0\<bar>"
  "PointAt (x_line x0 x1 z d) t = \<lparr>X = x0 + t * sgn (x1 - x0), Y = 0, Z = z\<rparr>"
  "DivideByLength (x_line x0 x1 z d) s b = d"
  by (simp_all add: x_line_def)

lemma valid_two_layers:
  "valid_curves [x_line 5 0 1 (Some [0, 2, 4]), x_line 0 5 0 (Some [0, 2, 4])]
     = [x_line 5 0 1 (Some [0, 2, 4]), x_line 0 5 0 (Some [0, 2, 4])]"
  by (simp add: valid_curves_def x_line_fields)

lemma num_layers_two_layers:
  "num_layers_of [x_line 5 0 1 (Some [0, 2, 4]), x_line 0 5 0 (Some [0, 2, 4])] 1 = 2"
  "min_z_of [x_line 5 0 1 (Some [0, 2, 4]), x_line 0 5 0 (Some [0, 2, 4])] = 0"
  "max_z_of [x_line 5 0 1 (Some [0, 2, 4]), x_line 0 5 0 (Some [0, 2, 4])] = 1"
  by (simp_all add: num_layers_of_def min_z_of_def max_z_of_def x_line_fields py_int_def)

lemma validate_two_layers: "validate two_layers = Inr two_layers_resolved"
  by (simp add: validate_def two_layers_fields valid_two_layers num_layers_two_layers
      scope_of_length_def resolve_flux_def speed_list_def m1_flux_list_def two_layers_resolved_def)

lemma segment_points_x_line:
  "segment_points nozzle (x_line x0 x1 z (Some ps))
     = Some (\<lparr>X = x0, Y = 0, Z = z\<rparr>
             # map (\<lambda>t. \<lparr>X = x0 + t * sgn (x1 - x0), Y = 0, Z = z\<rparr>) ps
             @ [\<lparr>X = x1, Y = 0, Z = z\<rparr>])"
  "segment_points nozzle (x_line x0 x1 z None) = None"
  by (simp_all add: segment_points_def x_line_def)

lemma layers_two_layers:
  "curves_by_layer [x_line 5 0 1 (Some [0, 2, 4]), x_line 0 5 0 (Some [0, 2, 4])] 0 1
     = [(0, [(x_line 0 5 0 (Some [0, 2, 4]), 1)]), (1, [(x_line 5 0 1 (Some [0, 2, 4]), 0)])]"
  by (simp add: curves_by_layer_def Let_def layer_index_of_def py_int_def upt_rec x_line_fields)

lemma resolved_fields:
  "speeds two_layers_resolved = [3000]"
  "all_curves two_layers_resolved = [x_line 5 0 1 (Some [0, 2, 4]), x_line 0 5 0 (Some [0, 2, 4])]"
  "min_z two_layers_resolved = 0" "num_layers two_layers_resolved = 2"
  "speed_mode_detail two_layers_resolved = global"
  "flux_detail two_layers_resolved = constant_flux global [1]"
  by (simp_all add: two_layers_resolved_def)

lemma estimation_two_layers:
  "estimation_pass two_layers two_layers_resolved
     = Inr \<lparr>est_flux = Some 1, total_extruded_volume = 44, total_printing_distance = 11,
            est_previous_point = Some \<lparr>X = 0, Y = 0, Z = 1\<rparr>\<rparr>"
  by (simp add: estimation_pass_def resolved_fields layers_two_layers two_layers_fields
      est_layer_def est_curve_def est_curve_flux_def lookup_def py_index_def
      segment_points_x_line segments_def normalized_distances_def cumulative_distances_def
      DistanceTo_def Let_def est_segment_def segment_flux_def)

lemma generation_two_layers:
  "map_sum id gcode (generation_pass two_layers two_layers_resolved)
     = Inr (start_block two_layers two_layers_resolved @ two_layers_body)"
  by (simp add: generation_pass_def resolved_fields layers_two_layers two_layers_fields
      emit_layer_def emit_curve_def emit_curve_flux_def lookup_def py_index_def
      segment_points_x_line segments_def normalized_distances_def cumulative_distances_def
      DistanceTo_def Let_def emit_segment_def segment_flux_def two_layers_body_def)

lemma generate_two_layers:
  "generate_gcode two_layers
     = Inr \<lparr>g_code = two_layers_program, printing_time = 11 / 3000, printing_path_len = 11,
            layers = 2\<rparr>"
proof -
  obtain s where s: "generation_pass two_layers two_layers_resolved = Inr s"
    "gcode s = start_block two_layers two_layers_resolved @ two_layers_body"
    using generation_two_layers by (cases "generation_pass two_layers two_layers_resolved") auto
  have "gcode s @ end_block two_layers = two_layers_program"
    by (simp add: s(2) two_layers_program_def)
  then show ?thesis
    by (simp add: generate_gcode_def validate_two_layers estimation_two_layers s(1)
        estimate_time_def resolved_fields)
qed

section \<open>Speed band and linear flux lists\<close>

lemma speed_check_240811:
  "speed < 1800 \<or> speed > 11000 \<Longrightarrow>
     generate_gcode_240811 path nozzle speed fl h retr = Inl (Rejected SpeedOutOfRange None)"
  unfolding generate_gcode_240811_def by (rule if_P)

lemma speed_check_240720:
  "speed < 1800 \<or> speed > 11000 \<Longrightarrow>
     generate_gcode_240720 path nozzle speed fl h = Inl (Rejected SpeedOutOfRange None)"
  unfolding generate_gcode_240720_def by (rule if_P)

text \<open>
  Claim C4. A printing speed outside the band makes the whole run fail: the function
  returns no program. In version 241001 (band 1800 to 10000) the failure is a rejection
  unless the layer height is 0, where the division raises first. In versions 240811 and
  240720 (band 1800 to 11000) the speed check is the first statement.
\<close>

theorem out_of_band_speed_is_rejected:
  "(list_ex (\<lambda>speed. speed < 1800 \<or> speed > 10000) (speed_list (printing_speed a)) \<longrightarrow>
      (\<exists>f. generate_gcode a = Inl f \<and> (layer_h a \<noteq> 0 \<longrightarrow> (\<exists>why n. f = Rejected why n))))
   \<and> (speed < 1800 \<or> speed > 11000 \<longrightarrow>
        generate_gcode_240811 path nozzle speed fl h retr = Inl (Rejected SpeedOutOfRange None)
        \<and> generate_gcode_240720 path nozzle speed fl' h = Inl (Rejected SpeedOutOfRange None))"
proof (intro conjI impI)
  assume "list_ex (\<lambda>speed. speed < 1800 \<or> speed > 10000) (speed_list (printing_speed a))"
  from out_of_band_fails [OF this]
  obtain f where f: "validate a = Inl f" "layer_h a \<noteq> 0 \<longrightarrow> (\<exists>why n. f = Rejected why n)"
    by blast
  from validate_Inl [OF f(1)] f(2)
  show "\<exists>f. generate_gcode a = Inl f \<and> (layer_h a \<noteq> 0 \<longrightarrow> (\<exists>why n. f = Rejected why n))"
    by blast
next
  assume "speed < 1800 \<or> speed > 11000"
  then show "generate_gcode_240811 path nozzle speed fl h retr = Inl (Rejected SpeedOutOfRange None)"
    by (rule speed_check_240811)
next
  assume "speed < 1800 \<or> speed > 11000"
  then show "generate_gcode_240720 path nozzle speed fl' h = Inl (Rejected SpeedOutOfRange None)"
    by (rule speed_check_240720)
qed

lemma validate_two_layers_500:
  "validate (two_layers\<lparr>printing_speed := Num 500\<rparr>) = Inl (Rejected SpeedOutOfRange None)"
  by (simp add: validate_def two_layers_fields valid_two_layers num_layers_two_layers
      scope_of_length_def speed_list_def)

text \<open>The speed of 500 mm/min of the specification, in all three versions.\<close>

theorem out_of_band_speed_is_rejected_witness:
  "list_ex (\<lambda>speed. speed < 1800 \<or> speed > 10000)
     (speed_list (printing_speed (two_layers\<lparr>printing_speed := Num 500\<rparr>)))
   \<and> generate_gcode (two_layers\<lparr>printing_speed := Num 500\<rparr>) = Inl (Rejected SpeedOutOfRange None)
   \<and> ((500::real) < 1800 \<or> (500::real) > 11000)
   \<and> generate_gcode_240811 (printing_path two_layers) 4 500 (Num 1) 1 False
       = Inl (Rejected SpeedOutOfRange None)
   \<and> generate_gcode_240720 (printing_path two_layers) 4 500 1 1
       = Inl (Rejected SpeedOutOfRange None)"
proof -
  have h: "list_ex (\<lambda>speed. speed < 1800 \<or> speed > 10000)
     (speed_list (printing_speed (two_layers\<lparr>printing_speed := Num 500\<rparr>)))"
    by (simp add: speed_list_def)
  have g: "generate_gcode (two_layers\<lparr>printing_speed := Num 500\<rparr>)
      = Inl (Rejected SpeedOutOfRange None)"
    using validate_two_layers_500 by (simp add: generate_gcode_def)
  have k: "(500::real) < 1800 \<or> (500::real) > 11000" by simp
  from h g k
    out_of_band_speed_is_rejected [of "two_layers\<lparr>printing_speed := Num 500\<rparr>" 500
      "printing_path two_layers" 4 "Num 1" 1 False 1]
  show ?thesis by blast
qed

text \<open>
  Claim C10. In linear flux mode a scalar start or end flux becomes a list with one entry
  per valid curve. With both inputs given, the run fails whenever the two lists, after
  this replication, differ in length or are not as long as the number of valid curves;
  a run that succeeds has resolved the flux to exactly these two lists.
\<close>

theorem linear_flux_lists_are_checked:
  assumes "flux_mode a = 2" "m2_flux_start a = Some s" "m2_flux_end a = Some e"
  shows "linear_list (Num x) (length (valid_curves (printing_path a)))
           = replicate (length (valid_curves (printing_path a))) x
     \<and> (length (linear_list s (length (valid_curves (printing_path a))))
           \<noteq> length (linear_list e (length (valid_curves (printing_path a))))
         \<or> length (linear_list s (length (valid_curves (printing_path a))))
           \<noteq> length (valid_curves (printing_path a))
         \<longrightarrow> (\<exists>f. generate_gcode a = Inl f))
     \<and> (\<forall>out. generate_gcode a = Inr out \<longrightarrow>
          (\<exists>r. validate a = Inr r \<and>
             flux_detail r = linear_flux (linear_list s (length (valid_curves (printing_path a))))
               (linear_list e (length (valid_curves (printing_path a))))))"
proof (intro conjI impI allI)
  show "linear_list (Num x) (length (valid_curves (printing_path a)))
           = replicate (length (valid_curves (printing_path a))) x"
    by (rule linear_list_Num)
next
  assume "length (linear_list s (length (valid_curves (printing_path a))))
           \<noteq> length (linear_list e (length (valid_curves (printing_path a))))
         \<or> length (linear_list s (length (valid_curves (printing_path a))))
           \<noteq> length (valid_curves (printing_path a))"
  from linear_mismatch_fails [OF assms this] show "\<exists>f. generate_gcode a = Inl f"
    using validate_Inl by blast
next
  fix out assume "generate_gcode a = Inr out"
  then obtain r where "validate a = Inr r"
    using generate_Inr by blast
  with linear_resolved [OF assms this]
  show "\<exists>r. validate a = Inr r \<and>
             flux_detail r = linear_flux (linear_list s (length (valid_curves (printing_path a))))
               (linear_list e (length (valid_curves (printing_path a))))"
    by blast
qed

text \<open>
  A scalar start flux with an end flux list of three entries, for two curves: the start
  flux becomes a list of two entries, the lengths differ, the run is rejected.
\<close>

lemma validate_linear_mismatch:
  "validate (two_layers\<lparr>flux_mode := 2, m2_flux_start := Some (Num 1),
                m2_flux_end := Some (PyList [Num 1, Num 2, Num 3])\<rparr>)
     = Inl (Rejected LinearFluxLengthMismatch None)"
  by (simp add: validate_def two_layers_fields valid_two_layers num_layers_two_layers
      scope_of_length_def speed_list_def resolve_flux_def linear_list_def)

theorem linear_flux_lists_are_checked_witness:
  "flux_mode (two_layers\<lparr>flux_mode := 2, m2_flux_start := Some (Num 1),
                m2_flux_end := Some (PyList [Num 1, Num 2, Num 3])\<rparr>) = 2
   \<and> linear_list (Num 1) (length (valid_curves (printing_path two_layers))) = [1, 1]
   \<and> length (linear_list (PyList [Num 1, Num 2, Num 3])
               (length (valid_curves (printing_path two_layers)))) = 3
   \<and> generate_gcode (two_layers\<lparr>flux_mode := 2, m2_flux_start := Some (Num 1),
                m2_flux_end := Some (PyList [Num 1, Num 2, Num 3])\<rparr>)
       = Inl (Rejected LinearFluxLengthMismatch None)
   \<and> (\<exists>f. generate_gcode (two_layers\<lparr>flux_mode := 2, m2_flux_start := Some (Num 1),
                m2_flux_end := Some (PyList [Num 1, Num 2, Num 3])\<rparr>) = Inl f)"
proof -
  let ?a = "two_layers\<lparr>flux_mode := 2, m2_flux_start := Some (Num 1),
                m2_flux_end := Some (PyList [Num 1, Num 2, Num 3])\<rparr>"
  have h: "flux_mode ?a = 2" "m2_flux_start ?a = Some (Num 1)"
    "m2_flux_end ?a = Some (PyList [Num 1, Num 2, Num 3])"
    by simp_all
  have p: "printing_path ?a = printing_path two_layers" by simp
  have l: "linear_list (Num 1) (length (valid_curves (printing_path two_layers))) = [1, 1]"
    "length (linear_list (PyList [Num 1, Num 2, Num 3])
               (length (valid_curves (printing_path two_layers)))) = 3"
    by (simp_all add: two_layers_fields valid_two_layers linear_list_def)
  have g: "generate_gcode ?a = Inl (Rejected LinearFluxLengthMismatch None)"
    using validate_linear_mismatch by (simp add: generate_gcode_def)
  from linear_flux_lists_are_checked [OF h, of 1] l
  have "\<exists>f. generate_gcode ?a = Inl f"
    unfolding p by simp
  with h(1) l g show ?thesis by blast
qed

section \<open>Layer count\<close>

lemma generate_240811_Inr:
  assumes "generate_gcode_240811 path nozzle speed fl h retr = Inr out"
  shows "layers out = num_layers_240811 path h"
    and "\<not> (length (flux_list_240811 fl) \<noteq> 1
            \<and> int (length (flux_list_240811 fl)) < num_layers_240811 path h)"
  using assms
  by (auto simp: generate_gcode_240811_def Let_def split: if_splits sum.splits)

lemma generate_240811_short_flux:
  assumes "1800 \<le> speed" "speed \<le> 11000" "path \<noteq> []" "h \<noteq> 0"
    and "length (flux_list_240811 fl) \<noteq> 1"
    and "int (length (flux_list_240811 fl)) < num_layers_240811 path h"
  shows "generate_gcode_240811 path nozzle speed fl h retr
           = Inl (Rejected FluxCountMismatch (Some (num_layers_240811 path h)))"
  using assms by (simp add: generate_gcode_240811_def Let_def)

lemma num_layers_240811_floor:
  assumes "0 < h" "0 \<le> Max (set (map (\<lambda>c. Z (PointAtEnd c)) path))"
  shows "num_layers_240811 path h = \<lfloor>Max (set (map (\<lambda>c. Z (PointAtEnd c)) path)) / h\<rfloor> + 1"
  using assms by (simp add: num_layers_240811_def py_int_floor)

lemma high_curve_240811:
  "generate_gcode_240811 [x_line 0 5 10 (Some [0, 2, 4])] 4 3000 (Num 1) 1 False
     = Inr \<lparr>g_code = start_block_240811
              @ [LayerStart 11,
                 G1 3000 \<lparr>X = 0, Y = 0, Z = 10\<rparr> 0,
                 G1 3000 \<lparr>X = 2, Y = 0, Z = 10\<rparr> 2,
                 G1 3000 \<lparr>X = 4, Y = 0, Z = 10\<rparr> 4,
                 G1 3000 \<lparr>X = 5, Y = 0, Z = 10\<rparr> 5,
                 LayerEnd 11]
              @ end_block_240811,
            printing_time = 1 / 600, printing_path_len = 5, layers = 11\<rparr>"
  by (simp add: generate_gcode_240811_def num_layers_240811_def flux_list_240811_def
      curves_by_layer_240811_def x_line_fields py_int_def py_index_def layer_240811_def
      curve_240811_def segment_points_def nozzle_div_def segment_240811_def DistanceTo_def Let_def)

text \<open>
  Claim C6, as stated, fails in version 240811: a single curve at height 10 with layers
  of 1 mm has equal extents, so the claim gives 1 layer; the function returns 11.
\<close>

theorem layer_count_240811_counterexample:
  "map_sum id layers (generate_gcode_240811 [x_line 0 5 10 (Some [0, 2, 4])] 4 3000 (Num 1) 1 False)
     = Inr 11
   \<and> \<lfloor>(max_z_of [x_line 0 5 10 (Some [0, 2, 4])] - min_z_of [x_line 0 5 10 (Some [0, 2, 4])]) / 1\<rfloor> + 1
     = (1::int)"
  by (simp add: high_curve_240811 max_z_of_def min_z_of_def x_line_fields)

text \<open>
  Claim C6, amended. In version 241001, for a positive layer height, the layer count
  that the function returns (with a program, or alone when it rejects a speed or flux
  list for its length) is \<open>floor((maxZ - minZ) / layer_h) + 1\<close>, the extents taken over
  the start and end points of the valid curves. In version 240811 the count is
  \<open>int(maxEndZ / layer_h) + 1\<close> with \<open>maxEndZ\<close> the largest end-point height of all
  input curves: heights count from 0, not from \<open>minZ\<close>. That is
  \<open>floor(maxEndZ / layer_h) + 1\<close> when \<open>maxEndZ\<close> is not negative and the layer height is
  positive.
\<close>

theorem layer_count_returned:
  "(0 < layer_h a \<longrightarrow>
      (generate_gcode a = Inr out \<longrightarrow>
         layers out = \<lfloor>(max_z_of (valid_curves (printing_path a))
                          - min_z_of (valid_curves (printing_path a))) / layer_h a\<rfloor> + 1)
      \<and> (generate_gcode a = Inl (Rejected why (Some n)) \<longrightarrow>
         n = \<lfloor>(max_z_of (valid_curves (printing_path a))
                 - min_z_of (valid_curves (printing_path a))) / layer_h a\<rfloor> + 1))
   \<and> (generate_gcode_240811 path nozzle speed fl h retr = Inr out' \<longrightarrow>
        layers out' = py_int (Max (set (map (\<lambda>c. Z (PointAtEnd c)) path)) / h) + 1
        \<and> (0 < h \<and> 0 \<le> Max (set (map (\<lambda>c. Z (PointAtEnd c)) path)) \<longrightarrow>
             layers out' = \<lfloor>Max (set (map (\<lambda>c. Z (PointAtEnd c)) path)) / h\<rfloor> + 1))"
proof (intro conjI impI)
  assume h: "0 < layer_h a" and g: "generate_gcode a = Inr out"
  from generate_Inr [OF g] obtain r where r: "validate a = Inr r" "layers out = num_layers r"
    by blast
  from validate_Inr(3,6) [OF r(1)] r(2) num_layers_of_floor [OF h]
  show "layers out = \<lfloor>(max_z_of (valid_curves (printing_path a))
                          - min_z_of (valid_curves (printing_path a))) / layer_h a\<rfloor> + 1"
    by simp
next
  assume h: "0 < layer_h a" and g: "generate_gcode a = Inl (Rejected why (Some n))"
  have v: "validate a = Inl (Rejected why (Some n))"
    using g by (rule generate_Rejected)
  have "valid_curves (printing_path a) \<noteq> []"
    using v by (auto simp: validate_def Let_def)
  with validate_Rejected_layers [OF v] num_layers_of_floor [OF h]
  show "n = \<lfloor>(max_z_of (valid_curves (printing_path a))
                 - min_z_of (valid_curves (printing_path a))) / layer_h a\<rfloor> + 1"
    by simp
next
  assume g: "generate_gcode_240811 path nozzle speed fl h retr = Inr out'"
  from generate_240811_Inr(1) [OF g]
  show "layers out' = py_int (Max (set (map (\<lambda>c. Z (PointAtEnd c)) path)) / h) + 1"
    by (simp add: num_layers_240811_def)
next
  assume g: "generate_gcode_240811 path nozzle speed fl h retr = Inr out'"
    and "0 < h \<and> 0 \<le> Max (set (map (\<lambda>c. Z (PointAtEnd c)) path))"
  with generate_240811_Inr(1) [OF g] num_layers_240811_floor [of h path]
  show "layers out' = \<lfloor>Max (set (map (\<lambda>c. Z (PointAtEnd c)) path)) / h\<rfloor> + 1"
    by simp
qed

text \<open>
  The worked run on two layers returns 2; with three speeds for its two curves and two
  layers, the same input is rejected and 2 is all that is returned; the curve at height
  10 gives 11 in version 240811.
\<close>

lemma validate_three_speeds:
  "validate (two_layers\<lparr>printing_speed := PyList [Num 2000, Num 2500, Num 3000]\<rparr>)
     = Inl (Rejected SpeedCountMismatch (Some 2))"
  by (simp add: validate_def two_layers_fields valid_two_layers num_layers_two_layers
      scope_of_length_def speed_list_def)

theorem layer_count_returned_witness:
  "0 < layer_h two_layers
   \<and> generate_gcode two_layers
       = Inr \<lparr>g_code = two_layers_program, printing_time = 11 / 3000, printing_path_len = 11,
              layers = 2\<rparr>
   \<and> \<lfloor>(max_z_of (valid_curves (printing_path two_layers))
          - min_z_of (valid_curves (printing_path two_layers))) / layer_h two_layers\<rfloor> + 1 = 2
   \<and> generate_gcode (two_layers\<lparr>printing_speed := PyList [Num 2000, Num 2500, Num 3000]\<rparr>)
       = Inl (Rejected SpeedCountMismatch (Some 2))
   \<and> map_sum id layers
         (generate_gcode_240811 [x_line 0 5 10 (Some [0, 2, 4])] 4 3000 (Num 1) 1 False)
       = Inr (py_int (Max (set (map (\<lambda>c. Z (PointAtEnd c)) [x_line 0 5 10 (Some [0, 2, 4])])) / 1) + 1)"
proof -
  let ?b = "two_layers\<lparr>printing_speed := PyList [Num 2000, Num 2500, Num 3000]\<rparr>"
  have h: "0 < layer_h two_layers" "0 < layer_h ?b"
    by (simp_all add: two_layers_fields)
  have g: "generate_gcode ?b = Inl (Rejected SpeedCountMismatch (Some 2))"
    using validate_three_speeds by (simp add: generate_gcode_def)
  note t = layer_count_returned
    [of two_layers "\<lparr>g_code = two_layers_program, printing_time = 11 / 3000,
         printing_path_len = 11, layers = 2\<rparr>" SpeedCountMismatch 2
       "[x_line 0 5 10 (Some [0, 2, 4])]" 4 3000 "Num 1" 1 False
       "\<lparr>g_code = start_block_240811
              @ [LayerStart 11,
                 G1 3000 \<lparr>X = 0, Y = 0, Z = 10\<rparr> 0,
                 G1 3000 \<lparr>X = 2, Y = 0, Z = 10\<rparr> 2,
                 G1 3000 \<lparr>X = 4, Y = 0, Z = 10\<rparr> 4,
                 G1 3000 \<lparr>X = 5, Y = 0, Z = 10\<rparr> 5,
                 LayerEnd 11]
              @ end_block_240811,
            printing_time = 1 / 600, printing_path_len = 5, layers = 11\<rparr>"]
  have a: "\<lfloor>(max_z_of (valid_curves (printing_path two_layers))
          - min_z_of (valid_curves (printing_path two_layers))) / layer_h two_layers\<rfloor> + 1 = 2"
    using t h(1) generate_two_layers by simp
  have b: "map_sum id layers
         (generate_gcode_240811 [x_line 0 5 10 (Some [0, 2, 4])] 4 3000 (Num 1) 1 False)
       = Inr (py_int (Max (set (map (\<lambda>c. Z (PointAtEnd c)) [x_line 0 5 10 (Some [0, 2, 4])])) / 1) + 1)"
    using t high_curve_240811 by simp
  from h(1) generate_two_layers a g b show ?thesis by blast
qed

section \<open>Scope of a speed or flux list\<close>

lemma two_speeds_fields:
  "printing_path two_speeds = [x_line 5 0 1 (Some [0, 2, 4]), x_line 0 5 0 (Some [0, 2, 4])]"
  "nozzle_diameter two_speeds = 4" "printing_speed two_speeds = PyList [Num 2000, Num 3000]"
  "m1_flux two_speeds = Num 1" "layer_h two_speeds = 1" "e_absolute two_speeds"
  "\<not> retract two_speeds" "flux_mode two_speeds = 1" "m2_flux_start two_speeds = None"
  "m2_flux_end two_speeds = None" "density_kg_m3 two_speeds = None"
  by (simp_all add: two_speeds_def two_layers_def)

lemma validate_two_speeds:
  "validate two_speeds = Inr (two_layers_resolved\<lparr>speeds := [2000, 3000], speed_mode_detail := per_layer\<rparr>)"
  by (simp add: validate_def two_speeds_fields valid_two_layers num_layers_two_layers
      scope_of_length_def resolve_flux_def speed_list_def m1_flux_list_def two_layers_resolved_def)

lemma generation_two_speeds:
  "map_sum id (\<lambda>s. filter (\<lambda>l. case l of G0 _ _ \<Rightarrow> True | _ \<Rightarrow> False) (gcode s))
     (generation_pass two_speeds
        (two_layers_resolved\<lparr>speeds := [2000, 3000], speed_mode_detail := per_layer\<rparr>))
     = Inr [G0 2000 \<lparr>X = 0, Y = 0, Z = 0\<rparr>, G0 3000 \<lparr>X = 5, Y = 0, Z = 1\<rparr>]"
  by (simp add: generation_pass_def resolved_fields layers_two_layers two_speeds_fields
      emit_layer_def emit_curve_def emit_curve_flux_def lookup_def py_index_def
      segment_points_x_line segments_def normalized_distances_def cumulative_distances_def
      DistanceTo_def Let_def emit_segment_def segment_flux_def start_block_def)

lemma estimation_two_speeds:
  "estimation_pass two_speeds
     (two_layers_resolved\<lparr>speeds := [2000, 3000], speed_mode_detail := per_layer\<rparr>)
     = Inr \<lparr>est_flux = Some 1, total_extruded_volume = 44, total_printing_distance = 11,
            est_previous_point = Some \<lparr>X = 0, Y = 0, Z = 1\<rparr>\<rparr>"
  by (simp add: estimation_pass_def resolved_fields layers_two_layers two_speeds_fields
      est_layer_def est_curve_def est_curve_flux_def lookup_def py_index_def
      segment_points_x_line segments_def normalized_distances_def cumulative_distances_def
      DistanceTo_def Let_def est_segment_def segment_flux_def)

lemma rapid_moves_two_speeds:
  "map_sum id (\<lambda>out. filter (\<lambda>l. case l of G0 _ _ \<Rightarrow> True | _ \<Rightarrow> False) (g_code out))
     (generate_gcode two_speeds)
     = Inr [G0 2000 \<lparr>X = 0, Y = 0, Z = 0\<rparr>, G0 3000 \<lparr>X = 5, Y = 0, Z = 1\<rparr>]"
proof -
  let ?r = "two_layers_resolved\<lparr>speeds := [2000, 3000], speed_mode_detail := per_layer\<rparr>"
  obtain s where s: "generation_pass two_speeds ?r = Inr s"
    "filter (\<lambda>l. case l of G0 _ _ \<Rightarrow> True | _ \<Rightarrow> False) (gcode s)
       = [G0 2000 \<lparr>X = 0, Y = 0, Z = 0\<rparr>, G0 3000 \<lparr>X = 5, Y = 0, Z = 1\<rparr>]"
    using generation_two_speeds by (cases "generation_pass two_speeds ?r") auto
  show ?thesis
    by (simp add: generate_gcode_def validate_two_speeds estimation_two_speeds s
        estimate_time_def resolved_fields end_block_def)
qed

text \<open>
  Claim C5, as stated, fails where the lengths coincide. Two speeds for two curves on two
  layers are read per layer: the curve given first lies on the upper layer and is printed
  with the second speed.
\<close>

theorem equal_counts_read_per_layer_counterexample:
  "length (speed_list (printing_speed two_speeds)) = length (valid_curves (printing_path two_speeds))
   \<and> map_sum id speed_mode_detail (validate two_speeds) = Inr per_layer
   \<and> PointAtStart (printing_path two_speeds ! 0) = \<lparr>X = 5, Y = 0, Z = 1\<rparr>
   \<and> speed_list (printing_speed two_speeds) ! 0 = 2000
   \<and> map_sum id (\<lambda>out. filter (\<lambda>l. case l of G0 _ _ \<Rightarrow> True | _ \<Rightarrow> False) (g_code out))
        (generate_gcode two_speeds)
       = Inr [G0 2000 \<lparr>X = 0, Y = 0, Z = 0\<rparr>, G0 3000 \<lparr>X = 5, Y = 0, Z = 1\<rparr>]"
  by (simp add: validate_two_speeds rapid_moves_two_speeds two_speeds_fields valid_two_layers
      speed_list_def x_line_fields)

text \<open>
  Claim C5, amended. The scope of a speed list, and of a flux list in constant mode, is
  the first match in the order: length 1 is global; otherwise a length equal to the layer
  count is per layer; otherwise a length equal to the number of valid curves is per
  curve; any other length fails the whole run. In version 240811 only the flux takes a
  list, and a list that is not of length 1 and is shorter than the layer count fails the
  whole run.
\<close>

theorem scope_is_first_matching_length:
  "(validate a = Inr r \<longrightarrow>
      (let n = length (speed_list (printing_speed a));
           L = num_layers_of (valid_curves (printing_path a)) (layer_h a);
           C = length (valid_curves (printing_path a))
       in (n = 1 \<or> int n = L \<or> n = C)
          \<and> speed_mode_detail r
              = (if n = 1 then global else if int n = L then per_layer else per_curve))
      \<and> (flux_mode a = 1 \<longrightarrow>
           (let m = length (m1_flux_list (m1_flux a));
                L = num_layers_of (valid_curves (printing_path a)) (layer_h a);
                C = length (valid_curves (printing_path a))
            in (m = 1 \<or> int m = L \<or> m = C)
               \<and> flux_detail r
                   = constant_flux
                       (if m = 1 then global else if int m = L then per_layer else per_curve)
                       (m1_flux_list (m1_flux a)))))
   \<and> ((let n = length (speed_list (printing_speed a));
            L = num_layers_of (valid_curves (printing_path a)) (layer_h a);
            C = length (valid_curves (printing_path a))
        in n \<noteq> 1 \<and> int n \<noteq> L \<and> n \<noteq> C) \<longrightarrow> (\<exists>f. generate_gcode a = Inl f))
   \<and> (flux_mode a = 1 \<and>
        (let m = length (m1_flux_list (m1_flux a));
             L = num_layers_of (valid_curves (printing_path a)) (layer_h a);
             C = length (valid_curves (printing_path a))
         in m \<noteq> 1 \<and> int m \<noteq> L \<and> m \<noteq> C) \<longrightarrow> (\<exists>f. generate_gcode a = Inl f))
   \<and> (1800 \<le> speed \<and> speed \<le> 11000 \<and> path \<noteq> [] \<and> h \<noteq> 0
        \<and> length (flux_list_240811 fl) \<noteq> 1
        \<and> int (length (flux_list_240811 fl)) < num_layers_240811 path h \<longrightarrow>
        generate_gcode_240811 path nozzle speed fl h retr
          = Inl (Rejected FluxCountMismatch (Some (num_layers_240811 path h))))"
proof (intro conjI impI)
  assume v: "validate a = Inr r"
  from validate_Inr(7) [OF v]
  show "let n = length (speed_list (printing_speed a));
           L = num_layers_of (valid_curves (printing_path a)) (layer_h a);
           C = length (valid_curves (printing_path a))
       in (n = 1 \<or> int n = L \<or> n = C)
          \<and> speed_mode_detail r
              = (if n = 1 then global else if int n = L then per_layer else per_curve)"
    unfolding Let_def scope_of_length_Some by blast
next
  assume v: "validate a = Inr r" and m: "flux_mode a = 1"
  from validate_Inr(9) [OF v] m
  obtain d where d: "scope_of_length (length (m1_flux_list (m1_flux a)))
             (num_layers_of (valid_curves (printing_path a)) (layer_h a))
             (length (valid_curves (printing_path a))) = Some d"
    "flux_detail r = constant_flux d (m1_flux_list (m1_flux a))"
    by (auto simp: resolve_flux_def Let_def split: option.splits)
  then show "let m = length (m1_flux_list (m1_flux a));
                L = num_layers_of (valid_curves (printing_path a)) (layer_h a);
                C = length (valid_curves (printing_path a))
            in (m = 1 \<or> int m = L \<or> m = C)
               \<and> flux_detail r
                   = constant_flux
                       (if m = 1 then global else if int m = L then per_layer else per_curve)
                       (m1_flux_list (m1_flux a))"
    unfolding Let_def scope_of_length_Some by blast
next
  assume "let n = length (speed_list (printing_speed a));
            L = num_layers_of (valid_curves (printing_path a)) (layer_h a);
            C = length (valid_curves (printing_path a))
        in n \<noteq> 1 \<and> int n \<noteq> L \<and> n \<noteq> C"
  then have "scope_of_length (length (speed_list (printing_speed a)))
             (num_layers_of (valid_curves (printing_path a)) (layer_h a))
             (length (valid_curves (printing_path a))) = None"
    unfolding Let_def scope_of_length_None .
  from speed_count_mismatch_fails [OF this] show "\<exists>f. generate_gcode a = Inl f"
    using validate_Inl by blast
next
  assume "flux_mode a = 1 \<and>
        (let m = length (m1_flux_list (m1_flux a));
             L = num_layers_of (valid_curves (printing_path a)) (layer_h a);
             C = length (valid_curves (printing_path a))
         in m \<noteq> 1 \<and> int m \<noteq> L \<and> m \<noteq> C)"
  then have m: "flux_mode a = 1" and "scope_of_length (length (m1_flux_list (m1_flux a)))
             (num_layers_of (valid_curves (printing_path a)) (layer_h a))
             (length (valid_curves (printing_path a))) = None"
    unfolding Let_def scope_of_length_None by blast+
  from flux_count_mismatch_fails [OF this] show "\<exists>f. generate_gcode a = Inl f"
    using validate_Inl by blast
next
  assume "1800 \<le> speed \<and> speed \<le> 11000 \<and> path \<noteq> [] \<and> h \<noteq> 0
        \<and> length (flux_list_240811 fl) \<noteq> 1
        \<and> int (length (flux_list_240811 fl)) < num_layers_240811 path h"
  then have "1800 \<le> speed" "speed \<le> 11000" "path \<noteq> []" "h \<noteq> 0"
    "length (flux_list_240811 fl) \<noteq> 1"
    "int (length (flux_list_240811 fl)) < num_layers_240811 path h"
    by simp_all
  then show "generate_gcode_240811 path nozzle speed fl h retr
          = Inl (Rejected FluxCountMismatch (Some (num_layers_240811 path h)))"
    by (rule generate_240811_short_flux)
qed

text \<open>
  Two speeds on two layers are read per layer; three speeds, or three flux values, for
  two curves on two layers are refused; in version 240811 two flux values for eleven
  layers are refused.
\<close>

theorem scope_is_first_matching_length_witness:
  "validate two_speeds
     = Inr (two_layers_resolved\<lparr>speeds := [2000, 3000], speed_mode_detail := per_layer\<rparr>)
   \<and> flux_mode two_speeds = 1
   \<and> length (speed_list (printing_speed two_speeds)) = 2
   \<and> num_layers_of (valid_curves (printing_path two_speeds)) (layer_h two_speeds) = 2
   \<and> length (valid_curves (printing_path two_speeds)) = 2
   \<and> length (m1_flux_list (m1_flux two_speeds)) = 1
   \<and> flux_detail (two_layers_resolved\<lparr>speeds := [2000, 3000], speed_mode_detail := per_layer\<rparr>)
       = constant_flux global [1]
   \<and> length (speed_list (PyList [Num 2000, Num 2500, Num 3000])) = 3
   \<and> (\<exists>f. generate_gcode
              (two_layers\<lparr>printing_speed := PyList [Num 2000, Num 2500, Num 3000]\<rparr>) = Inl f)
   \<and> (\<exists>f. generate_gcode (two_layers\<lparr>m1_flux := PyList [Num 1, Num 2, Num 3]\<rparr>) = Inl f)
   \<and> generate_gcode_240811 [x_line 0 5 10 (Some [0, 2, 4])] 4 3000
         (PyList [Num 1, Num 2]) 1 False = Inl (Rejected FluxCountMismatch (Some 11))"
proof -
  let ?r = "two_layers_resolved\<lparr>speeds := [2000, 3000], speed_mode_detail := per_layer\<rparr>"
  let ?b = "two_layers\<lparr>printing_speed := PyList [Num 2000, Num 2500, Num 3000]\<rparr>"
  let ?c = "two_layers\<lparr>m1_flux := PyList [Num 1, Num 2, Num 3]\<rparr>"
  have n: "length (speed_list (printing_speed two_speeds)) = 2"
    "num_layers_of (valid_curves (printing_path two_speeds)) (layer_h two_speeds) = 2"
    "length (valid_curves (printing_path two_speeds)) = 2"
    "length (m1_flux_list (m1_flux two_speeds)) = 1"
    "length (speed_list (PyList [Num 2000, Num 2500, Num 3000])) = 3"
    by (simp_all add: two_speeds_fields valid_two_layers num_layers_two_layers speed_list_def
        m1_flux_list_def)
  have f: "flux_detail ?r = constant_flux global [1]"
    using scope_is_first_matching_length [of two_speeds ?r] validate_two_speeds n
    by (simp add: two_speeds_fields m1_flux_list_def)
  have b: "\<exists>f. generate_gcode ?b = Inl f"
    using scope_is_first_matching_length [of ?b]
    by (simp add: two_layers_fields valid_two_layers num_layers_two_layers speed_list_def)
  have c: "\<exists>f. generate_gcode ?c = Inl f"
    using scope_is_first_matching_length [of ?c]
    by (simp add: two_layers_fields valid_two_layers num_layers_two_layers m1_flux_list_def)
  have d: "generate_gcode_240811 [x_line 0 5 10 (Some [0, 2, 4])] 4 3000
              (PyList [Num 1, Num 2]) 1 False = Inl (Rejected FluxCountMismatch (Some 11))"
    using scope_is_first_matching_length
      [where speed = 3000 and path = "[x_line 0 5 10 (Some [0, 2, 4])]" and h = 1
         and nozzle = 4 and fl = "PyList [Num 1, Num 2]" and retr = False]
    by (simp add: flux_list_240811_def num_layers_240811_def x_line_fields py_int_def)
  from validate_two_speeds two_speeds_fields(8) n f b c d show ?thesis by blast
qed

section \<open>Properties of the segmenter\<close>

lemma segment_points_Some:
  assumes "segment_points nozzle c = Some pts"
  shows "\<exists>ps. DivideByLength c (nozzle / 2) True = Some ps
           \<and> pts = PointAtStart c # map (PointAt c) ps @ [PointAtEnd c]"
  using assms by (auto simp: segment_points_def nozzle_div_def split: option.splits)

lemma segment_points_ends:
  assumes "segment_points nozzle c = Some pts"
  shows "2 \<le> length pts" "hd pts = PointAtStart c" "last pts = PointAtEnd c"
    "pts \<noteq> []" "tl pts \<noteq> []"
  using segment_points_Some [OF assms] by auto

text \<open>
  Claim C2, as stated, fails in two ways. A curve of length 1 whose division by 2 mm
  answers \<open>None\<close> gets no point sequence at all. A curve of length 5 whose division
  answers with the parameters 0, 2 and 4 (the call asks for the start of the first
  segment to be included) gets a sequence whose first interior sample is the start point
  again.
\<close>

theorem segmenter_skips_and_repeats_counterexample:
  "segment_points 4 (x_line 0 1 0 None) = None
   \<and> segment_points 4 (x_line 0 5 0 (Some [0, 2, 4]))
       = Some [\<lparr>X = 0, Y = 0, Z = 0\<rparr>, \<lparr>X = 0, Y = 0, Z = 0\<rparr>, \<lparr>X = 2, Y = 0, Z = 0\<rparr>,
               \<lparr>X = 4, Y = 0, Z = 0\<rparr>, \<lparr>X = 5, Y = 0, Z = 0\<rparr>]"
  by (simp add: segment_points_x_line)

text \<open>
  Claim C2, amended. For every curve and every nozzle diameter: if the division of the
  curve by half the nozzle diameter answers with a list of parameters, the point sequence
  begins with the exact start point of the curve and ends with its exact end point, and
  the samples in between are the points at the parameters; if the division answers
  \<open>None\<close>, the curve has no point sequence.
\<close>

theorem sequence_begins_at_start_and_ends_at_end:
  "(DivideByLength c (nozzle / 2) True = Some ps \<longrightarrow>
      (\<exists>pts. segment_points nozzle c = Some pts
         \<and> hd pts = PointAtStart c \<and> last pts = PointAtEnd c
         \<and> butlast (tl pts) = map (PointAt c) ps))
   \<and> (DivideByLength c (nozzle / 2) True = None \<longrightarrow>
        segment_points nozzle c = None)"
  by (simp add: segment_points_def nozzle_div_def butlast_append)

theorem sequence_begins_at_start_and_ends_at_end_witness:
  "DivideByLength (x_line 0 5 0 (Some [0, 2, 4])) (4 / 2) True = Some [0, 2, 4]
   \<and> (\<exists>pts. segment_points 4 (x_line 0 5 0 (Some [0, 2, 4])) = Some pts
         \<and> hd pts = \<lparr>X = 0, Y = 0, Z = 0\<rparr> \<and> last pts = \<lparr>X = 5, Y = 0, Z = 0\<rparr>
         \<and> butlast (tl pts) = [\<lparr>X = 0, Y = 0, Z = 0\<rparr>, \<lparr>X = 2, Y = 0, Z = 0\<rparr>, \<lparr>X = 4, Y = 0, Z = 0\<rparr>])
   \<and> DivideByLength (x_line 0 1 0 None) (4 / 2) True = None
   \<and> segment_points 4 (x_line 0 1 0 None) = None"
  using sequence_begins_at_start_and_ends_at_end
    [of "x_line 0 5 0 (Some [0, 2, 4])" 4 "[0, 2, 4]"]
    sequence_begins_at_start_and_ends_at_end [of "x_line 0 1 0 None" 4]
  by (simp add: x_line_fields)

section \<open>Shape of what the generation pass appends\<close>

lemma length_cumulative_from: "length (cumulative_from acc pts) = length pts - 1"
  by (induction acc pts rule: cumulative_from.induct) auto

lemma length_normalized_distances:
  "pts \<noteq> [] \<Longrightarrow> length (normalized_distances pts) = length pts"
  by (cases pts) (simp_all add: normalized_distances_def cumulative_distances_def
      length_cumulative_from Let_def)

lemma length_segments: "length (segments pts) = length pts - 1"
  by (cases pts) (simp_all add: segments_def length_normalized_distances)

lemma segments_points: "map (\<lambda>(prev, pt, t). pt) (segments pts) = tl pts"
proof (cases pts)
  case Nil
  then show ?thesis by (simp add: segments_def)
next
  case (Cons p ps)
  let ?ts = "tl (normalized_distances pts)"
  have l: "length ?ts = length ps"
    using Cons by (simp add: length_normalized_distances)
  have "map snd (zip pts (zip ps ?ts)) = take (min (length pts) (length (zip ps ?ts))) (zip ps ?ts)"
    by (rule map_snd_zip_take)
  also have "\<dots> = zip ps ?ts"
    using l Cons by simp
  finally have "map fst (map snd (zip pts (zip ps ?ts))) = ps"
    using l by simp
  moreover have "map (\<lambda>(prev, pt, t). pt) (zip pts (zip ps ?ts))
          = map fst (map snd (zip pts (zip ps ?ts)))"
    by (simp add: case_prod_unfold)
  ultimately show ?thesis using Cons by (simp add: segments_def)
qed

lemma emit_segment_Inr:
  assumes "emit_segment a se (prev, pt, t) s = Inr s'"
  shows "\<exists>fl sp. segment_flux (flux_mode a) (current_flux s) se t = Inr fl
           \<and> current_speed s = Some sp
           \<and> s' = s\<lparr>extrusion_amount :=
                      (if e_absolute a then extrusion_amount s + increment a fl prev pt
                       else extrusion_amount s),
                    gcode := gcode s
                      @ [G1 sp pt (if e_absolute a then extrusion_amount s + increment a fl prev pt
                                   else increment a fl prev pt)]\<rparr>"
  using assms
  by (auto simp: emit_segment_def increment_def Let_def split: sum.splits option.splits if_splits)

text \<open>
  The lines that the segment loop appends: one \<open>G1\<close> per segment, at the current speed,
  with the running total of the increments in absolute mode and the increment itself in
  relative mode.
\<close>

lemma emit_segments_shape:
  assumes "for_each (emit_segment a se) segs s = Inr s'"
    and "segs \<noteq> [] \<Longrightarrow> current_speed s = Some sp"
  shows "\<exists>fls. length fls = length segs
           \<and> (\<forall>i<length segs. segment_flux (flux_mode a) (current_flux s) se (snd (snd (segs ! i)))
                   = Inr (fls ! i))
           \<and> current_speed s' = current_speed s \<and> current_flux s' = current_flux s
           \<and> previous_point s' = previous_point s
           \<and> extrusion_amount s'
               = (if e_absolute a
                  then last (extrusion_amount s
                         # running (extrusion_amount s)
                             (map2 (\<lambda>(prev, pt, t) fl. increment a fl prev pt) segs fls))
                  else extrusion_amount s)
           \<and> gcode s' = gcode s
               @ map2 (\<lambda>(prev, pt, t) e. G1 sp pt e) segs
                   (if e_absolute a
                    then running (extrusion_amount s)
                           (map2 (\<lambda>(prev, pt, t) fl. increment a fl prev pt) segs fls)
                    else map2 (\<lambda>(prev, pt, t) fl. increment a fl prev pt) segs fls)"
  using assms
proof (induction segs arbitrary: s)
  case Nil
  then show ?case by simp
next
  case (Cons seg segs)
  obtain prev pt t where seg: "seg = (prev, pt, t)" by (cases seg) auto
  from Cons.prems(1) obtain s1 where s1: "emit_segment a se (prev, pt, t) s = Inr s1"
    and rest: "for_each (emit_segment a se) segs s1 = Inr s'"
    by (auto simp: seg split: sum.splits)
  from emit_segment_Inr [OF s1] Cons.prems(2)
  obtain fl where fl: "segment_flux (flux_mode a) (current_flux s) se t = Inr fl"
    and sp: "current_speed s = Some sp"
    and s1_eq: "s1 = s\<lparr>extrusion_amount :=
                      (if e_absolute a then extrusion_amount s + increment a fl prev pt
                       else extrusion_amount s),
                    gcode := gcode s
                      @ [G1 sp pt (if e_absolute a then extrusion_amount s + increment a fl prev pt
                                   else increment a fl prev pt)]\<rparr>"
    by auto
  have sp1: "current_speed s1 = Some sp" "current_flux s1 = current_flux s"
    "previous_point s1 = previous_point s"
    using sp by (simp_all add: s1_eq)
  from Cons.IH [OF rest sp1(1)]
  obtain fls where fls: "length fls = length segs"
    "\<forall>i<length segs. segment_flux (flux_mode a) (current_flux s1) se (snd (snd (segs ! i)))
                   = Inr (fls ! i)"
    "current_speed s' = current_speed s1" "current_flux s' = current_flux s1"
    "previous_point s' = previous_point s1"
    "extrusion_amount s'
               = (if e_absolute a
                  then last (extrusion_amount s1
                         # running (extrusion_amount s1)
                             (map2 (\<lambda>(prev, pt, t) fl. increment a fl prev pt) segs fls))
                  else extrusion_amount s1)"
    "gcode s' = gcode s1
               @ map2 (\<lambda>(prev, pt, t) e. G1 sp pt e) segs
                   (if e_absolute a
                    then running (extrusion_amount s1)
                           (map2 (\<lambda>(prev, pt, t) fl. increment a fl prev pt) segs fls)
                    else map2 (\<lambda>(prev, pt, t) fl. increment a fl prev pt) segs fls)"
    by blast
  have fluxes: "\<forall>i<length (seg # segs).
       segment_flux (flux_mode a) (current_flux s) se (snd (snd ((seg # segs) ! i)))
         = Inr ((fl # fls) ! i)"
  proof (intro allI impI)
    fix i assume "i < length (seg # segs)"
    then show "segment_flux (flux_mode a) (current_flux s) se (snd (snd ((seg # segs) ! i)))
         = Inr ((fl # fls) ! i)"
      using fl fls(2) sp1(2) by (cases i) (simp_all add: seg)
  qed
  show ?case
  proof (intro exI [of _ "fl # fls"] conjI)
    show "length (fl # fls) = length (seg # segs)" using fls(1) by simp
    show "\<forall>i<length (seg # segs).
       segment_flux (flux_mode a) (current_flux s) se (snd (snd ((seg # segs) ! i)))
         = Inr ((fl # fls) ! i)" by (rule fluxes)
    show "current_speed s' = current_speed s" using fls(3) sp1(1) sp by simp
    show "current_flux s' = current_flux s" using fls(4) sp1(2) by simp
    show "previous_point s' = previous_point s" using fls(5) sp1(3) by simp
    show "extrusion_amount s'
               = (if e_absolute a
                  then last (extrusion_amount s
                         # running (extrusion_amount s)
                             (map2 (\<lambda>(prev, pt, t) fl. increment a fl prev pt) (seg # segs) (fl # fls)))
                  else extrusion_amount s)"
      using fls(6) by (simp add: s1_eq seg)
    show "gcode s' = gcode s
               @ map2 (\<lambda>(prev, pt, t) e. G1 sp pt e) (seg # segs)
                   (if e_absolute a
                    then running (extrusion_amount s)
                           (map2 (\<lambda>(prev, pt, t) fl. increment a fl prev pt) (seg # segs) (fl # fls))
                    else map2 (\<lambda>(prev, pt, t) fl. increment a fl prev pt) (seg # segs) (fl # fls))"
      using fls(7) by (simp add: s1_eq seg)
  qed
qed

lemma map2_segments:
  "map2 (\<lambda>(prev, pt, t) e. G1 sp pt e) segs es
     = map2 (G1 sp) (map (\<lambda>(prev, pt, t). pt) segs) es"
  by (induction segs arbitrary: es) (auto simp: zip_Cons1 split: list.splits)

lemma emit_curve_Some:
  assumes "emit_curve a r k (c, idx) s = Inr s'"
    and "segment_points (nozzle_diameter a) c = Some pts"
  obtains sp cf se s1 where "emit_curve_flux r k idx (current_flux s) = Inr (cf, se)"
    and "for_each (emit_segment a se) (segments pts)
           (s\<lparr>current_speed := Some sp, current_flux := cf,
              gcode := gcode s @ [G0 sp (hd pts)]\<rparr>) = Inr s1"
    and "s' = s1\<lparr>previous_point := Some (last pts)\<rparr>"
  using assms by (auto simp: emit_curve_def split: sum.splits if_splits option.splits)

lemma emit_curve_None:
  assumes "emit_curve a r k (c, idx) s = Inr s'"
    and "segment_points (nozzle_diameter a) c = None"
  shows "gcode s' = gcode s" "extrusion_amount s' = extrusion_amount s"
    "previous_point s' = previous_point s"
  using assms by (auto simp: emit_curve_def split: sum.splits if_splits)

text \<open>What one curve adds to the program.\<close>

lemma emit_curve_lines:
  assumes "emit_curve a r k (c, idx) s = Inr s'"
    and "segment_points (nozzle_diameter a) c = Some pts"
  shows "\<exists>sp cf se fls.
           emit_curve_flux r k idx (current_flux s) = Inr (cf, se)
           \<and> current_speed s' = Some sp
           \<and> length fls = length pts - 1
           \<and> (\<forall>i<length pts - 1.
                 segment_flux (flux_mode a) cf se (snd (snd (segments pts ! i))) = Inr (fls ! i))
           \<and> previous_point s' = Some (last pts)
           \<and> extrusion_amount s'
               = (if e_absolute a
                  then last (extrusion_amount s
                         # running (extrusion_amount s)
                             (map2 (\<lambda>(prev, pt, t) fl. increment a fl prev pt)
                                (segments pts) fls))
                  else extrusion_amount s)
           \<and> gcode s' = gcode s @ G0 sp (hd pts)
               # map2 (\<lambda>(prev, pt, t) e. G1 sp pt e) (segments pts)
                   (if e_absolute a
                    then running (extrusion_amount s)
                           (map2 (\<lambda>(prev, pt, t) fl. increment a fl prev pt)
                              (segments pts) fls)
                    else map2 (\<lambda>(prev, pt, t) fl. increment a fl prev pt)
                           (segments pts) fls)"
proof -
  obtain sp cf se s1 where f: "emit_curve_flux r k idx (current_flux s) = Inr (cf, se)"
    and l0: "for_each (emit_segment a se) (segments pts)
              (s\<lparr>current_speed := Some sp, current_flux := cf,
                 gcode := gcode s @ [G0 sp (hd pts)]\<rparr>) = Inr s1"
    and s': "s' = s1\<lparr>previous_point := Some (last pts)\<rparr>"
    by (rule emit_curve_Some [OF assms])
  define s0 where "s0 = s\<lparr>current_speed := Some sp, current_flux := cf,
                 gcode := gcode s @ [G0 sp (hd pts)]\<rparr>"
  have l: "for_each (emit_segment a se) (segments pts) s0 = Inr s1"
    using l0 by (simp add: s0_def)
  have s0: "current_speed s0 = Some sp" "current_flux s0 = cf"
    "extrusion_amount s0 = extrusion_amount s" "gcode s0 = gcode s @ [G0 sp (hd pts)]"
    by (simp_all add: s0_def)
  from emit_segments_shape [OF l s0(1)]
  obtain fls where fls: "length fls = length (segments pts)"
    "\<forall>i<length (segments pts). segment_flux (flux_mode a) (current_flux s0) se (snd (snd (segments pts ! i)))
                   = Inr (fls ! i)"
    "current_speed s1 = current_speed s0"
    "extrusion_amount s1
               = (if e_absolute a
                  then last (extrusion_amount s0
                         # running (extrusion_amount s0)
                             (map2 (\<lambda>(prev, pt, t) fl. increment a fl prev pt) (segments pts) fls))
                  else extrusion_amount s0)"
    "gcode s1 = gcode s0
               @ map2 (\<lambda>(prev, pt, t) e. G1 sp pt e) (segments pts)
                   (if e_absolute a
                    then running (extrusion_amount s0)
                           (map2 (\<lambda>(prev, pt, t) fl. increment a fl prev pt) (segments pts) fls)
                    else map2 (\<lambda>(prev, pt, t) fl. increment a fl prev pt) (segments pts) fls)"
    by (elim exE conjE)
  show ?thesis
  proof (intro exI [of _ sp] exI [of _ cf] exI [of _ se] exI [of _ fls] conjI)
    show "emit_curve_flux r k idx (current_flux s) = Inr (cf, se)" by (rule f)
    show "current_speed s' = Some sp" using fls(3) s0(1) by (simp add: s')
    show "length fls = length pts - 1" using fls(1) by (simp add: length_segments)
    show "\<forall>i<length pts - 1.
            segment_flux (flux_mode a) cf se (snd (snd (segments pts ! i))) = Inr (fls ! i)"
      using fls(2) unfolding s0(2) length_segments .
    show "previous_point s' = Some (last pts)" by (simp add: s')
    show "extrusion_amount s'
               = (if e_absolute a
                  then last (extrusion_amount s
                         # running (extrusion_amount s)
                             (map2 (\<lambda>(prev, pt, t) fl. increment a fl prev pt)
                                (segments pts) fls))
                  else extrusion_amount s)"
      using fls(4) unfolding s0(3) by (simp add: s')
    show "gcode s' = gcode s @ G0 sp (hd pts)
               # map2 (\<lambda>(prev, pt, t) e. G1 sp pt e) (segments pts)
                   (if e_absolute a
                    then running (extrusion_amount s)
                           (map2 (\<lambda>(prev, pt, t) fl. increment a fl prev pt)
                              (segments pts) fls)
                    else map2 (\<lambda>(prev, pt, t) fl. increment a fl prev pt)
                           (segments pts) fls)"
      using fls(5) unfolding s0(3) s0(4) by (simp add: s')
  qed
qed

section \<open>Extrusion values in absolute mode\<close>

lemma for_each_preserves:
  assumes "for_each body xs s = Inr s'" and "P s"
    and "\<And>x t t'. x \<in> set xs \<Longrightarrow> P t \<Longrightarrow> body x t = Inr t' \<Longrightarrow> P t'"
  shows "P s'"
  using assms
proof (induction xs arbitrary: s)
  case Nil
  then show ?case by simp
next
  case (Cons x xs)
  from Cons.prems(1) obtain s1 where s1: "body x s = Inr s1" "for_each body xs s1 = Inr s'"
    by (auto split: sum.splits)
  have "P s1" using Cons.prems(2) s1(1) by (rule Cons.prems(3) [OF list.set_intros(1)])
  with s1(2) show ?case
    by (rule Cons.IH) (rule Cons.prems(3) [OF list.set_intros(2)])
qed

lemma motion_values_append [simp]:
  "motion_values (xs @ ys) = motion_values xs @ motion_values ys"
  by (simp add: motion_values_def map_filter_def)

lemma e_values_append [simp]: "e_values (xs @ ys) = e_values xs @ e_values ys"
  by (simp add: e_values_def map_filter_def)

lemma motion_values_simps [simp]:
  "motion_values [] = []"
  "motion_values (G1 f p e # ls) = e # motion_values ls"
  "motion_values (G0 f p # ls) = motion_values ls"
  "motion_values (LayerStart n # ls) = motion_values ls"
  "motion_values (LayerEnd n # ls) = motion_values ls"
  "motion_values (G1_F_Z f z # ls) = motion_values ls"
  by (simp_all add: motion_values_def map_filter_def)

lemma e_values_simps [simp]:
  "e_values [] = []"
  "e_values (G1 f p e # ls) = e # e_values ls"
  "e_values (G0 f p # ls) = e_values ls"
  "e_values (LayerStart n # ls) = e_values ls"
  "e_values (LayerEnd n # ls) = e_values ls"
  "e_values (G1_F_Z f z # ls) = e_values ls"
  by (simp_all add: e_values_def map_filter_def)

lemma start_block_values:
  "motion_values (start_block a r) = []"
  "e_absolute a \<Longrightarrow> e_values (start_block a r) = [0, - 4]"
  by (auto simp: start_block_def motion_values_def e_values_def map_filter_def
      split: option.splits)

lemma end_block_values:
  "motion_values (end_block a) = []"
  "e_absolute a \<Longrightarrow> e_values (end_block a) = [0, - 4]"
  by (auto simp: end_block_def motion_values_def e_values_def map_filter_def)

subsection \<open>Normalised distances lie between 0 and 1\<close>

lemma cumulative_from_bounds:
  "\<forall>d\<in>set (cumulative_from acc pts). acc \<le> d \<and> d \<le> last (acc # cumulative_from acc pts)"
proof (induction acc pts rule: cumulative_from.induct)
  case (1 acc p q ps)
  have nn: "0 \<le> DistanceTo p q" by (simp add: DistanceTo_def)
  let ?acc = "acc + DistanceTo p q"
  let ?rest = "cumulative_from ?acc (q # ps)"
  have l: "?acc \<le> last (?acc # ?rest)"
  proof (cases ?rest)
    case Nil
    then show ?thesis by simp
  next
    case (Cons x xs)
    then have "last (?acc # ?rest) \<in> set ?rest"
      by simp
    with "1.IH" show ?thesis by blast
  qed
  show ?case
  proof
    fix d assume "d \<in> set (cumulative_from acc (p # q # ps))"
    then consider "d = ?acc" | "d \<in> set ?rest"
      by auto
    then show "acc \<le> d \<and> d \<le> last (acc # cumulative_from acc (p # q # ps))"
    proof cases
      case 1
      with l nn show ?thesis by simp
    next
      case 2
      with "1.IH" nn show ?thesis by fastforce
    qed
  qed
qed simp_all

lemma cumulative_distances_bounds:
  assumes "d \<in> set (cumulative_distances pts)"
  shows "0 \<le> d \<and> d \<le> last (cumulative_distances pts)"
proof (cases "d \<in> set (cumulative_from 0 pts)")
  case True
  with cumulative_from_bounds [of 0 pts] show ?thesis
    by (simp add: cumulative_distances_def)
next
  case False
  with assms have d: "d = 0" by (simp add: cumulative_distances_def)
  show ?thesis
  proof (cases "cumulative_from 0 pts")
    case Nil
    with d show ?thesis by (simp add: cumulative_distances_def)
  next
    case (Cons x xs)
    then have "last (cumulative_distances pts) \<in> set (cumulative_from 0 pts)"
      unfolding cumulative_distances_def by simp
    with cumulative_from_bounds [of 0 pts] d show ?thesis by simp
  qed
qed

lemma normalized_distances_bounds:
  assumes "t \<in> set (normalized_distances pts)"
  shows "0 \<le> t \<and> t \<le> 1"
proof -
  from assms
  have "t \<in> (\<lambda>d. if last (cumulative_distances pts) > 0
                   then d / last (cumulative_distances pts) else 0)
             ` set (cumulative_distances pts)"
    by (simp add: normalized_distances_def Let_def)
  then obtain d where t: "t = (if last (cumulative_distances pts) > 0
                 then d / last (cumulative_distances pts) else 0)"
    and d: "d \<in> set (cumulative_distances pts)"
    by (rule imageE)
  from cumulative_distances_bounds [OF d] t show ?thesis
    by (auto simp: divide_le_eq)
qed

lemma segments_bounds:
  assumes "(prev, pt, t) \<in> set (segments pts)"
  shows "0 \<le> t \<and> t \<le> 1"
proof -
  from assms have "(pt, t) \<in> set (zip (tl pts) (tl (normalized_distances pts)))"
    unfolding segments_def by (rule set_zip_rightD)
  then have "t \<in> set (tl (normalized_distances pts))"
    by (rule set_zip_rightD)
  then have "t \<in> set (normalized_distances pts)"
    by (cases "normalized_distances pts") simp_all
  then show ?thesis by (rule normalized_distances_bounds)
qed

lemma lookup_in_set: "lookup xs i = Inr x \<Longrightarrow> x \<in> set xs"
  by (auto simp: lookup_def py_index_def split: if_splits)

lemma constant_denominator_pos: "0 < constant_denominator"
  by (simp add: constant_denominator_def)

lemma increment_nonneg:
  assumes "0 \<le> nozzle_diameter a * layer_h a" "0 \<le> fl"
  shows "0 \<le> increment a fl prev pt"
proof -
  have "0 \<le> DistanceTo prev pt" by (simp add: DistanceTo_def)
  moreover have "0 \<le> (nozzle_diameter a * layer_h a) / constant_denominator"
    using assms(1) constant_denominator_pos by simp
  ultimately show ?thesis
    unfolding increment_def using assms(2) by (intro mult_nonneg_nonneg)
qed

lemma segment_flux_nonneg:
  assumes "segment_flux m cf se t = Inr fl"
    and "\<forall>f. cf = Some f \<longrightarrow> 0 \<le> f"
    and "\<forall>s e. se = Some (s, e) \<longrightarrow> 0 \<le> s \<and> 0 \<le> e"
    and "0 \<le> t" "t \<le> 1"
  shows "0 \<le> fl"
proof (cases "m = 2")
  case True
  with assms(1) obtain s e where se: "se = Some (s, e)" and fl: "fl = s + t * (e - s)"
    by (auto simp: segment_flux_def split: option.splits)
  have "fl = (1 - t) * s + t * e" by (simp add: fl algebra_simps)
  moreover have "0 \<le> (1 - t) * s" "0 \<le> t * e"
    using assms(3-5) se by simp_all
  ultimately show ?thesis by simp
next
  case False
  with assms(1,2) show ?thesis
    by (auto simp: segment_flux_def split: option.splits)
qed

lemma sorted_snoc_step:
  assumes "sorted (0 # es @ [x])" "x \<le> (y::real)"
  shows "sorted (0 # (es @ [y]) @ [y])"
  using assms by (auto simp: sorted_append)

lemma emit_segment_inv:
  assumes "emit_segment a se (prev, pt, t) s = Inr s'"
    and "e_absolute a" "0 \<le> nozzle_diameter a * layer_h a"
    and "\<forall>s e. se = Some (s, e) \<longrightarrow> 0 \<le> s \<and> 0 \<le> e"
    and "0 \<le> t" "t \<le> 1"
    and "emit_inv s"
  shows "emit_inv s'"
proof -
  from emit_segment_Inr [OF assms(1)] assms(2)
  obtain fl sp where fl: "segment_flux (flux_mode a) (current_flux s) se t = Inr fl"
    and s': "s' = s\<lparr>extrusion_amount := extrusion_amount s + increment a fl prev pt,
                    gcode := gcode s @ [G1 sp pt (extrusion_amount s + increment a fl prev pt)]\<rparr>"
    by auto
  have cf: "\<forall>f. current_flux s = Some f \<longrightarrow> 0 \<le> f"
    using assms(7) unfolding emit_inv_def by simp
  have "0 \<le> fl"
    using fl cf assms(4-6) by (rule segment_flux_nonneg)
  from this have inc: "0 \<le> increment a fl prev pt"
    using assms(3) by (rule increment_nonneg [rotated])
  have srt: "sorted (0 # motion_values (gcode s) @ [extrusion_amount s])"
    using assms(7) unfolding emit_inv_def by simp
  have "sorted (0 # (motion_values (gcode s) @ [extrusion_amount s + increment a fl prev pt])
                  @ [extrusion_amount s + increment a fl prev pt])"
    using srt by (rule sorted_snoc_step) (use inc in simp)
  moreover have "e_values (gcode s) = [0, - 4] @ motion_values (gcode s)"
    "\<forall>f. current_flux s = Some f \<longrightarrow> 0 \<le> f"
    using assms(7) unfolding emit_inv_def by auto
  ultimately show ?thesis
    unfolding emit_inv_def s' by simp
qed

lemma emit_curve_flux_nonneg:
  assumes "emit_curve_flux r k idx cur = Inr (cf, se)"
    and "\<forall>x\<in>set (detail_values (flux_detail r)). 0 \<le> x"
    and "\<forall>f. cur = Some f \<longrightarrow> 0 \<le> f"
  shows "(\<forall>f. cf = Some f \<longrightarrow> 0 \<le> f) \<and> (\<forall>s e. se = Some (s, e) \<longrightarrow> 0 \<le> s \<and> 0 \<le> e)"
proof (cases "flux_detail r")
  case (constant_flux d m1)
  with assms(1) obtain fl where l: "lookup m1 (case d of global \<Rightarrow> 0 | per_layer \<Rightarrow> k
                                   | per_curve \<Rightarrow> int idx) = Inr fl"
    and c: "cf = Some fl" "se = Some (fl, fl)"
    by (auto simp: emit_curve_flux_def split: sum.splits)
  have "fl \<in> set m1" using l by (rule lookup_in_set)
  then have "0 \<le> fl" using assms(2) constant_flux by simp
  then show ?thesis by (simp add: c)
next
  case (linear_flux ss es)
  with assms(1) obtain s e where l: "lookup ss (int idx) = Inr s" "lookup es (int idx) = Inr e"
    and c: "cf = cur" "se = Some (s, e)"
    by (auto simp: emit_curve_flux_def split: sum.splits)
  have "s \<in> set ss" "e \<in> set es" using l by (auto intro: lookup_in_set)
  then have "0 \<le> s" "0 \<le> e" using assms(2) linear_flux by simp_all
  then show ?thesis using assms(3) by (simp add: c)
next
  case no_flux
  with assms(1) have "cf = cur" "se = None" by (auto simp: emit_curve_flux_def)
  then show ?thesis using assms(3) by simp
qed

lemma emit_inv_gcode_append:
  assumes "emit_inv s" "motion_values ls = []" "e_values ls = []"
  shows "emit_inv (s\<lparr>gcode := gcode s @ ls\<rparr>)"
  using assms by (simp add: emit_inv_def)

lemma emit_curve_skipped:
  assumes "emit_curve a r k (c, idx) s = Inr s'"
    and "segment_points (nozzle_diameter a) c = None"
  obtains speed cf se where "emit_curve_flux r k idx (current_flux s) = Inr (cf, se)"
    and "s' = s\<lparr>current_speed := speed, current_flux := cf\<rparr>"
  using assms by (auto simp: emit_curve_def split: sum.splits if_splits)

lemma emit_inv_flux:
  "emit_inv s \<Longrightarrow> \<forall>f. current_flux s = Some f \<longrightarrow> 0 \<le> f"
  by (simp add: emit_inv_def)

lemma emit_inv_update:
  assumes "emit_inv s" "\<forall>f. cf = Some f \<longrightarrow> 0 \<le> f"
    and "motion_values ls = []" "e_values ls = []"
  shows "emit_inv (s\<lparr>current_speed := speed, current_flux := cf, gcode := gcode s @ ls\<rparr>)"
  using assms by (simp add: emit_inv_def)

lemma emit_inv_previous_point:
  "emit_inv s \<Longrightarrow> emit_inv (s\<lparr>previous_point := p\<rparr>)"
  by (simp add: emit_inv_def)

lemma emit_curve_inv:
  assumes "emit_curve a r k (c, idx) s = Inr s'"
    and "e_absolute a" "0 \<le> nozzle_diameter a * layer_h a"
    and "\<forall>x\<in>set (detail_values (flux_detail r)). 0 \<le> x"
    and "emit_inv s"
  shows "emit_inv s'"
proof (cases "segment_points (nozzle_diameter a) c")
  case None
  obtain speed cf se where f: "emit_curve_flux r k idx (current_flux s) = Inr (cf, se)"
    and s': "s' = s\<lparr>current_speed := speed, current_flux := cf\<rparr>"
    by (rule emit_curve_skipped [OF assms(1) None])
  from emit_curve_flux_nonneg [OF f assms(4) emit_inv_flux [OF assms(5)]]
  have "\<forall>f. cf = Some f \<longrightarrow> 0 \<le> f" by (rule conjunct1)
  with assms(5) have "emit_inv (s\<lparr>current_speed := speed, current_flux := cf, gcode := gcode s @ []\<rparr>)"
    by (rule emit_inv_update) simp_all
  then show ?thesis by (simp add: s')
next
  case (Some pts)
  obtain sp cf se s1 where f: "emit_curve_flux r k idx (current_flux s) = Inr (cf, se)"
    and l: "for_each (emit_segment a se) (segments pts)
              (s\<lparr>current_speed := Some sp, current_flux := cf,
                 gcode := gcode s @ [G0 sp (hd pts)]\<rparr>) = Inr s1"
    and s': "s' = s1\<lparr>previous_point := Some (last pts)\<rparr>"
    by (rule emit_curve_Some [OF assms(1) Some])
  note n = emit_curve_flux_nonneg [OF f assms(4) emit_inv_flux [OF assms(5)]]
  have nn1: "\<forall>f. cf = Some f \<longrightarrow> 0 \<le> f" using n by (rule conjunct1)
  have nn2: "\<forall>s e. se = Some (s, e) \<longrightarrow> 0 \<le> s \<and> 0 \<le> e" using n by (rule conjunct2)
  have i0: "emit_inv (s\<lparr>current_speed := Some sp, current_flux := cf,
                 gcode := gcode s @ [G0 sp (hd pts)]\<rparr>)"
    using assms(5) nn1 by (rule emit_inv_update) simp_all
  have "emit_inv s1"
  proof (rule for_each_preserves [where P = emit_inv, OF l i0])
    fix x t t' assume x: "x \<in> set (segments pts)" and t: "emit_inv t"
      and b: "emit_segment a se x t = Inr t'"
    obtain prev pt tn where xeq: "x = (prev, pt, tn)" by (cases x) auto
    have "(prev, pt, tn) \<in> set (segments pts)" using x by (simp add: xeq)
    then have tn: "0 \<le> tn \<and> tn \<le> 1" by (rule segments_bounds)
    have b': "emit_segment a se (prev, pt, tn) t = Inr t'" using b by (simp add: xeq)
    from b' assms(2,3) nn2 conjunct1 [OF tn] conjunct2 [OF tn] t show "emit_inv t'"
      by (rule emit_segment_inv)
  qed
  then show ?thesis unfolding s' by (rule emit_inv_previous_point)
qed

lemma emit_layer_Inr:
  assumes "emit_layer a r (k, curves) s = Inr s'"
  obtains speed s1 where
    "(case speed_mode_detail r of
        global \<Rightarrow> map_sum id Some (lookup (speeds r) 0)
      | per_layer \<Rightarrow> map_sum id Some (lookup (speeds r) k)
      | per_curve \<Rightarrow> Inr (current_speed s)) = Inr speed"
    and "for_each (emit_curve a r k) curves
          (s\<lparr>gcode := gcode s @ [LayerStart (k + 1)], current_speed := speed\<rparr>) = Inr s1"
    and "if retract a
         then \<exists>lp sp. previous_point s1 = Some lp \<and> current_speed s1 = Some sp
                \<and> s' = s1\<lparr>gcode := gcode s1 @ [G1_F_Z sp (Z lp + layer_h a), LayerEnd (k + 1)],
                           previous_point := Some (lp\<lparr>Z := Z lp + layer_h a\<rparr>)\<rparr>
         else s' = s1\<lparr>gcode := gcode s1 @ [LayerEnd (k + 1)]\<rparr>"
  using assms by (auto simp: emit_layer_def split: sum.splits option.splits if_splits)

lemma emit_layer_inv:
  assumes "emit_layer a r (k, curves) s = Inr s'"
    and "e_absolute a" "0 \<le> nozzle_diameter a * layer_h a"
    and "\<forall>x\<in>set (detail_values (flux_detail r)). 0 \<le> x"
    and "emit_inv s"
  shows "emit_inv s'"
proof -
  obtain speed s1 where
    l: "for_each (emit_curve a r k) curves
          (s\<lparr>gcode := gcode s @ [LayerStart (k + 1)], current_speed := speed\<rparr>) = Inr s1"
    and s': "if retract a
         then \<exists>lp sp. previous_point s1 = Some lp \<and> current_speed s1 = Some sp
                \<and> s' = s1\<lparr>gcode := gcode s1 @ [G1_F_Z sp (Z lp + layer_h a), LayerEnd (k + 1)],
                           previous_point := Some (lp\<lparr>Z := Z lp + layer_h a\<rparr>)\<rparr>
         else s' = s1\<lparr>gcode := gcode s1 @ [LayerEnd (k + 1)]\<rparr>"
    by (rule emit_layer_Inr [OF assms(1)])
  have i0: "emit_inv (s\<lparr>gcode := gcode s @ [LayerStart (k + 1)], current_speed := speed\<rparr>)"
    using assms(5) by (simp add: emit_inv_def)
  have i1: "emit_inv s1"
  proof (rule for_each_preserves [where P = emit_inv, OF l i0])
    fix x t t' assume t: "emit_inv t" and b: "emit_curve a r k x t = Inr t'"
    obtain c idx where x: "x = (c, idx)" by (cases x) auto
    from b show "emit_inv t'"
      unfolding x using assms(2-4) t by (rule emit_curve_inv)
  qed
  show ?thesis
  proof (cases "retract a")
    case True
    with s' obtain lp sp where
      "s' = s1\<lparr>gcode := gcode s1 @ [G1_F_Z sp (Z lp + layer_h a), LayerEnd (k + 1)],
                 previous_point := Some (lp\<lparr>Z := Z lp + layer_h a\<rparr>)\<rparr>"
      by auto
    with i1 show ?thesis by (simp add: emit_inv_def)
  next
    case False
    with s' have "s' = s1\<lparr>gcode := gcode s1 @ [LayerEnd (k + 1)]\<rparr>"
      by simp
    with i1 show ?thesis by (simp add: emit_inv_def)
  qed
qed

lemma generation_pass_inv:
  assumes "generation_pass a r = Inr s"
    and "e_absolute a" "0 \<le> nozzle_diameter a * layer_h a"
    and "\<forall>x\<in>set (detail_values (flux_detail r)). 0 \<le> x"
  shows "emit_inv s"
proof (rule for_each_preserves [where P = emit_inv, OF assms(1) [unfolded generation_pass_def]])
  show "emit_inv \<lparr>gcode = start_block a r, extrusion_amount = 0, previous_point = None,
        current_speed = None, current_flux = None\<rparr>"
    using assms(2) by (simp add: emit_inv_def start_block_values)
next
  fix x t t' assume t: "emit_inv t" and b: "emit_layer a r x t = Inr t'"
  obtain k curves where x: "x = (k, curves)" by (cases x) auto
  from b show "emit_inv t'"
    unfolding x using assms(2-4) t by (rule emit_layer_inv)
qed

lemma generate_gcode_Inr:
  assumes "generate_gcode a = Inr out"
  obtains r est t s where "validate a = Inr r" "estimation_pass a r = Inr est"
    and "estimate_time (speeds r) (total_printing_distance est) = Inr t"
    and "generation_pass a r = Inr s"
    and "out = \<lparr>g_code = gcode s @ end_block a, printing_time = t,
                printing_path_len = total_printing_distance est, layers = num_layers r\<rparr>"
  using assms by (auto simp: generate_gcode_def split: sum.splits)

lemma set_linear_list: "set (linear_list v n) \<subseteq> set (speed_list v)"
  by (auto simp: linear_list_def speed_list_def Let_def)

lemma detail_values_subset:
  assumes "validate a = Inr r"
  shows "set (detail_values (flux_detail r)) \<subseteq> set (flux_values a)"
proof -
  note f = validate_Inr(9) [OF assms]
  consider "flux_mode a = 1" | "flux_mode a \<noteq> 1" "flux_mode a = 2"
    | "flux_mode a \<noteq> 1" "flux_mode a \<noteq> 2"
    by blast
  then show ?thesis
  proof cases
    case 1
    with f [symmetric] have "detail_values (flux_detail r) = m1_flux_list (m1_flux a)"
      by (cases "scope_of_length (length (m1_flux_list (m1_flux a)))
                   (num_layers_of (valid_curves (printing_path a)) (layer_h a))
                   (length (valid_curves (printing_path a)))")
         (auto simp: resolve_flux_def Let_def)
    with 1 show ?thesis by (simp add: flux_values_def)
  next
    case 2
    with f obtain s e where se: "m2_flux_start a = Some s" "m2_flux_end a = Some e"
      by (cases "m2_flux_start a"; cases "m2_flux_end a") (auto simp: resolve_flux_def)
    from linear_resolved [OF 2(2) se assms]
    have "detail_values (flux_detail r)
            = linear_list s (length (valid_curves (printing_path a)))
              @ linear_list e (length (valid_curves (printing_path a)))"
      by simp
    with 2 se set_linear_list [of s] set_linear_list [of e] show ?thesis
      by (auto simp: flux_values_def)
  next
    case 3
    with f [symmetric] have "flux_detail r = no_flux"
      by (auto simp: resolve_flux_def)
    then show ?thesis by simp
  qed
qed

text \<open>
  Claim C8, amended. In a successful run in absolute extrusion mode, with no negative
  flux value given and \<open>nozzle_diameter * layer_h\<close> not negative, the extrusion values of
  the motion commands (the \<open>G1\<close> lines with coordinates) are non-negative and
  non-decreasing in program order. The \<open>E\<close> words of the whole program are these values
  between the fixed pairs \<open>E0\<close>, \<open>E-4\<close> of the start block and of the end block.
\<close>

theorem motion_extrusion_is_monotone:
  assumes "generate_gcode a = Inr out" and "e_absolute a"
    and "0 \<le> nozzle_diameter a * layer_h a"
    and "\<forall>fl\<in>set (flux_values a). 0 \<le> fl"
  shows "sorted (motion_values (g_code out))
     \<and> (\<forall>e\<in>set (motion_values (g_code out)). 0 \<le> e)
     \<and> e_values (g_code out) = [0, - 4] @ motion_values (g_code out) @ [0, - 4]"
proof -
  obtain r est t s where v: "validate a = Inr r" and "estimation_pass a r = Inr est"
    and "estimate_time (speeds r) (total_printing_distance est) = Inr t"
    and g: "generation_pass a r = Inr s"
    and out: "out = \<lparr>g_code = gcode s @ end_block a, printing_time = t,
                printing_path_len = total_printing_distance est, layers = num_layers r\<rparr>"
    by (rule generate_gcode_Inr [OF assms(1)])
  have "\<forall>x\<in>set (detail_values (flux_detail r)). 0 \<le> x"
    using detail_values_subset [OF v] assms(4) by blast
  with g assms(2,3) have "emit_inv s" by (rule generation_pass_inv)
  then have s: "sorted (0 # motion_values (gcode s) @ [extrusion_amount s])"
    and e: "e_values (gcode s) = [0, - 4] @ motion_values (gcode s)"
    by (simp_all add: emit_inv_def)
  have m: "motion_values (g_code out) = motion_values (gcode s)"
    by (simp add: out end_block_values)
  have "sorted (motion_values (gcode s))" "\<forall>e\<in>set (motion_values (gcode s)). 0 \<le> e"
    using s by (auto simp: sorted_append)
  moreover have "e_values (g_code out) = [0, - 4] @ motion_values (gcode s) @ [0, - 4]"
    using e assms(2) by (simp add: out end_block_values)
  ultimately show ?thesis by (simp add: m)
qed

theorem motion_extrusion_is_monotone_witness:
  "e_absolute two_layers \<and> 0 \<le> nozzle_diameter two_layers * layer_h two_layers
   \<and> flux_values two_layers = [1]
   \<and> motion_values two_layers_program
       = [0, 8 / constant_denominator, 16 / constant_denominator, 20 / constant_denominator,
          20 / constant_denominator, 28 / constant_denominator, 36 / constant_denominator,
          40 / constant_denominator]
   \<and> sorted (motion_values two_layers_program)
   \<and> e_values two_layers_program = [0, - 4] @ motion_values two_layers_program @ [0, - 4]"
proof -
  have h: "e_absolute two_layers" "0 \<le> nozzle_diameter two_layers * layer_h two_layers"
    "\<forall>fl\<in>set (flux_values two_layers). 0 \<le> fl"
    "flux_values two_layers = [1]"
    by (simp_all add: two_layers_fields flux_values_def m1_flux_list_def)
  have m: "motion_values two_layers_program
       = [0, 8 / constant_denominator, 16 / constant_denominator, 20 / constant_denominator,
          20 / constant_denominator, 28 / constant_denominator, 36 / constant_denominator,
          40 / constant_denominator]"
    by (simp add: two_layers_program_def two_layers_body_def start_block_values end_block_values)
  from motion_extrusion_is_monotone [OF generate_two_layers h(1-3)] h(1,2,4) m
  show ?thesis by simp
qed

lemma negative_flux_fields:
  "printing_path negative_flux = [x_line 5 0 1 (Some [0, 2, 4]), x_line 0 5 0 (Some [0, 2, 4])]"
  "nozzle_diameter negative_flux = 4" "printing_speed negative_flux = Num 3000"
  "m1_flux negative_flux = Num (- 1)" "layer_h negative_flux = 1" "e_absolute negative_flux"
  "\<not> retract negative_flux" "flux_mode negative_flux = 1" "m2_flux_start negative_flux = None"
  "m2_flux_end negative_flux = None" "density_kg_m3 negative_flux = None"
  by (simp_all add: negative_flux_def two_layers_def)

lemma validate_negative_flux:
  "validate negative_flux
     = Inr (two_layers_resolved\<lparr>flux_detail := constant_flux global [- 1]\<rparr>)"
  by (simp add: validate_def negative_flux_fields valid_two_layers num_layers_two_layers
      scope_of_length_def resolve_flux_def speed_list_def m1_flux_list_def two_layers_resolved_def)

lemma estimation_negative_flux:
  "estimation_pass negative_flux (two_layers_resolved\<lparr>flux_detail := constant_flux global [- 1]\<rparr>)
     = Inr \<lparr>est_flux = Some (- 1), total_extruded_volume = - 44, total_printing_distance = 11,
            est_previous_point = Some \<lparr>X = 0, Y = 0, Z = 1\<rparr>\<rparr>"
  by (simp add: estimation_pass_def resolved_fields layers_two_layers negative_flux_fields
      est_layer_def est_curve_def est_curve_flux_def lookup_def py_index_def
      segment_points_x_line segments_def normalized_distances_def cumulative_distances_def
      DistanceTo_def Let_def est_segment_def segment_flux_def)

lemma generation_negative_flux:
  "map_sum id (\<lambda>s. motion_values (gcode s))
     (generation_pass negative_flux
        (two_layers_resolved\<lparr>flux_detail := constant_flux global [- 1]\<rparr>))
     = Inr [0, - (8 / constant_denominator), - (16 / constant_denominator),
            - (20 / constant_denominator), - (20 / constant_denominator),
            - (28 / constant_denominator), - (36 / constant_denominator),
            - (40 / constant_denominator)]"
  by (simp add: generation_pass_def resolved_fields layers_two_layers negative_flux_fields
      emit_layer_def emit_curve_def emit_curve_flux_def lookup_def py_index_def
      segment_points_x_line segments_def normalized_distances_def cumulative_distances_def
      DistanceTo_def Let_def emit_segment_def segment_flux_def start_block_values)

lemma motion_values_negative_flux:
  "map_sum id (\<lambda>out. motion_values (g_code out)) (generate_gcode negative_flux)
     = Inr [0, - (8 / constant_denominator), - (16 / constant_denominator),
            - (20 / constant_denominator), - (20 / constant_denominator),
            - (28 / constant_denominator), - (36 / constant_denominator),
            - (40 / constant_denominator)]"
proof -
  let ?r = "two_layers_resolved\<lparr>flux_detail := constant_flux global [- 1]\<rparr>"
  obtain s where s: "generation_pass negative_flux ?r = Inr s"
    "motion_values (gcode s)
       = [0, - (8 / constant_denominator), - (16 / constant_denominator),
            - (20 / constant_denominator), - (20 / constant_denominator),
            - (28 / constant_denominator), - (36 / constant_denominator),
            - (40 / constant_denominator)]"
    using generation_negative_flux by (cases "generation_pass negative_flux ?r") auto
  show ?thesis
    by (simp add: generate_gcode_def validate_negative_flux estimation_negative_flux s
        estimate_time_def resolved_fields end_block_values)
qed

text \<open>
  Claim C8, as stated, fails. The start block of every program in absolute mode sets
  \<open>E0\<close> and then retracts to \<open>E-4\<close>, and the end block does so again after the last
  motion: the \<open>E\<close> words of the worked run are not non-decreasing. Nor are the motion
  values alone when a flux is negative, which validation does not exclude.
\<close>

theorem extrusion_words_decrease_counterexample:
  "e_absolute two_layers
   \<and> map_sum id (\<lambda>out. e_values (g_code out)) (generate_gcode two_layers)
       = Inr [0, - 4, 0, 8 / constant_denominator, 16 / constant_denominator,
              20 / constant_denominator, 20 / constant_denominator, 28 / constant_denominator,
              36 / constant_denominator, 40 / constant_denominator, 0, - 4]
   \<and> map_sum id (\<lambda>out. sorted (e_values (g_code out))) (generate_gcode two_layers) = Inr False
   \<and> e_absolute negative_flux
   \<and> map_sum id (\<lambda>out. motion_values (g_code out)) (generate_gcode negative_flux)
       = Inr [0, - (8 / constant_denominator), - (16 / constant_denominator),
            - (20 / constant_denominator), - (20 / constant_denominator),
            - (28 / constant_denominator), - (36 / constant_denominator),
            - (40 / constant_denominator)]
   \<and> \<not> sorted [0, - (8 / constant_denominator), - (16 / constant_denominator),
            - (20 / constant_denominator), - (20 / constant_denominator),
            - (28 / constant_denominator), - (36 / constant_denominator),
            - (40 / constant_denominator)]"
proof -
  have e: "e_values two_layers_program
       = [0, - 4, 0, 8 / constant_denominator, 16 / constant_denominator,
              20 / constant_denominator, 20 / constant_denominator, 28 / constant_denominator,
              36 / constant_denominator, 40 / constant_denominator, 0, - 4]"
    by (simp add: two_layers_program_def two_layers_body_def start_block_values
        end_block_values two_layers_fields)
  have n: "\<not> sorted [0, - (8 / constant_denominator), - (16 / constant_denominator),
            - (20 / constant_denominator), - (20 / constant_denominator),
            - (28 / constant_denominator), - (36 / constant_denominator),
            - (40 / constant_denominator)]"
    using constant_denominator_pos by simp
  show ?thesis
    using n by (simp add: generate_two_layers e two_layers_fields negative_flux_fields
        motion_values_negative_flux)
qed

section \<open>What a curve contributes to the program\<close>

lemma segment_240811_Inr:
  assumes "segment_240811 speed cur_flux (prev, pt) s = Inr s'"
  shows "\<exists>e. gcode_b s' = gcode_b s @ [G1 speed pt e] \<and> previous_point_b s' = previous_point_b s"
  using assms
  by (auto simp: segment_240811_def Let_def split: pyval.splits)

lemma segments_240811_shape:
  assumes "for_each (segment_240811 speed cur_flux) pairs s = Inr s'"
  shows "\<exists>es. length es = length pairs
           \<and> gcode_b s' = gcode_b s @ map2 (G1 speed) (map snd pairs) es
           \<and> previous_point_b s' = previous_point_b s"
  using assms
proof (induction pairs arbitrary: s)
  case Nil
  then show ?case by simp
next
  case (Cons pair pairs)
  obtain prev pt where pair: "pair = (prev, pt)" by (cases pair) auto
  from Cons.prems obtain s1 where s1: "segment_240811 speed cur_flux (prev, pt) s = Inr s1"
    and rest: "for_each (segment_240811 speed cur_flux) pairs s1 = Inr s'"
    by (auto simp: pair split: sum.splits)
  from segment_240811_Inr [OF s1] obtain e where e: "gcode_b s1 = gcode_b s @ [G1 speed pt e]"
    "previous_point_b s1 = previous_point_b s"
    by (elim exE conjE)
  from Cons.IH [OF rest] obtain es where es: "length es = length pairs"
    "gcode_b s' = gcode_b s1 @ map2 (G1 speed) (map snd pairs) es"
    "previous_point_b s' = previous_point_b s1"
    by (elim exE conjE)
  show ?case
  proof (intro exI [of _ "e # es"] conjI)
    show "length (e # es) = length (pair # pairs)" using es(1) by simp
    show "gcode_b s' = gcode_b s @ map2 (G1 speed) (map snd (pair # pairs)) (e # es)"
      using es(2) e(1) by (simp add: pair)
    show "previous_point_b s' = previous_point_b s" using es(3) e(2) by simp
  qed
qed

lemma map_snd_zip_tl: "map snd (zip pts (tl pts)) = tl pts"
proof -
  have "map snd (zip pts (tl pts)) = take (min (length pts) (length (tl pts))) (tl pts)"
    by (rule map_snd_zip_take)
  then show ?thesis by simp
qed

lemma curve_240811_lines:
  assumes "curve_240811 nozzle speed fl c t = Inr t'"
  shows "case segment_points nozzle c of
           Some pts \<Rightarrow> \<exists>es. length es = length pts - 1 \<and> es \<noteq> []
                          \<and> gcode_b t' = gcode_b t @ map2 (G1 speed) (tl pts) es
         | None \<Rightarrow> gcode_b t' = gcode_b t"
proof (cases "segment_points nozzle c")
  case None
  with assms show ?thesis by (simp add: curve_240811_def)
next
  case (Some pts)
  with assms obtain s1 where l: "for_each (segment_240811 speed fl) (zip pts (tl pts)) t = Inr s1"
    and t': "gcode_b t' = gcode_b s1"
    by (auto simp: curve_240811_def split: sum.splits)
  from segments_240811_shape [OF l] obtain es where es: "length es = length (zip pts (tl pts))"
    "gcode_b s1 = gcode_b t @ map2 (G1 speed) (map snd (zip pts (tl pts))) es"
    by (elim exE conjE)
  have n: "length es = length pts - 1" using es(1) by simp
  have "0 < length es" using n segment_points_ends(1) [OF Some] by simp
  then have ne: "es \<noteq> []" by simp
  have g: "gcode_b t' = gcode_b t @ map2 (G1 speed) (tl pts) es"
    using es(2) t' by (simp only: map_snd_zip_tl)
  from n ne g have "\<exists>es. length es = length pts - 1 \<and> es \<noteq> []
                          \<and> gcode_b t' = gcode_b t @ map2 (G1 speed) (tl pts) es"
    by blast
  then show ?thesis by (simp only: Some option.case)
qed

lemma emit_curve_motion:
  assumes "emit_curve a r k (c, idx) s = Inr s'"
  shows "case segment_points (nozzle_diameter a) c of
           Some pts \<Rightarrow> \<exists>sp es. length es = length pts - 1 \<and> es \<noteq> []
                          \<and> gcode s' = gcode s @ G0 sp (hd pts) # map2 (G1 sp) (tl pts) es
         | None \<Rightarrow> gcode s' = gcode s"
proof (cases "segment_points (nozzle_diameter a) c")
  case None
  with emit_curve_None(1) [OF assms] show ?thesis by simp
next
  case (Some pts)
  from emit_curve_lines [OF assms Some]
  obtain sp fls where fls: "length fls = length pts - 1"
    and g: "gcode s' = gcode s @ G0 sp (hd pts)
               # map2 (\<lambda>(prev, pt, t) e. G1 sp pt e) (segments pts)
                   (if e_absolute a
                    then running (extrusion_amount s)
                           (map2 (\<lambda>(prev, pt, t) fl. increment a fl prev pt)
                              (segments pts) fls)
                    else map2 (\<lambda>(prev, pt, t) fl. increment a fl prev pt)
                           (segments pts) fls)"
    by (elim exE conjE)
  define es where "es = (if e_absolute a
                    then running (extrusion_amount s)
                           (map2 (\<lambda>(prev, pt, t) fl. increment a fl prev pt)
                              (segments pts) fls)
                    else map2 (\<lambda>(prev, pt, t) fl. increment a fl prev pt)
                           (segments pts) fls)"
  have lr: "length (running acc xs) = length xs" for acc xs
    by (induction xs arbitrary: acc) simp_all
  have n: "length es = length pts - 1"
    using fls by (simp add: es_def lr length_segments)
  have "0 < length es" using segment_points_ends(1) [OF Some] unfolding n by simp
  then have ne: "es \<noteq> []" by simp
  have g': "gcode s' = gcode s @ G0 sp (hd pts) # map2 (G1 sp) (tl pts) es"
    using g unfolding es_def [symmetric] by (simp only: map2_segments segments_points)
  from n ne g' have "\<exists>sp es. length es = length pts - 1 \<and> es \<noteq> []
                          \<and> gcode s' = gcode s @ G0 sp (hd pts) # map2 (G1 sp) (tl pts) es"
    by blast
  then show ?thesis by (simp only: Some option.case)
qed

lemma short_only_fields:
  "printing_path short_only = [x_line 0 1 0 None]"
  "nozzle_diameter short_only = 4" "printing_speed short_only = Num 3000"
  "m1_flux short_only = Num 1" "layer_h short_only = 1" "e_absolute short_only"
  "\<not> retract short_only" "flux_mode short_only = 1" "m2_flux_start short_only = None"
  "m2_flux_end short_only = None" "density_kg_m3 short_only = None"
  by (simp_all add: short_only_def two_layers_def)

lemma validate_short_only: "validate short_only = Inr short_only_resolved"
  by (simp add: validate_def short_only_fields valid_curves_def x_line_fields num_layers_of_def
      min_z_of_def max_z_of_def py_int_def scope_of_length_def resolve_flux_def speed_list_def
      m1_flux_list_def short_only_resolved_def)

lemma short_only_resolved_fields:
  "speeds short_only_resolved = [3000]" "all_curves short_only_resolved = [x_line 0 1 0 None]"
  "min_z short_only_resolved = 0" "num_layers short_only_resolved = 1"
  "speed_mode_detail short_only_resolved = global"
  "flux_detail short_only_resolved = constant_flux global [1]"
  by (simp_all add: short_only_resolved_def)

lemma layers_short_only:
  "curves_by_layer [x_line 0 1 0 None] 0 1 = [(0, [(x_line 0 1 0 None, 0)])]"
  by (simp add: curves_by_layer_def Let_def layer_index_of_def py_int_def x_line_fields)

lemma generate_short_only:
  "generate_gcode short_only
     = Inr \<lparr>g_code = start_block short_only short_only_resolved
                @ [LayerStart 1, LayerEnd 1] @ end_block short_only,
            printing_time = 0, printing_path_len = 0, layers = 1\<rparr>"
proof -
  have e: "estimation_pass short_only short_only_resolved
     = Inr \<lparr>est_flux = Some 1, total_extruded_volume = 0, total_printing_distance = 0,
            est_previous_point = None\<rparr>"
    by (simp add: estimation_pass_def short_only_resolved_fields layers_short_only
        short_only_fields est_layer_def est_curve_def est_curve_flux_def lookup_def py_index_def
        segment_points_x_line)
  have g: "generation_pass short_only short_only_resolved
     = Inr \<lparr>gcode = start_block short_only short_only_resolved @ [LayerStart 1, LayerEnd 1],
            extrusion_amount = 0, previous_point = None, current_speed = Some 3000,
            current_flux = Some 1\<rparr>"
    by (simp add: generation_pass_def short_only_resolved_fields layers_short_only
        short_only_fields emit_layer_def emit_curve_def emit_curve_flux_def lookup_def
        py_index_def segment_points_x_line)
  show ?thesis
    by (simp add: generate_gcode_def validate_short_only e g estimate_time_def
        short_only_resolved_fields)
qed

text \<open>
  Claim C3, as stated, fails. A valid curve of length 1 whose division by 2 mm answers
  \<open>None\<close> is skipped: it gets no points, and the program of a run on this curve alone
  holds the start block, the two layer markers and the end block, and no motion command.
\<close>

theorem skipped_curve_gives_no_motion_counterexample:
  "IsValid (x_line 0 1 0 None) \<and> 0 < GetLength (x_line 0 1 0 None)
   \<and> segment_points (nozzle_diameter short_only) (x_line 0 1 0 None) = None
   \<and> generate_gcode short_only
       = Inr \<lparr>g_code = start_block short_only short_only_resolved
                  @ [LayerStart 1, LayerEnd 1] @ end_block short_only,
              printing_time = 0, printing_path_len = 0, layers = 1\<rparr>
   \<and> motion_values (start_block short_only short_only_resolved
                  @ [LayerStart 1, LayerEnd 1] @ end_block short_only) = []"
  by (simp add: generate_short_only x_line_fields segment_points_x_line start_block_values
      end_block_values)

text \<open>
  Claim C3, amended. A curve whose division answers with parameters gets at least 2
  points, its start first and its end last, and contributes one motion-with-extrusion
  command for every point after the first: in version 241001 after one rapid move to the
  first point, in version 240811 without it. A curve whose division answers \<open>None\<close>
  contributes no line.
\<close>

theorem divided_curve_gives_motion_commands:
  "(segment_points nozzle c = Some pts \<longrightarrow>
      2 \<le> length pts \<and> hd pts = PointAtStart c \<and> last pts = PointAtEnd c)
   \<and> (emit_curve a r k (c, idx) s = Inr s' \<longrightarrow>
        (case segment_points (nozzle_diameter a) c of
           Some pts \<Rightarrow> \<exists>sp es. length es = length pts - 1 \<and> es \<noteq> []
                          \<and> gcode s' = gcode s @ G0 sp (hd pts) # map2 (G1 sp) (tl pts) es
         | None \<Rightarrow> gcode s' = gcode s))
   \<and> (curve_240811 nozzle speed fl c t = Inr t' \<longrightarrow>
        (case segment_points nozzle c of
           Some pts \<Rightarrow> \<exists>es. length es = length pts - 1 \<and> es \<noteq> []
                          \<and> gcode_b t' = gcode_b t @ map2 (G1 speed) (tl pts) es
         | None \<Rightarrow> gcode_b t' = gcode_b t))"
proof (intro conjI impI)
  assume p: "segment_points nozzle c = Some pts"
  show "2 \<le> length pts" "hd pts = PointAtStart c" "last pts = PointAtEnd c"
    using segment_points_ends [OF p] by simp_all
next
  assume "emit_curve a r k (c, idx) s = Inr s'"
  then show "case segment_points (nozzle_diameter a) c of
           Some pts \<Rightarrow> \<exists>sp es. length es = length pts - 1 \<and> es \<noteq> []
                          \<and> gcode s' = gcode s @ G0 sp (hd pts) # map2 (G1 sp) (tl pts) es
         | None \<Rightarrow> gcode s' = gcode s"
    by (rule emit_curve_motion)
next
  assume "curve_240811 nozzle speed fl c t = Inr t'"
  then show "case segment_points nozzle c of
           Some pts \<Rightarrow> \<exists>es. length es = length pts - 1 \<and> es \<noteq> []
                          \<and> gcode_b t' = gcode_b t @ map2 (G1 speed) (tl pts) es
         | None \<Rightarrow> gcode_b t' = gcode_b t"
    by (rule curve_240811_lines)
qed

text \<open>
  The lower curve of the worked run, in both versions, from a state with no lines yet.
\<close>

lemma emit_curve_lower:
  "emit_curve two_layers two_layers_resolved 0 (x_line 0 5 0 (Some [0, 2, 4]), 1)
     \<lparr>gcode = [], extrusion_amount = 0, previous_point = None, current_speed = Some 3000,
      current_flux = None\<rparr>
   = Inr \<lparr>gcode = [G0 3000 \<lparr>X = 0, Y = 0, Z = 0\<rparr>,
                   G1 3000 \<lparr>X = 0, Y = 0, Z = 0\<rparr> 0,
                   G1 3000 \<lparr>X = 2, Y = 0, Z = 0\<rparr> (8 / constant_denominator),
                   G1 3000 \<lparr>X = 4, Y = 0, Z = 0\<rparr> (16 / constant_denominator),
                   G1 3000 \<lparr>X = 5, Y = 0, Z = 0\<rparr> (20 / constant_denominator)],
          extrusion_amount = 20 / constant_denominator,
          previous_point = Some \<lparr>X = 5, Y = 0, Z = 0\<rparr>, current_speed = Some 3000,
          current_flux = Some 1\<rparr>"
  by (simp add: resolved_fields two_layers_fields emit_curve_def emit_curve_flux_def lookup_def
      py_index_def segment_points_x_line segments_def normalized_distances_def
      cumulative_distances_def DistanceTo_def Let_def emit_segment_def segment_flux_def)

lemma curve_240811_lower:
  "curve_240811 4 3000 (Num 1) (x_line 0 5 0 (Some [0, 2, 4]))
     \<lparr>gcode_b = [], total_extrusion_distance_b = 0, total_travel_distance_b = 0,
      extrusion_amount_b = 0, previous_point_b = None\<rparr>
   = Inr \<lparr>gcode_b = [G1 3000 \<lparr>X = 0, Y = 0, Z = 0\<rparr> 0,
                     G1 3000 \<lparr>X = 2, Y = 0, Z = 0\<rparr> 2,
                     G1 3000 \<lparr>X = 4, Y = 0, Z = 0\<rparr> 4,
                     G1 3000 \<lparr>X = 5, Y = 0, Z = 0\<rparr> 5],
          total_extrusion_distance_b = 5, total_travel_distance_b = 0,
          extrusion_amount_b = 5, previous_point_b = Some \<lparr>X = 5, Y = 0, Z = 0\<rparr>\<rparr>"
  by (simp add: curve_240811_def segment_points_x_line segment_240811_def DistanceTo_def Let_def)

theorem divided_curve_gives_motion_commands_witness:
  "segment_points 4 (x_line 0 5 0 (Some [0, 2, 4]))
     = Some [\<lparr>X = 0, Y = 0, Z = 0\<rparr>, \<lparr>X = 0, Y = 0, Z = 0\<rparr>, \<lparr>X = 2, Y = 0, Z = 0\<rparr>,
             \<lparr>X = 4, Y = 0, Z = 0\<rparr>, \<lparr>X = 5, Y = 0, Z = 0\<rparr>]
   \<and> (\<exists>sp es. length es = 4 \<and> es \<noteq> []
         \<and> [G0 3000 \<lparr>X = 0, Y = 0, Z = 0\<rparr>,
             G1 3000 \<lparr>X = 0, Y = 0, Z = 0\<rparr> 0,
             G1 3000 \<lparr>X = 2, Y = 0, Z = 0\<rparr> (8 / constant_denominator),
             G1 3000 \<lparr>X = 4, Y = 0, Z = 0\<rparr> (16 / constant_denominator),
             G1 3000 \<lparr>X = 5, Y = 0, Z = 0\<rparr> (20 / constant_denominator)]
           = G0 sp \<lparr>X = 0, Y = 0, Z = 0\<rparr>
             # map2 (G1 sp) [\<lparr>X = 0, Y = 0, Z = 0\<rparr>, \<lparr>X = 2, Y = 0, Z = 0\<rparr>,
                             \<lparr>X = 4, Y = 0, Z = 0\<rparr>, \<lparr>X = 5, Y = 0, Z = 0\<rparr>] es)
   \<and> (\<exists>es. length es = 4 \<and> es \<noteq> []
         \<and> [G1 3000 \<lparr>X = 0, Y = 0, Z = 0\<rparr> 0,
             G1 3000 \<lparr>X = 2, Y = 0, Z = 0\<rparr> 2,
             G1 3000 \<lparr>X = 4, Y = 0, Z = 0\<rparr> 4,
             G1 3000 \<lparr>X = 5, Y = 0, Z = 0\<rparr> 5]
           = map2 (G1 3000) [\<lparr>X = 0, Y = 0, Z = 0\<rparr>, \<lparr>X = 2, Y = 0, Z = 0\<rparr>,
                             \<lparr>X = 4, Y = 0, Z = 0\<rparr>, \<lparr>X = 5, Y = 0, Z = 0\<rparr>] es)"
proof -
  let ?c = "x_line 0 5 0 (Some [0, 2, 4])"
  let ?s = "\<lparr>gcode = [], extrusion_amount = 0, previous_point = None,
             current_speed = Some 3000, current_flux = None\<rparr>"
  let ?s' = "\<lparr>gcode = [G0 3000 \<lparr>X = 0, Y = 0, Z = 0\<rparr>,
                   G1 3000 \<lparr>X = 0, Y = 0, Z = 0\<rparr> 0,
                   G1 3000 \<lparr>X = 2, Y = 0, Z = 0\<rparr> (8 / constant_denominator),
                   G1 3000 \<lparr>X = 4, Y = 0, Z = 0\<rparr> (16 / constant_denominator),
                   G1 3000 \<lparr>X = 5, Y = 0, Z = 0\<rparr> (20 / constant_denominator)],
          extrusion_amount = 20 / constant_denominator,
          previous_point = Some \<lparr>X = 5, Y = 0, Z = 0\<rparr>, current_speed = Some 3000,
          current_flux = Some 1\<rparr>"
  let ?t = "\<lparr>gcode_b = [], total_extrusion_distance_b = 0, total_travel_distance_b = 0,
             extrusion_amount_b = 0, previous_point_b = None\<rparr>"
  let ?t' = "\<lparr>gcode_b = [G1 3000 \<lparr>X = 0, Y = 0, Z = 0\<rparr> 0,
                     G1 3000 \<lparr>X = 2, Y = 0, Z = 0\<rparr> 2,
                     G1 3000 \<lparr>X = 4, Y = 0, Z = 0\<rparr> 4,
                     G1 3000 \<lparr>X = 5, Y = 0, Z = 0\<rparr> 5],
          total_extrusion_distance_b = 5, total_travel_distance_b = 0,
          extrusion_amount_b = 5, previous_point_b = Some \<lparr>X = 5, Y = 0, Z = 0\<rparr>\<rparr>"
  note t = divided_curve_gives_motion_commands
    [where nozzle = 4 and c = ?c and a = two_layers and r = two_layers_resolved and k = 0
       and idx = 1 and s = ?s and s' = ?s' and speed = 3000 and fl = "Num 1" and t = ?t
       and t' = ?t']
  have p: "segment_points 4 ?c
     = Some [\<lparr>X = 0, Y = 0, Z = 0\<rparr>, \<lparr>X = 0, Y = 0, Z = 0\<rparr>, \<lparr>X = 2, Y = 0, Z = 0\<rparr>,
             \<lparr>X = 4, Y = 0, Z = 0\<rparr>, \<lparr>X = 5, Y = 0, Z = 0\<rparr>]"
    by (simp add: segment_points_x_line)
  note t1 = t [THEN conjunct2, THEN conjunct1]
  note t2 = t [THEN conjunct2, THEN conjunct2]
  let ?pts = "[\<lparr>X = 0, Y = 0, Z = 0\<rparr>, \<lparr>X = 0, Y = 0, Z = 0\<rparr>, \<lparr>X = 2, Y = 0, Z = 0\<rparr>,
             \<lparr>X = 4, Y = 0, Z = 0\<rparr>, \<lparr>X = 5, Y = 0, Z = 0\<rparr>]"
  have "\<exists>sp es. length es = length ?pts - 1 \<and> es \<noteq> []
          \<and> gcode ?s' = gcode ?s @ G0 sp (hd ?pts) # map2 (G1 sp) (tl ?pts) es"
    using mp [OF t1 emit_curve_lower] by (simp only: two_layers_fields p option.case)
  then obtain sp es where es: "length es = length ?pts - 1" "es \<noteq> []"
    "gcode ?s' = gcode ?s @ G0 sp (hd ?pts) # map2 (G1 sp) (tl ?pts) es"
    by (elim exE conjE)
  have "length es = 4" using es(1) by simp
  moreover have "[G0 3000 \<lparr>X = 0, Y = 0, Z = 0\<rparr>,
             G1 3000 \<lparr>X = 0, Y = 0, Z = 0\<rparr> 0,
             G1 3000 \<lparr>X = 2, Y = 0, Z = 0\<rparr> (8 / constant_denominator),
             G1 3000 \<lparr>X = 4, Y = 0, Z = 0\<rparr> (16 / constant_denominator),
             G1 3000 \<lparr>X = 5, Y = 0, Z = 0\<rparr> (20 / constant_denominator)]
           = G0 sp \<lparr>X = 0, Y = 0, Z = 0\<rparr>
             # map2 (G1 sp) [\<lparr>X = 0, Y = 0, Z = 0\<rparr>, \<lparr>X = 2, Y = 0, Z = 0\<rparr>,
                             \<lparr>X = 4, Y = 0, Z = 0\<rparr>, \<lparr>X = 5, Y = 0, Z = 0\<rparr>] es"
    using es(3) by simp
  ultimately have a: "\<exists>sp es. length es = 4 \<and> es \<noteq> []
         \<and> [G0 3000 \<lparr>X = 0, Y = 0, Z = 0\<rparr>,
             G1 3000 \<lparr>X = 0, Y = 0, Z = 0\<rparr> 0,
             G1 3000 \<lparr>X = 2, Y = 0, Z = 0\<rparr> (8 / constant_denominator),
             G1 3000 \<lparr>X = 4, Y = 0, Z = 0\<rparr> (16 / constant_denominator),
             G1 3000 \<lparr>X = 5, Y = 0, Z = 0\<rparr> (20 / constant_denominator)]
           = G0 sp \<lparr>X = 0, Y = 0, Z = 0\<rparr>
             # map2 (G1 sp) [\<lparr>X = 0, Y = 0, Z = 0\<rparr>, \<lparr>X = 2, Y = 0, Z = 0\<rparr>,
                             \<lparr>X = 4, Y = 0, Z = 0\<rparr>, \<lparr>X = 5, Y = 0, Z = 0\<rparr>] es"
    using es(2) by (intro exI [of _ sp] exI [of _ es] conjI)
  have "\<exists>es. length es = length ?pts - 1 \<and> es \<noteq> []
          \<and> gcode_b ?t' = gcode_b ?t @ map2 (G1 3000) (tl ?pts) es"
    using mp [OF t2 curve_240811_lower] by (simp only: p option.case)
  then obtain es' where es': "length es' = length ?pts - 1" "es' \<noteq> []"
    "gcode_b ?t' = gcode_b ?t @ map2 (G1 3000) (tl ?pts) es'"
    by (elim exE conjE)
  have "length es' = 4" using es'(1) by simp
  moreover have "[G1 3000 \<lparr>X = 0, Y = 0, Z = 0\<rparr> 0,
             G1 3000 \<lparr>X = 2, Y = 0, Z = 0\<rparr> 2,
             G1 3000 \<lparr>X = 4, Y = 0, Z = 0\<rparr> 4,
             G1 3000 \<lparr>X = 5, Y = 0, Z = 0\<rparr> 5]
           = map2 (G1 3000) [\<lparr>X = 0, Y = 0, Z = 0\<rparr>, \<lparr>X = 2, Y = 0, Z = 0\<rparr>,
                             \<lparr>X = 4, Y = 0, Z = 0\<rparr>, \<lparr>X = 5, Y = 0, Z = 0\<rparr>] es'"
    using es'(3) by simp
  ultimately have b: "\<exists>es. length es = 4 \<and> es \<noteq> []
         \<and> [G1 3000 \<lparr>X = 0, Y = 0, Z = 0\<rparr> 0,
             G1 3000 \<lparr>X = 2, Y = 0, Z = 0\<rparr> 2,
             G1 3000 \<lparr>X = 4, Y = 0, Z = 0\<rparr> 4,
             G1 3000 \<lparr>X = 5, Y = 0, Z = 0\<rparr> 5]
           = map2 (G1 3000) [\<lparr>X = 0, Y = 0, Z = 0\<rparr>, \<lparr>X = 2, Y = 0, Z = 0\<rparr>,
                             \<lparr>X = 4, Y = 0, Z = 0\<rparr>, \<lparr>X = 5, Y = 0, Z = 0\<rparr>] es"
    using es'(2) by (intro exI [of _ es'] conjI)
  from p a b show ?thesis by (intro conjI)
qed

section \<open>Linear flux\<close>

lemma cumulative_from_nth:
  "i < length pts - 1 \<Longrightarrow> cumulative_from acc pts ! i = acc + chain_length (take (i + 2) pts)"
proof (induction acc pts arbitrary: i rule: cumulative_from.induct)
  case (1 acc p q ps)
  show ?case
  proof (cases i)
    case 0
    then show ?thesis by simp
  next
    case (Suc j)
    with "1.prems" have "j < length (q # ps) - 1" by simp
    from "1.IH" [OF this] Suc show ?thesis by simp
  qed
qed simp_all

lemma cumulative_distances_nth:
  assumes "i < length pts"
  shows "cumulative_distances pts ! i = chain_length (take (Suc i) pts)"
proof (cases i)
  case 0
  then show ?thesis by (cases pts) (simp_all add: cumulative_distances_def)
next
  case (Suc j)
  with assms have "j < length pts - 1" by simp
  from cumulative_from_nth [OF this, of 0] Suc show ?thesis
    by (simp add: cumulative_distances_def)
qed

lemma length_cumulative_distances: "pts \<noteq> [] \<Longrightarrow> length (cumulative_distances pts) = length pts"
  by (cases pts) (simp_all add: cumulative_distances_def length_cumulative_from)

lemma last_cumulative_distances: "last (cumulative_distances pts) = chain_length pts"
proof (cases "pts = []")
  case True
  then show ?thesis by (simp add: cumulative_distances_def)
next
  case False
  then have n: "cumulative_distances pts \<noteq> []" "length pts - 1 < length pts"
    by (simp_all add: cumulative_distances_def)
  have "last (cumulative_distances pts) = cumulative_distances pts ! (length pts - 1)"
    using n(1) length_cumulative_distances [OF False] by (simp add: last_conv_nth)
  also have "\<dots> = chain_length (take (Suc (length pts - 1)) pts)"
    using n(2) by (rule cumulative_distances_nth)
  finally show ?thesis using False by simp
qed

lemma normalized_distances_nth:
  assumes "i < length pts"
  shows "normalized_distances pts ! i
           = (if 0 < chain_length pts then chain_length (take (Suc i) pts) / chain_length pts
              else 0)"
proof -
  have "pts \<noteq> []" using assms by auto
  then have "i < length (cumulative_distances pts)"
    using assms by (simp add: length_cumulative_distances)
  then show ?thesis
    using assms
    by (simp add: normalized_distances_def Let_def last_cumulative_distances
        cumulative_distances_nth)
qed

lemma segments_nth:
  assumes "i < length pts - 1"
  shows "segments pts ! i = (pts ! i, pts ! Suc i, normalized_distances pts ! Suc i)"
proof -
  have ne: "pts \<noteq> []" using assms by auto
  have l: "length (normalized_distances pts) = length pts"
    using ne by (rule length_normalized_distances)
  have "i < length pts" "i < length (tl pts)" "i < length (tl (normalized_distances pts))"
    using assms l by simp_all
  then show ?thesis
    by (simp add: segments_def nth_tl)
qed

lemma interpolated_first: "interpolated start_flux end_flux pts 0 = start_flux"
  by (cases pts) (simp_all add: interpolated_def)

lemma interpolated_last:
  assumes "0 < chain_length pts"
  shows "interpolated start_flux end_flux pts (length pts - 1) = end_flux"
proof -
  have "pts \<noteq> []" using assms by auto
  then have "take (Suc (length pts - 1)) pts = pts" by simp
  then show ?thesis using assms by (simp add: interpolated_def)
qed

lemma emit_curve_flux_linear:
  assumes "emit_curve_flux r k idx cur = Inr (cf, se)"
    and "flux_detail r = linear_flux ss es"
  obtains start_flux end_flux where "lookup ss (int idx) = Inr start_flux"
    and "lookup es (int idx) = Inr end_flux" and "se = Some (start_flux, end_flux)"
  using assms by (auto simp: emit_curve_flux_def split: sum.splits)

lemma increments_linear:
  assumes "length fls = length pts - 1"
    and "\<forall>i<length pts - 1.
           segment_flux 2 cf (Some (start_flux, end_flux)) (snd (snd (segments pts ! i)))
             = Inr (fls ! i)"
    and "0 < chain_length pts"
  shows "map2 (\<lambda>(prev, pt, t) fl. increment a fl prev pt) (segments pts) fls
           = map (\<lambda>i. increment a (interpolated start_flux end_flux pts i) (pts ! (i - 1)) (pts ! i))
               [1..<length pts]"
proof (rule nth_equalityI)
  show "length (map2 (\<lambda>(prev, pt, t) fl. increment a fl prev pt) (segments pts) fls)
          = length (map (\<lambda>i. increment a (interpolated start_flux end_flux pts i)
                                 (pts ! (i - 1)) (pts ! i)) [1..<length pts])"
    using assms(1) by (simp add: length_segments)
next
  fix i assume "i < length (map2 (\<lambda>(prev, pt, t) fl. increment a fl prev pt) (segments pts) fls)"
  then have i: "i < length pts - 1"
    using assms(1) by (simp add: length_segments)
  then have si: "Suc i < length pts" by simp
  have seg: "segments pts ! i = (pts ! i, pts ! Suc i, normalized_distances pts ! Suc i)"
    using i by (rule segments_nth)
  have t: "normalized_distances pts ! Suc i = chain_length (take (Suc (Suc i)) pts) / chain_length pts"
    using normalized_distances_nth [OF si] assms(3) by simp
  have "segment_flux 2 cf (Some (start_flux, end_flux)) (normalized_distances pts ! Suc i)
          = Inr (fls ! i)"
    using assms(2) i seg by (metis snd_conv)
  then have fl: "fls ! i = interpolated start_flux end_flux pts (Suc i)"
    by (simp add: segment_flux_def t interpolated_def)
  have "map2 (\<lambda>(prev, pt, t) fl. increment a fl prev pt) (segments pts) fls ! i
          = increment a (fls ! i) (pts ! i) (pts ! Suc i)"
    using i assms(1) by (simp add: length_segments seg)
  also have "\<dots> = map (\<lambda>i. increment a (interpolated start_flux end_flux pts i)
                                 (pts ! (i - 1)) (pts ! i)) [1..<length pts] ! i"
    using i by (simp add: fl)
  finally show "map2 (\<lambda>(prev, pt, t) fl. increment a fl prev pt) (segments pts) fls ! i
          = map (\<lambda>i. increment a (interpolated start_flux end_flux pts i)
                          (pts ! (i - 1)) (pts ! i)) [1..<length pts] ! i" .
qed

text \<open>
  Claim C7, amended. In linear flux mode, for a curve whose chain of sample points has
  positive length, the flux of the segment that ends at sample \<open>i\<close> is
  \<open>startFlux + normalizedArcLength * (endFlux - startFlux)\<close>, where the normalised arc
  length is the chain distance from the curve start to sample \<open>i\<close> divided by the total
  chain length: every \<open>G1\<close> line of the curve carries the increment computed with this
  flux (summed up in absolute mode). The interpolation is \<open>startFlux\<close> at the first
  sample and \<open>endFlux\<close> at the last.
\<close>

theorem linear_flux_is_interpolated:
  assumes "flux_mode a = 2" and "flux_detail r = linear_flux ss es"
    and "emit_curve a r k (c, idx) s = Inr s'"
    and "segment_points (nozzle_diameter a) c = Some pts"
    and "0 < chain_length pts"
  shows "\<exists>sp start_flux end_flux.
           lookup ss (int idx) = Inr start_flux \<and> lookup es (int idx) = Inr end_flux
           \<and> gcode s' = gcode s @ G0 sp (hd pts)
               # map2 (G1 sp) (tl pts)
                   (if e_absolute a
                    then running (extrusion_amount s)
                           (map (\<lambda>i. increment a (interpolated start_flux end_flux pts i)
                                        (pts ! (i - 1)) (pts ! i)) [1..<length pts])
                    else map (\<lambda>i. increment a (interpolated start_flux end_flux pts i)
                                     (pts ! (i - 1)) (pts ! i)) [1..<length pts])
           \<and> interpolated start_flux end_flux pts 0 = start_flux
           \<and> interpolated start_flux end_flux pts (length pts - 1) = end_flux"
proof -
  from emit_curve_lines [OF assms(3,4)]
  obtain sp cf se fls where f: "emit_curve_flux r k idx (current_flux s) = Inr (cf, se)"
    and n: "length fls = length pts - 1"
    and fl: "\<forall>i<length pts - 1.
                 segment_flux (flux_mode a) cf se (snd (snd (segments pts ! i))) = Inr (fls ! i)"
    and g: "gcode s' = gcode s @ G0 sp (hd pts)
               # map2 (\<lambda>(prev, pt, t) e. G1 sp pt e) (segments pts)
                   (if e_absolute a
                    then running (extrusion_amount s)
                           (map2 (\<lambda>(prev, pt, t) fl. increment a fl prev pt)
                              (segments pts) fls)
                    else map2 (\<lambda>(prev, pt, t) fl. increment a fl prev pt)
                           (segments pts) fls)"
    by (elim exE conjE)
  obtain start_flux end_flux where l: "lookup ss (int idx) = Inr start_flux"
    "lookup es (int idx) = Inr end_flux" and se: "se = Some (start_flux, end_flux)"
    by (rule emit_curve_flux_linear [OF f assms(2)])
  have fl2: "\<forall>i<length pts - 1.
           segment_flux 2 cf (Some (start_flux, end_flux)) (snd (snd (segments pts ! i)))
             = Inr (fls ! i)"
    using fl unfolding assms(1) se .
  note incs = increments_linear [OF n fl2 assms(5), of a]
  have g': "gcode s' = gcode s @ G0 sp (hd pts)
               # map2 (G1 sp) (tl pts)
                   (if e_absolute a
                    then running (extrusion_amount s)
                           (map (\<lambda>i. increment a (interpolated start_flux end_flux pts i)
                                        (pts ! (i - 1)) (pts ! i)) [1..<length pts])
                    else map (\<lambda>i. increment a (interpolated start_flux end_flux pts i)
                                     (pts ! (i - 1)) (pts ! i)) [1..<length pts])"
    using g unfolding incs by (simp only: map2_segments segments_points)
  show ?thesis
  proof (rule exI [of _ sp], rule exI [of _ start_flux], rule exI [of _ end_flux], intro conjI)
    show "lookup ss (int idx) = Inr start_flux" "lookup es (int idx) = Inr end_flux"
      by (rule l)+
    show "gcode s' = gcode s @ G0 sp (hd pts)
               # map2 (G1 sp) (tl pts)
                   (if e_absolute a
                    then running (extrusion_amount s)
                           (map (\<lambda>i. increment a (interpolated start_flux end_flux pts i)
                                        (pts ! (i - 1)) (pts ! i)) [1..<length pts])
                    else map (\<lambda>i. increment a (interpolated start_flux end_flux pts i)
                                     (pts ! (i - 1)) (pts ! i)) [1..<length pts])"
      by (rule g')
    show "interpolated start_flux end_flux pts 0 = start_flux"
      by (rule interpolated_first)
    show "interpolated start_flux end_flux pts (length pts - 1) = end_flux"
      using assms(5) by (rule interpolated_last)
  qed
qed

lemma segment_points_closed_loop:
  "segment_points 4 closed_loop
     = Some [\<lparr>X = 0, Y = 0, Z = 0\<rparr>, \<lparr>X = 0, Y = 0, Z = 0\<rparr>, \<lparr>X = 0, Y = 0, Z = 0\<rparr>,
             \<lparr>X = 0, Y = 0, Z = 0\<rparr>]"
  by (simp add: segment_points_def closed_loop_def nozzle_div_def)

text \<open>
  Claim C7, as stated, fails on a chain of length 0. A closed curve of length 2 (a circle
  through the origin) divided by a segment length of 2 has all its samples at the
  origin: the total chain length is 0, the guard of line 387 makes every normalised
  distance 0, and the interpolation from 1 to 2 is 1 at the last sample too.
\<close>

theorem degenerate_chain_keeps_start_flux_counterexample:
  "IsValid closed_loop \<and> 0 < GetLength closed_loop
   \<and> segment_points 4 closed_loop
       = Some [\<lparr>X = 0, Y = 0, Z = 0\<rparr>, \<lparr>X = 0, Y = 0, Z = 0\<rparr>, \<lparr>X = 0, Y = 0, Z = 0\<rparr>,
               \<lparr>X = 0, Y = 0, Z = 0\<rparr>]
   \<and> normalized_distances [\<lparr>X = 0, Y = 0, Z = 0\<rparr>, \<lparr>X = 0, Y = 0, Z = 0\<rparr>,
         \<lparr>X = 0, Y = 0, Z = 0\<rparr>, \<lparr>X = 0, Y = 0, Z = 0\<rparr>] = [0, 0, 0, 0]
   \<and> segment_flux 2 None (Some (1, 2))
         (last (normalized_distances [\<lparr>X = 0, Y = 0, Z = 0\<rparr>, \<lparr>X = 0, Y = 0, Z = 0\<rparr>,
            \<lparr>X = 0, Y = 0, Z = 0\<rparr>, \<lparr>X = 0, Y = 0, Z = 0\<rparr>])) = Inr 1"
  by (simp add: segment_points_closed_loop normalized_distances_def cumulative_distances_def
      DistanceTo_def segment_flux_def Let_def)
     (simp add: closed_loop_def)

lemma linear_run_fields:
  "printing_path linear_run = [x_line 5 0 1 (Some [0, 2, 4]), x_line 0 5 0 (Some [0, 2, 4])]"
  "nozzle_diameter linear_run = 4" "printing_speed linear_run = Num 3000"
  "m1_flux linear_run = Num 1" "layer_h linear_run = 1" "\<not> e_absolute linear_run"
  "\<not> retract linear_run" "flux_mode linear_run = 2" "m2_flux_start linear_run = Some (Num 1)"
  "m2_flux_end linear_run = Some (Num 2)" "density_kg_m3 linear_run = None"
  by (simp_all add: linear_run_def two_layers_def)

lemma linear_resolved_fields:
  "speeds linear_resolved = [3000]"
  "all_curves linear_resolved = [x_line 5 0 1 (Some [0, 2, 4]), x_line 0 5 0 (Some [0, 2, 4])]"
  "min_z linear_resolved = 0" "num_layers linear_resolved = 2"
  "speed_mode_detail linear_resolved = global"
  "flux_detail linear_resolved = linear_flux [1, 1] [2, 2]"
  by (simp_all add: linear_resolved_def two_layers_resolved_def)

lemma validate_linear_run: "validate linear_run = Inr linear_resolved"
  by (simp add: validate_def linear_run_fields valid_two_layers num_layers_two_layers
      scope_of_length_def resolve_flux_def speed_list_def linear_list_def linear_resolved_def
      two_layers_resolved_def)

lemma emit_curve_linear:
  "emit_curve linear_run linear_resolved 0 (x_line 0 5 0 (Some [0, 2, 4]), 1)
     \<lparr>gcode = [], extrusion_amount = 0, previous_point = None, current_speed = Some 3000,
      current_flux = None\<rparr>
   = Inr \<lparr>gcode = [G0 3000 \<lparr>X = 0, Y = 0, Z = 0\<rparr>,
                   G1 3000 \<lparr>X = 0, Y = 0, Z = 0\<rparr> 0,
                   G1 3000 \<lparr>X = 2, Y = 0, Z = 0\<rparr> (56 / (5 * constant_denominator)),
                   G1 3000 \<lparr>X = 4, Y = 0, Z = 0\<rparr> (72 / (5 * constant_denominator)),
                   G1 3000 \<lparr>X = 5, Y = 0, Z = 0\<rparr> (8 / constant_denominator)],
          extrusion_amount = 0,
          previous_point = Some \<lparr>X = 5, Y = 0, Z = 0\<rparr>, current_speed = Some 3000,
          current_flux = None\<rparr>"
  by (simp add: linear_resolved_fields linear_run_fields emit_curve_def emit_curve_flux_def
      lookup_def py_index_def segment_points_x_line segments_def normalized_distances_def
      cumulative_distances_def DistanceTo_def Let_def emit_segment_def segment_flux_def)

lemma chain_length_lower:
  "chain_length [\<lparr>X = 0, Y = 0, Z = 0\<rparr>, \<lparr>X = 0, Y = 0, Z = 0\<rparr>, \<lparr>X = 2, Y = 0, Z = 0\<rparr>,
                 \<lparr>X = 4, Y = 0, Z = 0\<rparr>, \<lparr>X = 5, Y = 0, Z = 0\<rparr>] = 5"
  by (simp add: DistanceTo_def)

text \<open>
  The lower curve of the worked run with a flux from 1 to 2, in relative mode: the flux
  is 1 at the first sample and 2 at the last, and the four \<open>G1\<close> lines carry the
  increments for the fluxes 1, 7/5, 9/5 and 2.
\<close>

theorem linear_flux_is_interpolated_witness:
  "flux_mode linear_run = 2
   \<and> flux_detail linear_resolved = linear_flux [1, 1] [2, 2]
   \<and> segment_points (nozzle_diameter linear_run) (x_line 0 5 0 (Some [0, 2, 4]))
       = Some [\<lparr>X = 0, Y = 0, Z = 0\<rparr>, \<lparr>X = 0, Y = 0, Z = 0\<rparr>, \<lparr>X = 2, Y = 0, Z = 0\<rparr>,
               \<lparr>X = 4, Y = 0, Z = 0\<rparr>, \<lparr>X = 5, Y = 0, Z = 0\<rparr>]
   \<and> chain_length [\<lparr>X = 0, Y = 0, Z = 0\<rparr>, \<lparr>X = 0, Y = 0, Z = 0\<rparr>, \<lparr>X = 2, Y = 0, Z = 0\<rparr>,
               \<lparr>X = 4, Y = 0, Z = 0\<rparr>, \<lparr>X = 5, Y = 0, Z = 0\<rparr>] = 5
   \<and> emit_curve linear_run linear_resolved 0 (x_line 0 5 0 (Some [0, 2, 4]), 1)
       \<lparr>gcode = [], extrusion_amount = 0, previous_point = None, current_speed = Some 3000,
        current_flux = None\<rparr>
     = Inr \<lparr>gcode = [G0 3000 \<lparr>X = 0, Y = 0, Z = 0\<rparr>,
                     G1 3000 \<lparr>X = 0, Y = 0, Z = 0\<rparr> 0,
                     G1 3000 \<lparr>X = 2, Y = 0, Z = 0\<rparr> (56 / (5 * constant_denominator)),
                     G1 3000 \<lparr>X = 4, Y = 0, Z = 0\<rparr> (72 / (5 * constant_denominator)),
                     G1 3000 \<lparr>X = 5, Y = 0, Z = 0\<rparr> (8 / constant_denominator)],
            extrusion_amount = 0,
            previous_point = Some \<lparr>X = 5, Y = 0, Z = 0\<rparr>, current_speed = Some 3000,
            current_flux = None\<rparr>
   \<and> interpolated 1 2 [\<lparr>X = 0, Y = 0, Z = 0\<rparr>, \<lparr>X = 0, Y = 0, Z = 0\<rparr>, \<lparr>X = 2, Y = 0, Z = 0\<rparr>,
               \<lparr>X = 4, Y = 0, Z = 0\<rparr>, \<lparr>X = 5, Y = 0, Z = 0\<rparr>] 0 = 1
   \<and> interpolated 1 2 [\<lparr>X = 0, Y = 0, Z = 0\<rparr>, \<lparr>X = 0, Y = 0, Z = 0\<rparr>, \<lparr>X = 2, Y = 0, Z = 0\<rparr>,
               \<lparr>X = 4, Y = 0, Z = 0\<rparr>, \<lparr>X = 5, Y = 0, Z = 0\<rparr>] 4 = 2"
proof -
  let ?pts = "[\<lparr>X = 0, Y = 0, Z = 0\<rparr>, \<lparr>X = 0, Y = 0, Z = 0\<rparr>, \<lparr>X = 2, Y = 0, Z = 0\<rparr>,
               \<lparr>X = 4, Y = 0, Z = 0\<rparr>, \<lparr>X = 5, Y = 0, Z = 0\<rparr>]"
  have p: "segment_points (nozzle_diameter linear_run) (x_line 0 5 0 (Some [0, 2, 4])) = Some ?pts"
    by (simp add: segment_points_x_line)
  have c: "0 < chain_length ?pts" by (simp only: chain_length_lower zero_less_numeral)
  from linear_flux_is_interpolated
    [OF linear_run_fields(8) linear_resolved_fields(6) emit_curve_linear p c]
  obtain sp start_flux end_flux where l: "lookup [1, 1] (int 1) = Inr start_flux"
    "lookup [2, 2] (int 1) = Inr end_flux"
    and i: "interpolated start_flux end_flux ?pts 0 = start_flux"
    "interpolated start_flux end_flux ?pts (length ?pts - 1) = end_flux"
    by (elim exE conjE)
  have "start_flux = 1" "end_flux = 2"
    using l by (simp_all add: lookup_def py_index_def)
  note se = this
  have len: "length ?pts - 1 = 4" by simp
  have "interpolated 1 2 ?pts 0 = 1" "interpolated 1 2 ?pts 4 = 2"
    using i unfolding len se by -
  with linear_run_fields(8) linear_resolved_fields(6) p chain_length_lower emit_curve_linear
  show ?thesis by (intro conjI)
qed

section \<open>Distances and the printing time\<close>

lemma extrusion_distance_simps [simp]:
  "extrusion_distance [] = 0"
  "extrusion_distance (pts # chs) = chain_length pts + extrusion_distance chs"
  "extrusion_distance (xs @ ys) = extrusion_distance xs + extrusion_distance ys"
  by (simp_all add: extrusion_distance_def)

lemma cursor_after_simps [simp]:
  "cursor_after cursor [] = cursor"
  "cursor_after cursor (pts # chs) = cursor_after (Some (last pts)) chs"
  by (simp_all add: cursor_after_def)

lemma travel_from_append:
  "travel_from cursor (xs @ ys) = travel_from cursor xs + travel_from (cursor_after cursor xs) ys"
  by (induction xs arbitrary: cursor) simp_all

lemma cursor_after_append:
  "cursor_after cursor (xs @ ys) = cursor_after (cursor_after cursor xs) ys"
  by (induction xs arbitrary: cursor) simp_all

lemma chain_length_zip:
  "chain_length pts = sum_list (map (\<lambda>(p, q). DistanceTo p q) (zip pts (tl pts)))"
  by (induction pts rule: chain_length.induct) simp_all

lemma segments_distances:
  "map (\<lambda>(prev, pt, t). DistanceTo prev pt) (segments pts)
     = map (\<lambda>(p, q). DistanceTo p q) (zip pts (tl pts))"
proof (rule nth_equalityI)
  show "length (map (\<lambda>(prev, pt, t). DistanceTo prev pt) (segments pts))
          = length (map (\<lambda>(p, q). DistanceTo p q) (zip pts (tl pts)))"
    by (simp add: length_segments)
next
  fix i assume "i < length (map (\<lambda>(prev, pt, t). DistanceTo prev pt) (segments pts))"
  then have i: "i < length pts - 1" by (simp add: length_segments)
  then show "map (\<lambda>(prev, pt, t). DistanceTo prev pt) (segments pts) ! i
               = map (\<lambda>(p, q). DistanceTo p q) (zip pts (tl pts)) ! i"
    by (simp add: length_segments segments_nth nth_tl)
qed

lemma chain_length_segments:
  "sum_list (map (\<lambda>(prev, pt, t). DistanceTo prev pt) (segments pts)) = chain_length pts"
  by (simp only: segments_distances chain_length_zip)

subsection \<open>The estimation pass of version 241001\<close>

text \<open>
  Each loop of the pass adds the chain lengths of the curves it divides and the gaps
  between them to \<open>total_printing_distance\<close>.
\<close>

lemma est_segment_Inr:
  assumes "est_segment a se (prev, pt, t) s = Inr s'"
  shows "total_printing_distance s' = total_printing_distance s + DistanceTo prev pt"
    and "est_previous_point s' = est_previous_point s"
  using assms by (auto simp: est_segment_def Let_def split: sum.splits)

lemma est_segments_distance:
  assumes "for_each (est_segment a se) segs s = Inr s'"
  shows "total_printing_distance s'
           = total_printing_distance s + sum_list (map (\<lambda>(prev, pt, t). DistanceTo prev pt) segs)
         \<and> est_previous_point s' = est_previous_point s"
  using assms
proof (induction segs arbitrary: s)
  case Nil
  then show ?case by simp
next
  case (Cons seg segs)
  obtain prev pt t where seg: "seg = (prev, pt, t)" by (cases seg) auto
  from Cons.prems obtain s1 where s1: "est_segment a se (prev, pt, t) s = Inr s1"
    and rest: "for_each (est_segment a se) segs s1 = Inr s'"
    by (auto simp: seg split: sum.splits)
  from est_segment_Inr [OF s1] Cons.IH [OF rest] show ?case
    by (simp add: seg)
qed

lemma est_curve_Inr:
  assumes "est_curve a r (c, idx) s = Inr s'"
  shows "case segment_points (nozzle_diameter a) c of
           None \<Rightarrow> total_printing_distance s' = total_printing_distance s
                    \<and> est_previous_point s' = est_previous_point s
         | Some pts \<Rightarrow>
             total_printing_distance s'
               = total_printing_distance s + chain_length pts
                 + (case est_previous_point s of None \<Rightarrow> 0 | Some p \<Rightarrow> DistanceTo p (hd pts))
             \<and> est_previous_point s' = Some (last pts)"
proof (cases "segment_points (nozzle_diameter a) c")
  case None
  with assms show ?thesis
    by (auto simp: est_curve_def split: sum.splits if_splits)
next
  case (Some pts)
  with assms obtain cf se s1 where
    l: "for_each (est_segment a se) (segments pts) (s\<lparr>est_flux := cf\<rparr>) = Inr s1"
    and s': "s' = s1\<lparr>total_printing_distance :=
                       (case est_previous_point s1 of
                          None \<Rightarrow> total_printing_distance s1
                        | Some pp \<Rightarrow>
                            total_printing_distance s1 + DistanceTo pp (hd pts)),
                     est_previous_point := Some (last pts)\<rparr>"
    by (auto simp: est_curve_def split: sum.splits if_splits)
  from est_segments_distance [OF l]
  have "total_printing_distance s1 = total_printing_distance s + chain_length pts"
    "est_previous_point s1 = est_previous_point s"
    by (simp_all add: chain_length_segments)
  then show ?thesis
    by (simp add: Some s' split: option.splits)
qed

lemma est_curves_distance:
  assumes "for_each (est_curve a r) members s = Inr s'"
  shows "total_printing_distance s'
           = total_printing_distance s
             + extrusion_distance (List.map_filter (\<lambda>(c, idx). segment_points (nozzle_diameter a) c) members)
             + travel_from (est_previous_point s)
                 (List.map_filter (\<lambda>(c, idx). segment_points (nozzle_diameter a) c) members)
         \<and> est_previous_point s'
           = cursor_after (est_previous_point s)
               (List.map_filter (\<lambda>(c, idx). segment_points (nozzle_diameter a) c) members)"
  using assms
proof (induction members arbitrary: s)
  case Nil
  then show ?case by (simp add: map_filter_simps)
next
  case (Cons member members)
  obtain c idx where member: "member = (c, idx)" by (cases member) auto
  from Cons.prems obtain s1 where s1: "est_curve a r (c, idx) s = Inr s1"
    and rest: "for_each (est_curve a r) members s1 = Inr s'"
    by (auto simp: member split: sum.splits)
  note step = est_curve_Inr [OF s1]
  note ih = Cons.IH [OF rest]
  show ?case
  proof (cases "segment_points (nozzle_diameter a) c")
    case None
    with step ih show ?thesis by (simp add: member map_filter_simps)
  next
    case (Some pts)
    with step ih show ?thesis by (simp add: member map_filter_simps)
  qed
qed

lemma est_layer_distance:
  assumes "est_layer a r (k, members) s = Inr s'"
  shows "total_printing_distance s'
           = total_printing_distance s
             + extrusion_distance (List.map_filter (\<lambda>(c, idx). segment_points (nozzle_diameter a) c) members)
             + travel_from (est_previous_point s)
                 (List.map_filter (\<lambda>(c, idx). segment_points (nozzle_diameter a) c) members)
         \<and> est_previous_point s'
           = cursor_after (est_previous_point s)
               (List.map_filter (\<lambda>(c, idx). segment_points (nozzle_diameter a) c) members)"
proof -
  from assms obtain cf where "for_each (est_curve a r) members (s\<lparr>est_flux := cf\<rparr>) = Inr s'"
    by (auto simp: est_layer_def split: sum.splits)
  from est_curves_distance [OF this] show ?thesis by simp
qed

lemma map_filter_append:
  "List.map_filter f (xs @ ys) = List.map_filter f xs @ List.map_filter f ys"
  by (simp add: map_filter_def)

lemma est_layers_distance:
  assumes "for_each (est_layer a r) lys s = Inr s'"
  shows "total_printing_distance s'
           = total_printing_distance s
             + extrusion_distance (List.map_filter (\<lambda>(c, idx). segment_points (nozzle_diameter a) c)
                                     (concat (map snd lys)))
             + travel_from (est_previous_point s)
                 (List.map_filter (\<lambda>(c, idx). segment_points (nozzle_diameter a) c)
                    (concat (map snd lys)))
         \<and> est_previous_point s'
           = cursor_after (est_previous_point s)
               (List.map_filter (\<lambda>(c, idx). segment_points (nozzle_diameter a) c)
                  (concat (map snd lys)))"
  using assms
proof (induction lys arbitrary: s)
  case Nil
  then show ?case by (simp add: map_filter_simps)
next
  case (Cons layer lys)
  obtain k members where layer: "layer = (k, members)" by (cases layer) auto
  from Cons.prems obtain s1 where s1: "est_layer a r (k, members) s = Inr s1"
    and rest: "for_each (est_layer a r) lys s1 = Inr s'"
    by (auto simp: layer split: sum.splits)
  from est_layer_distance [OF s1] Cons.IH [OF rest] show ?case
    by (simp add: layer map_filter_append travel_from_append cursor_after_append)
qed

lemma estimation_pass_distance:
  assumes "validate a = Inr r" "estimation_pass a r = Inr est"
  shows "total_printing_distance est
           = extrusion_distance (visited_chains a) + travel_from None (visited_chains a)"
  using est_layers_distance [OF assms(2) [unfolded estimation_pass_def]]
    validate_Inr(2,5) [OF assms(1)]
  by (simp add: visited_chains_def)

subsection \<open>The loop of version 240720\<close>

lemma points_240720_distance:
  assumes "points_240720 speed fl False pts s = Inr s'" "previous_point_a s = Some p"
  shows "total_extrusion_distance_a s' = total_extrusion_distance_a s + chain_length (p # pts)
         \<and> total_travel_distance_a s' = total_travel_distance_a s
         \<and> previous_point_a s' = Some (last (p # pts))"
  using assms
proof (induction pts arbitrary: s p)
  case Nil
  then show ?case by simp
next
  case (Cons pt pts)
  let ?s1 = "s\<lparr>total_extrusion_distance_a := total_extrusion_distance_a s + DistanceTo p pt,
                extrusion_amount_a := extrusion_amount_a s + DistanceTo p pt * fl,
                gcode_a := gcode_a s @ [G1 speed pt (extrusion_amount_a s + DistanceTo p pt * fl)],
                previous_point_a := Some pt\<rparr>"
  from Cons.prems have "points_240720 speed fl False pts ?s1 = Inr s'"
    by (simp add: Let_def)
  from Cons.IH [OF this, of pt] show ?case by simp
qed

lemma curve_240720_distance:
  assumes "curve_240720 nozzle speed fl c s = Inr s'"
  shows "total_extrusion_distance_a s'
           = total_extrusion_distance_a s + extrusion_distance (chains_240720 [c] nozzle)
         \<and> total_travel_distance_a s'
           = total_travel_distance_a s + travel_from (previous_point_a s) (chains_240720 [c] nozzle)
         \<and> previous_point_a s' = cursor_after (previous_point_a s) (chains_240720 [c] nozzle)"
proof (cases "IsValid c \<and> GetLength c > 0")
  case False
  with assms show ?thesis
    by (auto simp: curve_240720_def chains_240720_def map_filter_simps)
next
  case True
  show ?thesis
  proof (cases "segment_points nozzle c")
    case None
    with assms True show ?thesis
      by (auto simp: curve_240720_def chains_240720_def map_filter_simps)
  next
    case (Some pts)
    obtain p ps where pts: "pts = p # ps"
      using Some by (cases pts) (auto simp: segment_points_def split: option.splits)
    let ?s0 = "case previous_point_a s of None \<Rightarrow> s
               | Some pp \<Rightarrow> s\<lparr>total_travel_distance_a :=
                                total_travel_distance_a s + DistanceTo pp p\<rparr>"
    let ?s1 = "?s0\<lparr>previous_point_a := Some p\<rparr>"
    from assms True Some have run: "points_240720 speed fl False ps ?s1 = Inr s'"
      by (cases "previous_point_a s") (simp_all add: curve_240720_def pts not_le)
    have s1: "previous_point_a ?s1 = Some p" by simp
    have s0: "total_extrusion_distance_a ?s1 = total_extrusion_distance_a s"
      "total_travel_distance_a ?s1
         = total_travel_distance_a s
           + (case previous_point_a s of None \<Rightarrow> 0 | Some pp \<Rightarrow> DistanceTo pp p)"
      by (simp_all split: option.splits)
    from points_240720_distance [OF run s1] s0 True Some show ?thesis
      by (cases "previous_point_a s") (simp_all add: chains_240720_def map_filter_simps pts)
  qed
qed

lemma chains_240720_Cons:
  "chains_240720 (c # path) nozzle = chains_240720 [c] nozzle @ chains_240720 path nozzle"
  by (simp add: chains_240720_def map_filter_simps split: option.splits)

lemma curves_240720_distance:
  assumes "for_each (curve_240720 nozzle speed fl) path s = Inr s'"
  shows "total_extrusion_distance_a s'
           = total_extrusion_distance_a s + extrusion_distance (chains_240720 path nozzle)
         \<and> total_travel_distance_a s'
           = total_travel_distance_a s + travel_from (previous_point_a s) (chains_240720 path nozzle)
         \<and> previous_point_a s' = cursor_after (previous_point_a s) (chains_240720 path nozzle)"
  using assms
proof (induction path arbitrary: s)
  case Nil
  then show ?case by (simp add: chains_240720_def map_filter_simps)
next
  case (Cons c path)
  from Cons.prems obtain s1 where s1: "curve_240720 nozzle speed fl c s = Inr s1"
    and rest: "for_each (curve_240720 nozzle speed fl) path s1 = Inr s'"
    by (auto split: sum.splits)
  from curve_240720_distance [OF s1] Cons.IH [OF rest] show ?case
    by (simp add: chains_240720_Cons [of c path] travel_from_append cursor_after_append)
qed

lemma generate_240720_time:
  assumes "generate_gcode_240720 path nozzle speed fl h = Inr (g, t, l)"
  shows "t = extrusion_distance (chains_240720 path nozzle) / speed
             + travel_from None (chains_240720 path nozzle) / travel_speed"
proof -
  from assms obtain s where
    run: "for_each (curve_240720 nozzle speed fl) path
            \<lparr>gcode_a = start_block_240720, total_extrusion_distance_a = 0,
             total_travel_distance_a = 0, extrusion_amount_a = 0,
             previous_point_a = None\<rparr> = Inr s"
    and t: "t = total_extrusion_distance_a s / speed + total_travel_distance_a s / travel_speed"
    by (auto simp: generate_gcode_240720_def split: if_splits sum.splits)
  from curves_240720_distance [OF run] show ?thesis by (simp add: t)
qed

subsection \<open>The loops of version 240811\<close>

lemma segments_240811_distance:
  assumes "for_each (segment_240811 speed cur_flux) segs s = Inr s'"
  shows "total_extrusion_distance_b s'
           = total_extrusion_distance_b s + sum_list (map (\<lambda>(p, q). DistanceTo p q) segs)
         \<and> total_travel_distance_b s' = total_travel_distance_b s
         \<and> previous_point_b s' = previous_point_b s"
  using assms
proof (induction segs arbitrary: s)
  case Nil
  then show ?case by simp
next
  case (Cons seg segs)
  obtain p q where seg: "seg = (p, q)" by (cases seg) auto
  from Cons.prems obtain s1 where s1: "segment_240811 speed cur_flux (p, q) s = Inr s1"
    and rest: "for_each (segment_240811 speed cur_flux) segs s1 = Inr s'"
    by (auto simp: seg split: sum.splits)
  from s1 have "total_extrusion_distance_b s1 = total_extrusion_distance_b s + DistanceTo p q"
    "total_travel_distance_b s1 = total_travel_distance_b s"
    "previous_point_b s1 = previous_point_b s"
    by (auto simp: segment_240811_def Let_def split: pyval.splits)
  with Cons.IH [OF rest] show ?case by (simp add: seg)
qed

lemma curve_240811_distance:
  assumes "curve_240811 nozzle speed cur_flux c s = Inr s'"
  shows "total_extrusion_distance_b s'
           = total_extrusion_distance_b s
             + extrusion_distance (List.map_filter (segment_points nozzle) [c])
         \<and> total_travel_distance_b s'
           = total_travel_distance_b s
             + travel_from (previous_point_b s) (List.map_filter (segment_points nozzle) [c])
         \<and> previous_point_b s'
           = cursor_after (previous_point_b s) (List.map_filter (segment_points nozzle) [c])"
proof (cases "segment_points nozzle c")
  case None
  with assms show ?thesis by (simp add: curve_240811_def map_filter_simps)
next
  case (Some pts)
  with assms obtain s1 where
    l: "for_each (segment_240811 speed cur_flux) (zip pts (tl pts)) s = Inr s1"
    and s': "s' = s1\<lparr>total_travel_distance_b :=
                       (case previous_point_b s1 of
                          None \<Rightarrow> total_travel_distance_b s1
                        | Some pp \<Rightarrow> total_travel_distance_b s1 + DistanceTo pp (hd pts)),
                     previous_point_b := Some (last pts)\<rparr>"
    by (auto simp: curve_240811_def split: sum.splits)
  from segments_240811_distance [OF l]
  have "total_extrusion_distance_b s1 = total_extrusion_distance_b s + chain_length pts"
    "total_travel_distance_b s1 = total_travel_distance_b s"
    "previous_point_b s1 = previous_point_b s"
    by (simp_all add: chain_length_zip)
  then show ?thesis
    by (cases "previous_point_b s") (simp_all add: Some s' map_filter_simps)
qed

lemma curves_240811_distance:
  assumes "for_each (curve_240811 nozzle speed cur_flux) cs s = Inr s'"
  shows "total_extrusion_distance_b s'
           = total_extrusion_distance_b s
             + extrusion_distance (List.map_filter (segment_points nozzle) cs)
         \<and> total_travel_distance_b s'
           = total_travel_distance_b s
             + travel_from (previous_point_b s) (List.map_filter (segment_points nozzle) cs)
         \<and> previous_point_b s'
           = cursor_after (previous_point_b s) (List.map_filter (segment_points nozzle) cs)"
  using assms
proof (induction cs arbitrary: s)
  case Nil
  then show ?case by (simp add: map_filter_simps)
next
  case (Cons c cs)
  from Cons.prems obtain s1 where s1: "curve_240811 nozzle speed cur_flux c s = Inr s1"
    and rest: "for_each (curve_240811 nozzle speed cur_flux) cs s1 = Inr s'"
    by (auto split: sum.splits)
  define one where "one = List.map_filter (segment_points nozzle) [c]"
  define more where "more = List.map_filter (segment_points nozzle) cs"
  have split: "List.map_filter (segment_points nozzle) (c # cs) = one @ more"
    by (simp add: one_def more_def map_filter_simps split: option.splits)
  from curve_240811_distance [OF s1, folded one_def] Cons.IH [OF rest, folded more_def]
  show ?case
    unfolding split by (simp add: travel_from_append cursor_after_append)
qed

lemma layer_240811_distance:
  assumes "layer_240811 nozzle speed fluxes h retr (k, cs) s = Inr s'"
  shows "total_extrusion_distance_b s'
           = total_extrusion_distance_b s
             + extrusion_distance (List.map_filter (segment_points nozzle) cs)
         \<and> total_travel_distance_b s'
           = total_travel_distance_b s
             + travel_from (previous_point_b s) (List.map_filter (segment_points nozzle) cs)
         \<and> previous_point_b s'
           = lifted h retr
               (cursor_after (previous_point_b s) (List.map_filter (segment_points nozzle) cs))"
proof -
  from assms obtain cur_flux s1 where
    l: "for_each (curve_240811 nozzle speed cur_flux) cs
          (s\<lparr>gcode_b := gcode_b s @ [LayerStart (k + 1)]\<rparr>) = Inr s1"
    and s': "if retr
             then \<exists>lp. previous_point_b s1 = Some lp
                    \<and> s' = s1\<lparr>gcode_b := gcode_b s1 @ [G1_F_Z speed (Z lp + h), LayerEnd (k + 1)],
                               previous_point_b := Some (lp\<lparr>Z := Z lp + h\<rparr>)\<rparr>
             else s' = s1\<lparr>gcode_b := gcode_b s1 @ [LayerEnd (k + 1)]\<rparr>"
    by (auto simp: layer_240811_def split: option.splits sum.splits if_splits)
  note d = curves_240811_distance [OF l]
  show ?thesis
  proof (cases retr)
    case True
    with s' obtain lp where lp: "previous_point_b s1 = Some lp"
      and s'': "s' = s1\<lparr>gcode_b := gcode_b s1 @ [G1_F_Z speed (Z lp + h), LayerEnd (k + 1)],
                        previous_point_b := Some (lp\<lparr>Z := Z lp + h\<rparr>)\<rparr>"
      by auto
    from d lp have "cursor_after (previous_point_b s) (List.map_filter (segment_points nozzle) cs)
                      = Some lp"
      by simp
    with d show ?thesis by (simp add: s'' lifted_def True)
  next
    case False
    with s' have "s' = s1\<lparr>gcode_b := gcode_b s1 @ [LayerEnd (k + 1)]\<rparr>" by simp
    with d show ?thesis by (simp add: lifted_def False)
  qed
qed

lemma layers_240811_distance:
  assumes "for_each (layer_240811 nozzle speed fluxes h retr) lys s = Inr s'"
  shows "total_extrusion_distance_b s'
           = total_extrusion_distance_b s
             + extrusion_distance
                 (concat (map (\<lambda>(k, cs). List.map_filter (segment_points nozzle) cs) lys))
         \<and> total_travel_distance_b s'
           = total_travel_distance_b s
             + layered_travel h retr (previous_point_b s)
                 (map (\<lambda>(k, cs). List.map_filter (segment_points nozzle) cs) lys)"
  using assms
proof (induction lys arbitrary: s)
  case Nil
  then show ?case by simp
next
  case (Cons layer lys)
  obtain k cs where layer: "layer = (k, cs)" by (cases layer) auto
  from Cons.prems obtain s1 where s1: "layer_240811 nozzle speed fluxes h retr (k, cs) s = Inr s1"
    and rest: "for_each (layer_240811 nozzle speed fluxes h retr) lys s1 = Inr s'"
    by (auto simp: layer split: sum.splits)
  from layer_240811_distance [OF s1] Cons.IH [OF rest] show ?case
    by (simp add: layer)
qed

lemma generate_240811_time:
  assumes "generate_gcode_240811 path nozzle speed printing_flux h retr = Inr out"
  shows "printing_time out
           = extrusion_distance (concat (layer_chains_240811 path nozzle h)) / speed
             + layered_travel h retr None (layer_chains_240811 path nozzle h) / speed"
    and "printing_path_len out = extrusion_distance (concat (layer_chains_240811 path nozzle h))"
proof -
  from assms obtain s where
    run: "for_each (layer_240811 nozzle speed (flux_list_240811 printing_flux) h retr)
            (curves_by_layer_240811 path h)
            \<lparr>gcode_b = start_block_240811, total_extrusion_distance_b = 0,
             total_travel_distance_b = 0, extrusion_amount_b = 0,
             previous_point_b = None\<rparr> = Inr s"
    and out: "printing_time out
                = (if total_extrusion_distance_b s + total_travel_distance_b s \<noteq> 0
                   then (total_extrusion_distance_b s + total_travel_distance_b s) / speed else 0)"
       "printing_path_len out = total_extrusion_distance_b s"
    by (auto simp: generate_gcode_240811_def Let_def split: if_splits sum.splits)
  have t: "printing_time out
             = (total_extrusion_distance_b s + total_travel_distance_b s) / speed"
    by (simp add: out)
  from layers_240811_distance [OF run]
  show "printing_time out
           = extrusion_distance (concat (layer_chains_240811 path nozzle h)) / speed
             + layered_travel h retr None (layer_chains_240811 path nozzle h) / speed"
    and "printing_path_len out = extrusion_distance (concat (layer_chains_240811 path nozzle h))"
    by (simp_all add: t out(2) layer_chains_240811_def add_divide_distrib)
qed

subsection \<open>The returned time\<close>

lemma estimate_time_Inr:
  assumes "estimate_time vs d = Inr t"
  shows "t = d / average_speed vs"
  using assms
  by (auto simp: estimate_time_def average_speed_def Let_def split: if_splits)

lemma generate_241001_time:
  assumes "generate_gcode a = Inr out"
  shows "printing_time out
           = extrusion_distance (visited_chains a) / average_speed (speed_list (printing_speed a))
             + travel_from None (visited_chains a) / average_speed (speed_list (printing_speed a))"
    and "printing_path_len out
           = extrusion_distance (visited_chains a) + travel_from None (visited_chains a)"
proof -
  from assms obtain r est t s where r: "validate a = Inr r"
    and est: "estimation_pass a r = Inr est"
    and t: "estimate_time (speeds r) (total_printing_distance est) = Inr t"
    and s: "generation_pass a r = Inr s"
    and out: "out = \<lparr>g_code = gcode s @ end_block a, printing_time = t,
                      printing_path_len = total_printing_distance est, layers = num_layers r\<rparr>"
    by (rule generate_gcode_Inr)
  note d = estimation_pass_distance [OF r est]
  from estimate_time_Inr [OF t] validate_Inr(1) [OF r] d
  show "printing_time out
           = extrusion_distance (visited_chains a) / average_speed (speed_list (printing_speed a))
             + travel_from None (visited_chains a) / average_speed (speed_list (printing_speed a))"
    by (simp add: out add_divide_distrib)
  from d show "printing_path_len out
           = extrusion_distance (visited_chains a) + travel_from None (visited_chains a)"
    by (simp add: out)
qed

lemma generate_240720_speed:
  assumes "generate_gcode_240720 path nozzle speed fl h = Inr res"
  shows "1800 \<le> speed" "speed \<le> 11000"
  using assms by (auto simp: generate_gcode_240720_def split: if_splits)

subsection \<open>The three versions on the worked inputs\<close>

lemma run_240720_two_layers:
  "map_sum id (\<lambda>(g, t, l). (t, l))
     (generate_gcode_240720 [x_line 5 0 1 (Some [0, 2, 4]), x_line 0 5 0 (Some [0, 2, 4])] 4 3000 1 1)
     = Inr (10 / 3000 + 1 / 12000, 10)"
  by (simp add: generate_gcode_240720_def curve_240720_def x_line_fields segment_points_x_line
      DistanceTo_def travel_speed_def Let_def)

lemma layers_240811_two_layers:
  "curves_by_layer_240811 [x_line 5 0 1 (Some [0, 2, 4]), x_line 0 5 0 (Some [0, 2, 4])] 1
     = [(0, [x_line 0 5 0 (Some [0, 2, 4])]), (1, [x_line 5 0 1 (Some [0, 2, 4])])]"
  by (simp add: curves_by_layer_240811_def Let_def py_int_def x_line_fields)

lemma run_240811_two_layers:
  "map_sum id (\<lambda>out. (printing_time out, printing_path_len out))
     (generate_gcode_240811 [x_line 5 0 1 (Some [0, 2, 4]), x_line 0 5 0 (Some [0, 2, 4])]
        4 3000 (Num 1) 1 False)
     = Inr (11 / 3000, 10)"
  by (simp add: generate_gcode_240811_def layers_240811_two_layers flux_list_240811_def
      layer_240811_def curve_240811_def segment_240811_def py_index_def
      segment_points_x_line DistanceTo_def Let_def)

lemma chains_two_layers:
  "visited_chains two_layers
     = [[\<lparr>X = 0, Y = 0, Z = 0\<rparr>, \<lparr>X = 0, Y = 0, Z = 0\<rparr>, \<lparr>X = 2, Y = 0, Z = 0\<rparr>,
         \<lparr>X = 4, Y = 0, Z = 0\<rparr>, \<lparr>X = 5, Y = 0, Z = 0\<rparr>],
        [\<lparr>X = 5, Y = 0, Z = 1\<rparr>, \<lparr>X = 5, Y = 0, Z = 1\<rparr>, \<lparr>X = 3, Y = 0, Z = 1\<rparr>,
         \<lparr>X = 1, Y = 0, Z = 1\<rparr>, \<lparr>X = 0, Y = 0, Z = 1\<rparr>]]"
  by (simp add: visited_chains_def two_layers_fields valid_two_layers num_layers_two_layers
      layers_two_layers segment_points_x_line map_filter_simps)

lemma distances_two_layers:
  "extrusion_distance (visited_chains two_layers) = 10"
  "travel_from None (visited_chains two_layers) = 1"
  by (simp_all add: chains_two_layers DistanceTo_def)

text \<open>
  Claim C9, as the three versions compute it. With the extrusion distance the summed
  chain lengths of the divided curves, and the travel distance the summed gaps from the
  end of one divided curve to the start of the next: version 240720 returns the
  extrusion distance over the printing speed plus the travel distance over 12000, a
  constant that is not the printing speed. Version 240811 divides both distances by the
  printing speed, and version 241001 divides both by the mean of the speed list.
\<close>

theorem printing_time_of_each_version:
  "(generate_gcode_240720 path nozzle speed fl h = Inr (g, t, l) \<longrightarrow>
      t = extrusion_distance (chains_240720 path nozzle) / speed
          + travel_from None (chains_240720 path nozzle) / travel_speed
      \<and> travel_speed = 12000 \<and> travel_speed \<noteq> speed)
   \<and> (generate_gcode_240811 path nozzle speed printing_flux h retr = Inr out \<longrightarrow>
      printing_time out
        = extrusion_distance (concat (layer_chains_240811 path nozzle h)) / speed
          + layered_travel h retr None (layer_chains_240811 path nozzle h) / speed)
   \<and> (generate_gcode a = Inr out' \<longrightarrow>
      printing_time out'
        = extrusion_distance (visited_chains a) / average_speed (speed_list (printing_speed a))
          + travel_from None (visited_chains a) / average_speed (speed_list (printing_speed a)))"
proof (intro conjI impI)
  assume run: "generate_gcode_240720 path nozzle speed fl h = Inr (g, t, l)"
  show "t = extrusion_distance (chains_240720 path nozzle) / speed
          + travel_from None (chains_240720 path nozzle) / travel_speed"
    by (rule generate_240720_time [OF run])
  show "travel_speed = 12000" by (simp add: travel_speed_def)
  from generate_240720_speed(2) [OF run] show "travel_speed \<noteq> speed"
    by (simp add: travel_speed_def)
next
  assume "generate_gcode_240811 path nozzle speed printing_flux h retr = Inr out"
  then show "printing_time out
        = extrusion_distance (concat (layer_chains_240811 path nozzle h)) / speed
          + layered_travel h retr None (layer_chains_240811 path nozzle h) / speed"
    by (rule generate_240811_time(1))
next
  assume "generate_gcode a = Inr out'"
  then show "printing_time out'
        = extrusion_distance (visited_chains a) / average_speed (speed_list (printing_speed a))
          + travel_from None (visited_chains a) / average_speed (speed_list (printing_speed a))"
    by (rule generate_241001_time(1))
qed

theorem printing_time_of_each_version_witness:
  "map_sum id (\<lambda>(g, t, l). t)
     (generate_gcode_240720 (printing_path two_layers) 4 3000 1 1) = Inr (10 / 3000 + 1 / 12000)
   \<and> map_sum id printing_time
       (generate_gcode_240811 (printing_path two_layers) 4 3000 (Num 1) 1 False)
       = Inr (10 / 3000 + 1 / 3000)
   \<and> map_sum id printing_time (generate_gcode two_layers) = Inr (10 / 3000 + 1 / 3000)"
proof -
  let ?P = "[x_line 5 0 1 (Some [0, 2, 4]), x_line 0 5 0 (Some [0, 2, 4])]"
  have P: "printing_path two_layers = ?P" by (simp add: two_layers_fields)
  obtain g t l where a: "generate_gcode_240720 ?P 4 3000 1 1 = Inr (g, t, l)"
    using run_240720_two_layers
    by (cases "generate_gcode_240720 ?P 4 3000 1 1") auto
  obtain out where b: "generate_gcode_240811 ?P 4 3000 (Num 1) 1 False = Inr out"
    using run_240811_two_layers
    by (cases "generate_gcode_240811 ?P 4 3000 (Num 1) 1 False") auto
  obtain out' where c: "generate_gcode two_layers = Inr out'"
    using generate_two_layers by simp
  note inst = printing_time_of_each_version
    [where path = ?P and nozzle = 4 and speed = 3000 and fl = 1 and h = 1 and g = g and t = t
       and l = l and printing_flux = "Num 1" and retr = False and out = out
       and a = two_layers and out' = out']
  have chains_a: "chains_240720 ?P 4
      = [[\<lparr>X = 5, Y = 0, Z = 1\<rparr>, \<lparr>X = 5, Y = 0, Z = 1\<rparr>, \<lparr>X = 3, Y = 0, Z = 1\<rparr>,
          \<lparr>X = 1, Y = 0, Z = 1\<rparr>, \<lparr>X = 0, Y = 0, Z = 1\<rparr>],
         [\<lparr>X = 0, Y = 0, Z = 0\<rparr>, \<lparr>X = 0, Y = 0, Z = 0\<rparr>, \<lparr>X = 2, Y = 0, Z = 0\<rparr>,
          \<lparr>X = 4, Y = 0, Z = 0\<rparr>, \<lparr>X = 5, Y = 0, Z = 0\<rparr>]]"
    by (simp add: chains_240720_def x_line_fields segment_points_x_line map_filter_simps)
  have chains_b: "layer_chains_240811 ?P 4 1
      = [[[\<lparr>X = 0, Y = 0, Z = 0\<rparr>, \<lparr>X = 0, Y = 0, Z = 0\<rparr>, \<lparr>X = 2, Y = 0, Z = 0\<rparr>,
           \<lparr>X = 4, Y = 0, Z = 0\<rparr>, \<lparr>X = 5, Y = 0, Z = 0\<rparr>]],
         [[\<lparr>X = 5, Y = 0, Z = 1\<rparr>, \<lparr>X = 5, Y = 0, Z = 1\<rparr>, \<lparr>X = 3, Y = 0, Z = 1\<rparr>,
           \<lparr>X = 1, Y = 0, Z = 1\<rparr>, \<lparr>X = 0, Y = 0, Z = 1\<rparr>]]]"
    by (simp add: layer_chains_240811_def layers_240811_two_layers segment_points_x_line
        map_filter_simps)
  from inst a have "t = 10 / 3000 + 1 / 12000"
    by (simp add: chains_a DistanceTo_def travel_speed_def)
  moreover from inst b have "printing_time out = 10 / 3000 + 1 / 3000"
    by (simp add: chains_b DistanceTo_def lifted_def)
  moreover from inst c have "printing_time out' = 10 / 3000 + 1 / 3000"
    by (simp add: distances_two_layers two_layers_fields speed_list_def average_speed_def)
  ultimately show ?thesis
    by (simp add: P a b c)
qed

theorem travel_is_timed_at_the_printing_speed_counterexample:
  "extrusion_distance (visited_chains two_layers) = 10
   \<and> travel_from None (visited_chains two_layers) = 1
   \<and> speed_list (printing_speed two_layers) = [3000]
   \<and> map_sum id printing_time (generate_gcode two_layers) = Inr (11 / 3000)
   \<and> {rapid. map_sum id printing_time (generate_gcode two_layers)
                = Inr (10 / 3000 + 1 / rapid)} = {3000}"
proof -
  have "(11 / 3000 = 10 / 3000 + 1 / rapid) = (rapid = 3000)" for rapid :: real
  proof
    assume "11 / 3000 = 10 / 3000 + 1 / rapid"
    then have "1 / rapid = 1 / 3000" by simp
    then show "rapid = 3000" by (simp add: field_simps split: if_splits)
  qed simp
  then show ?thesis
    by (simp add: distances_two_layers two_layers_fields speed_list_def generate_two_layers)
qed

end
